theory Spec2Isabelle
  imports Main "HOL-Library.Word"
begin

unbundle bit_operations_syntax

section \<open>helpers.js: strings, fingerprint, domain routing\<close>

text \<open>
  JavaScript strings are sequences of UTF-16 code units. The model uses \<^typ>\<open>string\<close>:
  a \<^typ>\<open>char\<close> stands for the code unit with the same number, so the model covers the
  strings whose code units are below 256 (ASCII and Latin-1), and \<open>of_char c\<close> is what
  \<^verbatim>\<open>charCodeAt\<close> returns.
\<close>

text \<open>
  \<^verbatim>\<open>String.prototype.trim\<close> strips WhiteSpace and LineTerminator code points from both
  ends. Below 256 these are TAB, LF, VT, FF, CR, SPACE and NBSP.
\<close>

definition isWhiteSpace :: "char \<Rightarrow> bool" where
  "isWhiteSpace c = (of_char c \<in> {9, 10, 11, 12, 13, 32, 160 :: nat})"

definition trim :: "string \<Rightarrow> string" where
  "trim s = rev (dropWhile isWhiteSpace (rev (dropWhile isWhiteSpace s)))"

text \<open>
  \<^verbatim>\<open>String.prototype.toLowerCase\<close> below 256: the letters A-Z and the Latin-1 capitals
  0xC0-0xDE (without the multiplication sign 0xD7) move up by 32; every other code unit
  stays.
\<close>

definition toLowerChar :: "char \<Rightarrow> char" where
  "toLowerChar c =
     (let n = (of_char c :: nat) in
      if (65 \<le> n \<and> n \<le> 90) \<or> (192 \<le> n \<and> n \<le> 222 \<and> n \<noteq> 215)
      then char_of (n + 32) else c)"

definition toLowerCase :: "string \<Rightarrow> string" where
  "toLowerCase s = map toLowerChar s"

text \<open>\<^verbatim>\<open>String.prototype.includes\<close>: the argument occurs as a contiguous substring.\<close>

fun startsWith :: "string \<Rightarrow> string \<Rightarrow> bool" where
  "startsWith s [] = True"
| "startsWith [] (p # ps) = False"
| "startsWith (c # cs) (p # ps) = (c = p \<and> startsWith cs ps)"

fun includes_str :: "string \<Rightarrow> string \<Rightarrow> bool" where
  "includes_str [] sub = (sub = [])"
| "includes_str (c # cs) sub = (startsWith (c # cs) sub \<or> includes_str cs sub)"

text \<open>The decimal rendering of a non-negative integer inside a template literal.\<close>

fun dec_str :: "nat \<Rightarrow> string" where
  "dec_str n =
     (if n < 10 then [''0123456789'' ! n]
      else dec_str (n div 10) @ [''0123456789'' ! (n mod 10)])"

declare dec_str.simps [simp del]

text \<open>
  \<^verbatim>\<open>generateJobId\<close>, the loop body
  \<^verbatim>\<open>hash = (hash << 5) - hash + char; hash |= 0\<close>.
  The shift converts to a 32-bit integer, the subtraction and addition are exact in
  double precision (magnitudes stay below \<open>2 ^ 37\<close>), and \<^verbatim>\<open>|= 0\<close> reduces modulo
  \<open>2 ^ 32\<close> again: the step is word arithmetic on \<^typ>\<open>32 word\<close>, read back as a signed
  value. \<^verbatim>\<open>Math.abs\<close> works on the number, so \<open>- 2 ^ 31\<close> becomes \<open>2 ^ 31\<close>.
\<close>

fun hash_loop :: "32 word \<Rightarrow> string \<Rightarrow> 32 word" where
  "hash_loop hash [] = hash"
| "hash_loop hash (c # cs) = hash_loop (push_bit 5 hash - hash + of_nat (of_char c)) cs"

definition generateJobId :: "string \<Rightarrow> string \<Rightarrow> string" where
  "generateJobId title company =
     (let raw = toLowerCase (trim title) @ ''::'' @ toLowerCase (trim company);
          hash = hash_loop 0 raw
      in ''job_'' @ dec_str (nat \<bar>sint hash\<bar>))"

text \<open>
  \<^verbatim>\<open>getDomainGroup\<close>. The platform's URL parser is a parameter: \<open>hostname_of url\<close> is
  \<^verbatim>\<open>new URL(url).hostname\<close>, and \<open>None\<close> when the constructor throws. The body of the
  \<^verbatim>\<open>try\<close> block is \<open>getDomainGroup_try\<close>, with the message of the exception as
  \<open>Inl\<close>; the \<^verbatim>\<open>catch\<close> block turns every exception into \<^verbatim>\<open>'generic'\<close>.
\<close>

definition getDomainGroup_try :: "(string \<Rightarrow> string option) \<Rightarrow> string \<Rightarrow> string + string" where
  "getDomainGroup_try hostname_of url =
     (case hostname_of url of
        None \<Rightarrow> Inl ''Invalid URL''
      | Some h \<Rightarrow>
          (let hostname = toLowerCase h in
           if includes_str hostname ''linkedin.com'' then Inr ''linkedin''
           else if includes_str hostname ''indeed.com'' then Inr ''indeed''
           else Inr ''generic''))"

definition getDomainGroup :: "(string \<Rightarrow> string option) \<Rightarrow> string \<Rightarrow> string + string" where
  "getDomainGroup hostname_of url =
     (case getDomainGroup_try hostname_of url of
        Inl err \<Rightarrow> Inr ''generic''
      | Inr res \<Rightarrow> Inr res)"

section \<open>background.js: data, run state and environment\<close>

text \<open>
  The levels of \<^verbatim>\<open>log\<close> (helpers.js) and of \<^verbatim>\<open>broadcastStatus\<close>.
\<close>

datatype log_level = DEBUG | INFO | WARN | ERROR

datatype status_level = StInfo | StSuccess | StWarn | StError | StComplete

text \<open>
  The objects the service worker handles. A field that is missing or \<^verbatim>\<open>undefined\<close> in
  the JavaScript object is the empty string here: both are falsy, and the code reads these
  fields only through \<^verbatim>\<open>||\<close> and \<^verbatim>\<open>!\<close>. \<open>rawJob\<close> is a row collected from the
  dashboard, \<open>popupData\<close> the detail panel, \<open>externalData\<close> the result of the injected
  scraper, \<open>emailData\<close> the email template.
\<close>

record rawJob =
  raw_title :: string
  raw_company :: string

record popupData =
  pd_title :: string
  pd_company :: string
  pd_hiringManager :: string
  pd_shortDescription :: string
  pd_viewFullPostUrl :: string

record externalData =
  ed_fullDescription :: string
  ed_applyEmail :: string
  ed_location :: string
  ed_experience :: string

record emailData =
  em_emailSubject :: string
  em_emailBody :: string

text \<open>
  The merged record (\<^verbatim>\<open>jobPayload\<close>) that is stored and posted. Wall-clock fields
  (\<^verbatim>\<open>processedAt\<close>, \<^verbatim>\<open>lastRun\<close>, the timestamp of a status message) are left out.
\<close>

record jobPayload =
  jobId :: string
  title :: string
  company :: string
  hiringManager :: string
  shortDescription :: string
  viewFullPostUrl :: string
  fullDescription :: string
  applyEmail :: string
  location :: string
  experience :: string
  emailSubject :: string
  emailBody :: string
  source :: string
  jdResumeBuilt :: bool

record http_response =
  resp_ok :: bool
  resp_status :: nat
  resp_text :: string
  resp_json :: string

record api_result =
  api_success :: bool
  api_response :: string
  api_error :: string

text \<open>
  What the service worker does to the outside, in order: console logging, the
  \<^verbatim>\<open>STATUS_UPDATE\<close> message of the status channel (message, level and the stats it
  carries), timers, and calls of the browser and network interfaces.
\<close>

datatype event =
    Log log_level string
  | Status string status_level nat nat nat
  | Sleep nat
  | StorageGet string
  | StorageSet string
  | StorageRemove string
  | TabsQuery
  | TabsSendMessage string
  | ExecuteScript string
  | TabsCreate string
  | WaitForTabComplete "nat option"
  | TabsRemove nat
  | TabsUpdate "nat option" string
  | TabsReload "nat option"
  | Fetch string string

text \<open>
  The state: the module variables of background.js, the keys of
  \<^verbatim>\<open>chrome.storage.local\<close> the code uses (a missing key is \<open>None\<close>), the external tabs
  that are open, the trace, two counters of the model (the number of suspension points,
  \<^verbatim>\<open>await\<close>, passed and the number of POST requests issued), and a history variable:
  \<open>observed\<close> holds, for every suspension passed, the values of the two guard flags at
  that moment. These are the values that a message handler, or a second call of a guarded
  function, finds when it runs while the service worker is suspended there.
\<close>

record guards =
  seen_isRunning :: bool
  seen_isProcessing :: bool

record world =
  queue :: "rawJob list"
  isRunning :: bool
  stopRequested :: bool
  dashboardTabId :: "nat option"
  processedCount :: nat
  failedCount :: nat
  isProcessing :: bool
  scrapedJobs :: "jobPayload list option"
  processed_ids :: "string list option"
  stats :: "(nat \<times> nat) option"
  queue_active :: "bool option"
  openTabs :: "nat list"
  trace :: "event list"
  awaits :: nat
  fetches :: nat
  observed :: "guards list"

text \<open>
  The environment decides what the collaborators answer. \<open>stop_at t\<close>: a
  \<^verbatim>\<open>STOP_QUEUE\<close> message is dispatched during suspension number \<open>t\<close>. The answers of
  the per-item calls are indexed by the row; \<open>Inl\<close> or \<open>Some\<close> carries the message of the
  Error a promise rejects with. \<open>fetch_post n\<close> is the answer to the \<open>n\<close>-th POST.
\<close>

record env =
  stop_at :: "nat \<Rightarrow> bool"
  hostname_of :: "string \<Rightarrow> string option"
  tabs_query :: "string + nat list"
  collect_jobs :: "string + rawJob list option"
  click :: "nat \<Rightarrow> string option"
  popup :: "nat \<Rightarrow> string + popupData"
  tab_create :: "nat \<Rightarrow> string + nat"
  tab_load :: "nat \<Rightarrow> string option"
  scrape :: "nat \<Rightarrow> string + externalData option"
  tab_remove :: "nat \<Rightarrow> string option"
  email :: "nat \<Rightarrow> string + emailData"
  storage_get_fail :: "nat \<Rightarrow> string option"
  storage_set_fail :: "nat \<Rightarrow> string option"
  fetch_post :: "nat \<Rightarrow> string + http_response"
  fetch_jobs :: "string + http_response \<times> jobPayload list"
  navigate_update :: "string option"
  navigate_wait :: "string option"
  build_resume :: "nat \<Rightarrow> string + bool"
  reload :: "nat \<Rightarrow> string option"
  reload_wait :: "nat \<Rightarrow> string option"

section \<open>constants.js, logging, status channel and suspension\<close>

definition JOB_DELAY_MS :: nat where "JOB_DELAY_MS = 5000"
definition MAX_RETRIES :: nat where "MAX_RETRIES = 3"
definition RETRY_BASE_DELAY_MS :: nat where "RETRY_BASE_DELAY_MS = 1000"
definition PROCESSED_IDS :: string where "PROCESSED_IDS = ''recruitpulse_processed_ids''"
definition QUEUE_ACTIVE :: string where "QUEUE_ACTIVE = ''recruitpulse_queue_active''"
definition STATS :: string where "STATS = ''recruitpulse_stats''"

text \<open>
  \<^verbatim>\<open>a || b\<close> on strings, and a string between double quotes. Messages are written
  without their leading pictograph, and with ASCII dots and dash.
\<close>

definition or_else :: "string \<Rightarrow> string \<Rightarrow> string" where
  "or_else a b = (if a = [] then b else a)"

definition quoted :: "string \<Rightarrow> string" where
  "quoted s = CHR 0x22 # s @ [CHR 0x22]"

text \<open>
  \<^verbatim>\<open>log\<close> prints when the level is not below \<^verbatim>\<open>CURRENT_LEVEL\<close> (its data argument is
  not modelled). \<^verbatim>\<open>broadcastStatus\<close> logs the message and sends it, with the counters,
  to the popup; the send is not awaited.
\<close>

definition emit :: "event \<Rightarrow> world \<Rightarrow> world" where
  "emit ev w = w\<lparr>trace := trace w @ [ev]\<rparr>"

fun level_num :: "log_level \<Rightarrow> nat" where
  "level_num DEBUG = 0"
| "level_num INFO = 1"
| "level_num WARN = 2"
| "level_num ERROR = 3"

definition CURRENT_LEVEL :: nat where "CURRENT_LEVEL = level_num DEBUG"

definition log :: "log_level \<Rightarrow> string \<Rightarrow> world \<Rightarrow> world" where
  "log level message w = (if level_num level < CURRENT_LEVEL then w else emit (Log level message) w)"

definition broadcastStatus :: "string \<Rightarrow> status_level \<Rightarrow> world \<Rightarrow> world" where
  "broadcastStatus message level w =
     emit (Status message level (processedCount w) (failedCount w) (length (queue w)))
       (log INFO message w)"

text \<open>
  The message router's cases \<^verbatim>\<open>STOP_QUEUE\<close> and \<^verbatim>\<open>JOBS_COLLECTED\<close>. At every
  \<^verbatim>\<open>await\<close> the service worker is suspended and a pending stop message is dispatched:
  \<open>suspend\<close>, which also notes in \<open>observed\<close> the guard flags as they are at that
  moment. \<open>sleep\<close> is the timer, \<open>call\<close> an awaited call of an outside interface.
\<close>

definition onStopQueue :: "world \<Rightarrow> world" where
  "onStopQueue w = log INFO ''Stop requested by user'' (w\<lparr>stopRequested := True\<rparr>)"

definition onJobsCollected :: "rawJob list \<Rightarrow> world \<Rightarrow> world" where
  "onJobsCollected jobs w =
     (log INFO (''Dashboard reported '' @ dec_str (length jobs) @ '' jobs'') w)\<lparr>queue := jobs\<rparr>"

definition suspend :: "env \<Rightarrow> world \<Rightarrow> world" where
  "suspend E w =
     (let w' = w\<lparr>awaits := awaits w + 1,
                 observed := observed w @ [\<lparr>seen_isRunning = isRunning w,
                                              seen_isProcessing = isProcessing w\<rparr>]\<rparr>
      in if stop_at E (awaits w) then onStopQueue w' else w')"

definition sleep :: "env \<Rightarrow> nat \<Rightarrow> world \<Rightarrow> world" where
  "sleep E ms w = suspend E (emit (Sleep ms) w)"

definition call :: "env \<Rightarrow> event \<Rightarrow> world \<Rightarrow> world" where
  "call E ev w = suspend E (emit ev w)"

section \<open>helpers.js \<^verbatim>\<open>retry\<close> and api.js \<^verbatim>\<open>sendJobToAPI\<close>\<close>

text \<open>
  What \<^verbatim>\<open>retry\<close> throws: the last error, or \<^verbatim>\<open>undefined\<close> when the loop body never
  ran. The \<^verbatim>\<open>for\<close> loop is \<open>retry_loop\<close>, from \<open>attempt\<close> on.
\<close>

datatype thrown = Undefined | Error string

function retry_loop ::
  "(world \<Rightarrow> (thrown + 'a) \<times> world) \<Rightarrow> env \<Rightarrow> nat \<Rightarrow> nat \<Rightarrow> nat \<Rightarrow> thrown \<Rightarrow> world
   \<Rightarrow> (thrown + 'a) \<times> world" where
  "retry_loop fn E maxRetries baseDelayMs attempt lastError w =
     (if attempt \<le> maxRetries then
        (case fn w of
           (Inr v, w1) \<Rightarrow> (Inr v, w1)
         | (Inl err, w1) \<Rightarrow>
             (let delay = baseDelayMs * 2 ^ (attempt - 1);
                  w2 = log WARN (''Attempt '' @ dec_str attempt @ ''/'' @ dec_str maxRetries
                                 @ '' failed. Retrying in '' @ dec_str delay @ ''ms...'') w1;
                  w3 = (if attempt < maxRetries then sleep E delay w2 else w2)
              in retry_loop fn E maxRetries baseDelayMs (attempt + 1) err w3))
      else (Inl lastError, w))"
  by pat_completeness auto
termination
  by (relation "measure (\<lambda>(fn, E, maxRetries, baseDelayMs, attempt, lastError, w). maxRetries + 1 - attempt)") auto

declare retry_loop.simps [simp del]

definition retry ::
  "(world \<Rightarrow> (thrown + 'a) \<times> world) \<Rightarrow> env \<Rightarrow> nat \<Rightarrow> nat \<Rightarrow> world \<Rightarrow> (thrown + 'a) \<times> world" where
  "retry fn E maxRetries baseDelayMs w = retry_loop fn E maxRetries baseDelayMs 1 Undefined w"

text \<open>
  The function api.js passes to \<^verbatim>\<open>retry\<close>: read the Telegram configuration, POST the
  record, throw on a response that is not ok, return the parsed body otherwise.
  \<^verbatim>\<open>sendJobToAPI\<close> turns exhaustion into a failure result; its \<^verbatim>\<open>catch\<close> block reads
  \<^verbatim>\<open>err.message\<close>, which itself throws a TypeError when \<open>err\<close> is
  \<^verbatim>\<open>undefined\<close>. The \<open>Inl\<close> of \<open>sendJobToAPI\<close> and of every function below is the
  message of the Error thrown.
\<close>

definition postJob :: "env \<Rightarrow> jobPayload \<Rightarrow> world \<Rightarrow> (thrown + string) \<times> world" where
  "postJob E jobData w =
     (let w1 = call E (StorageGet ''telegram_config'') w;
          n = fetches w1;
          w2 = call E (Fetch ''POST'' (jobId jobData)) (w1\<lparr>fetches := n + 1\<rparr>)
      in case fetch_post E n of
           Inl msg \<Rightarrow> (Inl (Error msg), w2)
         | Inr response \<Rightarrow>
             if \<not> resp_ok response
             then (Inl (Error (''API error '' @ dec_str (resp_status response) @ '': ''
                               @ resp_text response)), suspend E w2)
             else (Inr (resp_json response), suspend E w2))"

definition sendJobToAPI :: "env \<Rightarrow> jobPayload \<Rightarrow> world \<Rightarrow> (string + api_result) \<times> world" where
  "sendJobToAPI E jobData w =
     (case retry (postJob E jobData) E MAX_RETRIES RETRY_BASE_DELAY_MS (log INFO ''Sending job to API'' w) of
        (Inr result, w1) \<Rightarrow>
          (Inr \<lparr>api_success = True, api_response = result, api_error = []\<rparr>,
           log INFO ''Job sent successfully'' w1)
      | (Inl Undefined, w1) \<Rightarrow>
          (Inl ''Cannot read properties of undefined'', w1)
      | (Inl (Error msg), w1) \<Rightarrow>
          (Inr \<lparr>api_success = False, api_response = [], api_error = msg\<rparr>,
           log ERROR ''Failed to send job to API after retries'' w1))"

section \<open>background.js: one item\<close>

text \<open>
  \<^verbatim>\<open>markAsProcessed\<close> and \<^verbatim>\<open>updateStats\<close> (helpers.js) use the callback form of the
  storage interface and always resolve.
\<close>

definition markAsProcessed :: "env \<Rightarrow> string \<Rightarrow> world \<Rightarrow> world" where
  "markAsProcessed E jid w =
     (let w1 = emit (StorageGet PROCESSED_IDS) w;
          ids = (case processed_ids w1 of None \<Rightarrow> [] | Some xs \<Rightarrow> xs);
          ids' = (if jid \<in> set ids then ids else ids @ [jid]);
          w2 = emit (StorageSet PROCESSED_IDS) (w1\<lparr>processed_ids := Some ids'\<rparr>)
      in suspend E w2)"

definition updateStats :: "env \<Rightarrow> string \<Rightarrow> world \<Rightarrow> world" where
  "updateStats E type w =
     (let w1 = emit (StorageGet STATS) w;
          st = (case stats w1 of None \<Rightarrow> (0, 0) | Some x \<Rightarrow> x);
          st1 = (if type = ''success'' then (fst st + 1, snd st) else st);
          st2 = (if type = ''failed'' then (fst st1, snd st1 + 1) else st1);
          w2 = emit (StorageSet STATS) (w1\<lparr>stats := Some st2\<rparr>)
      in suspend E w2)"

text \<open>
  The awaited calls of \<^verbatim>\<open>processJobFlow\<close>, each one an event, a suspension and the
  environment's answer: the injected click, \<^verbatim>\<open>getPopupData\<close>, \<^verbatim>\<open>chrome.tabs.create\<close>,
  \<^verbatim>\<open>waitForTabComplete\<close>, the injected scraper (\<open>None\<close> is an empty result),
  \<^verbatim>\<open>chrome.tabs.remove\<close> and \<^verbatim>\<open>getEmailData\<close> (which gets the row only to index
  the environment).
\<close>

definition simulateClick :: "env \<Rightarrow> nat \<Rightarrow> world \<Rightarrow> (string + unit) \<times> world" where
  "simulateClick E rowIndex w =
     (case click E rowIndex of Some msg \<Rightarrow> Inl msg | None \<Rightarrow> Inr (),
      call E (ExecuteScript ''simulateClickInMainWorld'') w)"

definition getPopupData :: "env \<Rightarrow> nat \<Rightarrow> world \<Rightarrow> (string + popupData) \<times> world" where
  "getPopupData E rowIndex w = (popup E rowIndex, call E (TabsSendMessage ''CLICK_JOB_ACTION'') w)"

definition tabs_create_call :: "env \<Rightarrow> nat \<Rightarrow> string \<Rightarrow> world \<Rightarrow> (string + nat) \<times> world" where
  "tabs_create_call E rowIndex url w =
     (let w1 = call E (TabsCreate url) w
      in case tab_create E rowIndex of
           Inl msg \<Rightarrow> (Inl msg, w1)
         | Inr tab \<Rightarrow> (Inr tab, w1\<lparr>openTabs := openTabs w1 @ [tab]\<rparr>))"

definition waitForTabComplete :: "env \<Rightarrow> nat \<Rightarrow> nat \<Rightarrow> world \<Rightarrow> (string + unit) \<times> world" where
  "waitForTabComplete E rowIndex tabId w =
     (case tab_load E rowIndex of Some msg \<Rightarrow> Inl msg | None \<Rightarrow> Inr (),
      call E (WaitForTabComplete (Some tabId)) w)"

definition scrapeExternalJobPage :: "env \<Rightarrow> nat \<Rightarrow> world \<Rightarrow> (string + externalData option) \<times> world" where
  "scrapeExternalJobPage E rowIndex w =
     (scrape E rowIndex, call E (ExecuteScript ''scrapeExternalJobPage'') w)"

definition tabs_remove_call :: "env \<Rightarrow> nat \<Rightarrow> nat \<Rightarrow> world \<Rightarrow> (string + unit) \<times> world" where
  "tabs_remove_call E rowIndex tabId w =
     (let w1 = call E (TabsRemove tabId) w
      in case tab_remove E rowIndex of
           Some msg \<Rightarrow> (Inl msg, w1)
         | None \<Rightarrow> (Inr (), w1\<lparr>openTabs := removeAll tabId (openTabs w1)\<rparr>))"

definition getEmailData :: "env \<Rightarrow> nat \<Rightarrow> world \<Rightarrow> (string + emailData) \<times> world" where
  "getEmailData E rowIndex w = (email E rowIndex, call E (TabsSendMessage ''EXTRACT_EMAIL_DATA'') w)"

text \<open>
  The blocks of \<^verbatim>\<open>processJobFlow\<close> in source order: open and load the external tab
  (one \<^verbatim>\<open>try\<close>); scrape with the \<^verbatim>\<open>finally\<close> block that closes the tab
  (\<open>closeTab\<close>, \<open>extractExternal\<close>); the email template; the merged record; the write to
  local storage; the submission. \<open>mergeAndSend\<close> is everything after the tab has loaded,
  none of which can fail the item.
\<close>

definition openExternalTab :: "env \<Rightarrow> nat \<Rightarrow> string \<Rightarrow> world \<Rightarrow> (string + nat) \<times> world" where
  "openExternalTab E rowIndex viewUrl w =
     (case tabs_create_call E rowIndex viewUrl w of
        (Inl msg, w1) \<Rightarrow> (Inl (''Failed to open/load external tab: '' @ msg), w1)
      | (Inr tab, w1) \<Rightarrow>
          (case waitForTabComplete E rowIndex tab w1 of
             (Inl msg, w2) \<Rightarrow> (Inl (''Failed to open/load external tab: '' @ msg), w2)
           | (Inr _, w2) \<Rightarrow> (Inr tab, w2)))"

definition closeTab :: "env \<Rightarrow> nat \<Rightarrow> string \<Rightarrow> nat \<Rightarrow> world \<Rightarrow> world" where
  "closeTab E rowIndex jobNum tab w =
     (case tabs_remove_call E rowIndex tab w of
        (Inl msg, w1) \<Rightarrow> w1
      | (Inr _, w1) \<Rightarrow> log INFO (jobNum @ '' Tab closed'') w1)"

definition extractExternal :: "env \<Rightarrow> nat \<Rightarrow> string \<Rightarrow> nat \<Rightarrow> world \<Rightarrow> externalData \<times> world" where
  "extractExternal E rowIndex jobNum tab w =
     (let initial = \<lparr>ed_fullDescription = [], ed_applyEmail = [], ed_location = [], ed_experience = []\<rparr>
      in case scrapeExternalJobPage E rowIndex (sleep E 1000 w) of
           (Inl msg, w1) \<Rightarrow>
             (initial, closeTab E rowIndex jobNum tab (log WARN (jobNum @ '' External extractor failed'') w1))
         | (Inr None, w1) \<Rightarrow>
             (initial, closeTab E rowIndex jobNum tab
                         (log WARN (jobNum @ '' External scraping returned empty result'') w1))
         | (Inr (Some result), w1) \<Rightarrow>
             (result, closeTab E rowIndex jobNum tab (log INFO (jobNum @ '' External data extracted'') w1)))"

definition extractEmail :: "env \<Rightarrow> nat \<Rightarrow> string \<Rightarrow> world \<Rightarrow> emailData \<times> world" where
  "extractEmail E rowIndex jobNum w =
     (case getEmailData E rowIndex (broadcastStatus (jobNum @ '' Extracting email template...'') StInfo w) of
        (Inl msg, w1) \<Rightarrow>
          (\<lparr>em_emailSubject = [], em_emailBody = []\<rparr>, log WARN (jobNum @ '' Email extraction failed'') w1)
      | (Inr emailData, w1) \<Rightarrow> (emailData, log INFO (jobNum @ '' Email data extracted'') w1))"

definition buildPayload ::
  "rawJob \<Rightarrow> string \<Rightarrow> popupData \<Rightarrow> string \<Rightarrow> externalData \<Rightarrow> emailData \<Rightarrow> string \<Rightarrow> jobPayload" where
  "buildPayload rawJob jid popupData viewUrl externalData emailData src =
     \<lparr>jobId = jid,
      title = or_else (or_else (pd_title popupData) (raw_title rawJob)) [],
      company = or_else (or_else (pd_company popupData) (raw_company rawJob)) [],
      hiringManager = or_else (pd_hiringManager popupData) [],
      shortDescription = or_else (pd_shortDescription popupData) [],
      viewFullPostUrl = viewUrl,
      fullDescription = or_else (ed_fullDescription externalData) [],
      applyEmail = or_else (ed_applyEmail externalData) ''not-provided'',
      location = or_else (ed_location externalData) [],
      experience = or_else (ed_experience externalData) [],
      emailSubject = or_else (em_emailSubject emailData) [],
      emailBody = or_else (em_emailBody emailData) [],
      source = src,
      jdResumeBuilt = False\<rparr>"

definition saveToLocalStorage :: "env \<Rightarrow> nat \<Rightarrow> string \<Rightarrow> string \<Rightarrow> jobPayload \<Rightarrow> world \<Rightarrow> world" where
  "saveToLocalStorage E rowIndex jobNum jid jobPayload w =
     (let w1 = call E (StorageGet ''scrapedJobs'') w
      in case storage_get_fail E rowIndex of
           Some msg \<Rightarrow> log WARN (jobNum @ '' Failed to save to local storage'') w1
         | None \<Rightarrow>
             (let jobs = (case scrapedJobs w1 of None \<Rightarrow> [] | Some js \<Rightarrow> js);
                  filtered = filter (\<lambda>j. jobId j \<noteq> jid) jobs @ [jobPayload];
                  w2 = call E (StorageSet ''scrapedJobs'') w1
              in case storage_set_fail E rowIndex of
                   Some msg \<Rightarrow> log WARN (jobNum @ '' Failed to save to local storage'') w2
                 | None \<Rightarrow> log INFO (jobNum @ '' Saved to local storage'') (w2\<lparr>scrapedJobs := Some filtered\<rparr>)))"

definition submitToAPI :: "env \<Rightarrow> jobPayload \<Rightarrow> world \<Rightarrow> world" where
  "submitToAPI E jobPayload w =
     (case sendJobToAPI E jobPayload w of
        (Inl msg, w1) \<Rightarrow> log WARN (''API call failed: '' @ msg) w1
      | (Inr apiResult, w1) \<Rightarrow>
          if \<not> api_success apiResult
          then log WARN (''API submission failed but continuing: '' @ api_error apiResult) w1
          else w1)"

definition mergeAndSend ::
  "env \<Rightarrow> rawJob \<Rightarrow> string \<Rightarrow> nat \<Rightarrow> string \<Rightarrow> popupData \<Rightarrow> string \<Rightarrow> string \<Rightarrow> nat \<Rightarrow> world \<Rightarrow> world" where
  "mergeAndSend E rawJob jid rowIndex jobNum popupData viewUrl src tab w =
     (case extractExternal E rowIndex jobNum tab w of
        (externalData, w1) \<Rightarrow>
          (case extractEmail E rowIndex jobNum w1 of
             (emailData, w2) \<Rightarrow>
               (let jobPayload = buildPayload rawJob jid popupData viewUrl externalData emailData src
                in submitToAPI E jobPayload (saveToLocalStorage E rowIndex jobNum jid jobPayload w2))))"

definition processJobFlow :: "env \<Rightarrow> rawJob \<Rightarrow> string \<Rightarrow> nat \<Rightarrow> string \<Rightarrow> world \<Rightarrow> (string + unit) \<times> world" where
  "processJobFlow E rawJob jid rowIndex jobNum w =
     (case simulateClick E rowIndex (broadcastStatus (jobNum @ '' Simulating interaction...'') StInfo w) of
        (Inl msg, w1) \<Rightarrow> (Inl (''Failed to simulate click: '' @ msg), w1)
      | (Inr _, w1) \<Rightarrow>
          (case getPopupData E rowIndex w1 of
             (Inl msg, w2) \<Rightarrow> (Inl (''Popup extraction failed: '' @ msg), w2)
           | (Inr popupData, w2) \<Rightarrow>
               (let w3 = log INFO (jobNum @ '' Popup data extracted'') w2;
                    viewUrl = pd_viewFullPostUrl popupData
                in if viewUrl = []
                   then (Inl (''No '' @ quoted ''View Full Post'' @ '' URL found in popup''), w3)
                   else
                     (case getDomainGroup (hostname_of E) viewUrl of
                        Inl msg \<Rightarrow> (Inl msg, w3)
                      | Inr src \<Rightarrow>
                          (case openExternalTab E rowIndex viewUrl
                                  (broadcastStatus (jobNum @ '' Opening '' @ src @ '' page...'') StInfo w3) of
                             (Inl msg, w4) \<Rightarrow> (Inl msg, w4)
                           | (Inr tab, w4) \<Rightarrow>
                               (Inr (), mergeAndSend E rawJob jid rowIndex jobNum popupData viewUrl src tab w4))))))"

text \<open>
  \<^verbatim>\<open>processSingleJob\<close>: the lock \<^verbatim>\<open>isProcessing\<close>, released in \<^verbatim>\<open>finally\<close>.
\<close>

definition processSingleJob :: "env \<Rightarrow> rawJob \<Rightarrow> string \<Rightarrow> nat \<Rightarrow> string \<Rightarrow> world \<Rightarrow> (string + unit) \<times> world" where
  "processSingleJob E rawJob jid rowIndex jobNum w =
     (if isProcessing w then (Inr (), w)
      else
        (case processJobFlow E rawJob jid rowIndex jobNum (w\<lparr>isProcessing := True\<rparr>) of
           (Inl msg, w1) \<Rightarrow> (Inl msg, w1\<lparr>isProcessing := False\<rparr>)
         | (Inr _, w1) \<Rightarrow>
             (Inr (), (updateStats E ''success'' (markAsProcessed E jid w1))\<lparr>isProcessing := False\<rparr>)))"

section \<open>Unfolding the retry loop\<close>

lemma retry_loop_exit:
  "\<not> attempt \<le> maxRetries \<Longrightarrow>
   retry_loop fn E maxRetries baseDelayMs attempt lastError w = (Inl lastError, w)"
  by (simp add: retry_loop.simps)

lemma retry_loop_success:
  "attempt \<le> maxRetries \<Longrightarrow> fn w = (Inr v, w1) \<Longrightarrow>
   retry_loop fn E maxRetries baseDelayMs attempt lastError w = (Inr v, w1)"
  by (simp add: retry_loop.simps)

definition retry_warn :: "nat \<Rightarrow> nat \<Rightarrow> nat \<Rightarrow> string" where
  "retry_warn attempt maxRetries delay =
     ''Attempt '' @ dec_str attempt @ ''/'' @ dec_str maxRetries
     @ '' failed. Retrying in '' @ dec_str delay @ ''ms...''"

lemma retry_loop_failure:
  "attempt \<le> maxRetries \<Longrightarrow> fn w = (Inl err, w1) \<Longrightarrow>
   retry_loop fn E maxRetries baseDelayMs attempt lastError w
   = retry_loop fn E maxRetries baseDelayMs (attempt + 1) err
       (if attempt < maxRetries
        then sleep E (baseDelayMs * 2 ^ (attempt - 1))
               (log WARN (retry_warn attempt maxRetries (baseDelayMs * 2 ^ (attempt - 1))) w1)
        else log WARN (retry_warn attempt maxRetries (baseDelayMs * 2 ^ (attempt - 1))) w1)"
  by (subst retry_loop.simps) (simp add: Let_def retry_warn_def)

lemma retry_loop_invariant:
  assumes fn: "\<And>w. P w \<Longrightarrow> P (snd (fn w))"
    and sl: "\<And>w ms. P w \<Longrightarrow> P (sleep E ms w)"
    and lg: "\<And>w m. P w \<Longrightarrow> P (log WARN m w)"
  shows "P w \<Longrightarrow> P (snd (retry_loop fn E m b a le w))"
proof (induction "m + 1 - a" arbitrary: a le w)
  case 0
  then have "\<not> a \<le> m" by simp
  then show ?case using "0.prems" by (simp add: retry_loop_exit)
next
  case (Suc n)
  then have le: "a \<le> m" by simp
  obtain r1 w1 where f: "fn w = (r1, w1)" by (cases "fn w")
  have p1: "P w1" using fn [OF Suc.prems] f by simp
  show ?case
  proof (cases r1)
    case (Inr v)
    then show ?thesis using le f p1 by (simp add: retry_loop_success)
  next
    case (Inl err)
    have "n = m + 1 - (a + 1)" using Suc.hyps(2) by simp
    then show ?thesis
      using le f Inl p1 by (simp add: retry_loop_failure Suc.hyps(1) sl lg)
  qed
qed

section \<open>What a step of a run keeps\<close>

text \<open>
  \<open>evolves E w w'\<close>: from \<open>w\<close> to \<open>w'\<close> the queue, the run flag, the dashboard tab and
  the two counters are kept, suspensions only increase, and the stop flag is set in \<open>w'\<close>
  exactly when it was set in \<open>w\<close> or a stop message was dispatched at a suspension in
  between. Every step of the processing of one item evolves the state.
\<close>

definition evolves :: "env \<Rightarrow> world \<Rightarrow> world \<Rightarrow> bool" where
  "evolves E w w' \<longleftrightarrow>
     queue w' = queue w \<and> isRunning w' = isRunning w \<and> dashboardTabId w' = dashboardTabId w
     \<and> processedCount w' = processedCount w \<and> failedCount w' = failedCount w
     \<and> awaits w \<le> awaits w'
     \<and> (stopRequested w' \<longleftrightarrow>
          stopRequested w \<or> (\<exists>t. awaits w \<le> t \<and> t < awaits w' \<and> stop_at E t))"

lemma evolves_refl: "evolves E w w"
  by (auto simp: evolves_def)

lemma evolves_emit: "evolves E w0 w \<Longrightarrow> evolves E w0 (emit ev w)"
  by (simp add: evolves_def emit_def)

lemma evolves_log: "evolves E w0 w \<Longrightarrow> evolves E w0 (log l m w)"
  by (simp add: log_def evolves_emit)

lemma evolves_broadcastStatus: "evolves E w0 w \<Longrightarrow> evolves E w0 (broadcastStatus m l w)"
  by (simp add: broadcastStatus_def evolves_emit evolves_log)

lemma evolves_suspend: "evolves E w0 w \<Longrightarrow> evolves E w0 (suspend E w)"
  unfolding evolves_def suspend_def onStopQueue_def log_def emit_def Let_def
  by (auto simp: less_Suc_eq)

lemma evolves_sleep: "evolves E w0 w \<Longrightarrow> evolves E w0 (sleep E ms w)"
  by (simp add: sleep_def evolves_emit evolves_suspend)

lemma evolves_call: "evolves E w0 w \<Longrightarrow> evolves E w0 (call E ev w)"
  by (simp add: call_def evolves_emit evolves_suspend)

lemma evolves_fields:
  "evolves E w0 w \<Longrightarrow> evolves E w0 (w\<lparr>fetches := n\<rparr>)"
  "evolves E w0 w \<Longrightarrow> evolves E w0 (w\<lparr>openTabs := ts\<rparr>)"
  "evolves E w0 w \<Longrightarrow> evolves E w0 (w\<lparr>scrapedJobs := js\<rparr>)"
  "evolves E w0 w \<Longrightarrow> evolves E w0 (w\<lparr>processed_ids := ids\<rparr>)"
  "evolves E w0 w \<Longrightarrow> evolves E w0 (w\<lparr>stats := st\<rparr>)"
  "evolves E w0 w \<Longrightarrow> evolves E w0 (w\<lparr>isProcessing := b\<rparr>)"
  by (simp_all add: evolves_def)

lemmas evolves_steps =
  evolves_emit evolves_log evolves_broadcastStatus evolves_suspend evolves_sleep evolves_call
  evolves_fields

lemma evolves_postJob:
  "evolves E w0 w \<Longrightarrow> evolves E w0 (snd (postJob E p w))"
  by (auto simp: postJob_def Let_def split: sum.splits intro!: evolves_steps)

lemma evolves_retry_loop:
  "(\<And>w. evolves E w0 w \<Longrightarrow> evolves E w0 (snd (fn w))) \<Longrightarrow>
   evolves E w0 w \<Longrightarrow> evolves E w0 (snd (retry_loop fn E m b a le w))"
  by (rule retry_loop_invariant [where P = "evolves E w0"]) (auto intro: evolves_steps)

lemma evolves_sendJobToAPI:
  "evolves E w0 w \<Longrightarrow> evolves E w0 (snd (sendJobToAPI E p w))"
  unfolding sendJobToAPI_def retry_def
  by (auto simp: split_beta split: sum.splits thrown.splits
           intro!: evolves_steps evolves_retry_loop evolves_postJob)

lemma evolves_submitToAPI: "evolves E w0 w \<Longrightarrow> evolves E w0 (submitToAPI E p w)"
  by (auto simp: submitToAPI_def split_beta split: sum.splits
           intro!: evolves_steps evolves_sendJobToAPI)

lemma evolves_markAsProcessed: "evolves E w0 w \<Longrightarrow> evolves E w0 (markAsProcessed E jid w)"
  by (auto simp: markAsProcessed_def Let_def intro!: evolves_steps)

lemma evolves_updateStats: "evolves E w0 w \<Longrightarrow> evolves E w0 (updateStats E type w)"
  by (auto simp: updateStats_def Let_def intro!: evolves_steps)

lemma evolves_calls:
  "evolves E w0 w \<Longrightarrow> evolves E w0 (snd (simulateClick E i w))"
  "evolves E w0 w \<Longrightarrow> evolves E w0 (snd (getPopupData E i w))"
  "evolves E w0 w \<Longrightarrow> evolves E w0 (snd (tabs_create_call E i url w))"
  "evolves E w0 w \<Longrightarrow> evolves E w0 (snd (waitForTabComplete E i tab w))"
  "evolves E w0 w \<Longrightarrow> evolves E w0 (snd (scrapeExternalJobPage E i w))"
  "evolves E w0 w \<Longrightarrow> evolves E w0 (snd (tabs_remove_call E i tab w))"
  "evolves E w0 w \<Longrightarrow> evolves E w0 (snd (getEmailData E i w))"
  by (auto simp: simulateClick_def getPopupData_def tabs_create_call_def waitForTabComplete_def
                 scrapeExternalJobPage_def tabs_remove_call_def getEmailData_def Let_def
           split: sum.splits option.splits intro!: evolves_steps)

lemma evolves_openExternalTab:
  "evolves E w0 w \<Longrightarrow> evolves E w0 (snd (openExternalTab E i url w))"
  by (auto simp: openExternalTab_def split_beta split: sum.splits intro!: evolves_calls)

lemma evolves_closeTab: "evolves E w0 w \<Longrightarrow> evolves E w0 (closeTab E i jobNum tab w)"
  by (auto simp: closeTab_def split_beta split: sum.splits intro!: evolves_steps evolves_calls)

lemma evolves_extractExternal:
  "evolves E w0 w \<Longrightarrow> evolves E w0 (snd (extractExternal E i jobNum tab w))"
  by (auto simp: extractExternal_def Let_def split_beta split: sum.splits option.splits
           intro!: evolves_closeTab evolves_steps evolves_calls)

lemma evolves_extractEmail:
  "evolves E w0 w \<Longrightarrow> evolves E w0 (snd (extractEmail E i jobNum w))"
  by (auto simp: extractEmail_def split_beta split: sum.splits
           intro!: evolves_steps evolves_calls)

lemma evolves_saveToLocalStorage:
  "evolves E w0 w \<Longrightarrow> evolves E w0 (saveToLocalStorage E i jobNum jid p w)"
  by (auto simp: saveToLocalStorage_def Let_def split: option.splits intro!: evolves_steps)

lemma evolves_mergeAndSend:
  "evolves E w0 w \<Longrightarrow> evolves E w0 (mergeAndSend E rawJob jid i jobNum pd url src tab w)"
  by (auto simp: mergeAndSend_def Let_def split_beta
           intro!: evolves_submitToAPI evolves_saveToLocalStorage
                   evolves_extractEmail evolves_extractExternal)

lemma evolves_processJobFlow:
  "evolves E w0 w \<Longrightarrow> evolves E w0 (snd (processJobFlow E rawJob jid i jobNum w))"
  by (auto simp: processJobFlow_def Let_def split_beta split: sum.splits
           intro!: evolves_mergeAndSend evolves_steps evolves_openExternalTab evolves_calls)

lemma evolves_processSingleJob:
  "evolves E w0 w \<Longrightarrow> evolves E w0 (snd (processSingleJob E rawJob jid i jobNum w))"
  by (auto simp: processSingleJob_def split_beta split: sum.splits
           intro!: evolves_steps evolves_updateStats evolves_markAsProcessed evolves_processJobFlow)

section \<open>background.js: the queue loop\<close>

text \<open>
  One iteration of the \<^verbatim>\<open>for\<close> loop of \<^verbatim>\<open>runQueue\<close>, from the read of
  \<^verbatim>\<open>queue[i]\<close> to the end of its \<^verbatim>\<open>try\<close>/\<^verbatim>\<open>catch\<close>.
\<close>

definition runQueue_item :: "env \<Rightarrow> nat \<Rightarrow> world \<Rightarrow> world" where
  "runQueue_item E i w =
     (let rawJob = queue w ! i;
          jid = generateJobId (or_else (raw_title rawJob) (''job_'' @ dec_str i))
                  (or_else (raw_company rawJob) ''unknown'');
          jobNum = ''['' @ dec_str (i + 1) @ ''/'' @ dec_str (length (queue w)) @ '']'';
          w1 = broadcastStatus (jobNum @ '' Processing: '' @ quoted (raw_title rawJob)) StInfo w
      in case processSingleJob E rawJob jid i jobNum w1 of
           (Inr _, w2) \<Rightarrow>
             broadcastStatus (jobNum @ '' Done: '' @ quoted (raw_title rawJob)) StSuccess
               (w2\<lparr>processedCount := processedCount w2 + 1\<rparr>)
         | (Inl msg, w2) \<Rightarrow>
             broadcastStatus (jobNum @ '' Failed: '' @ quoted (raw_title rawJob) @ '' - '' @ msg) StError
               (log ERROR (jobNum @ '' Job failed'')
                  (updateStats E ''failed'' (w2\<lparr>failedCount := failedCount w2 + 1\<rparr>))))"

text \<open>
  \<open>advances\<close> is \<open>evolves\<close> without the counters, which an iteration changes.
\<close>

definition advances :: "env \<Rightarrow> world \<Rightarrow> world \<Rightarrow> bool" where
  "advances E w w' \<longleftrightarrow>
     queue w' = queue w \<and> isRunning w' = isRunning w \<and> dashboardTabId w' = dashboardTabId w
     \<and> awaits w \<le> awaits w'
     \<and> (stopRequested w' \<longleftrightarrow>
          stopRequested w \<or> (\<exists>t. awaits w \<le> t \<and> t < awaits w' \<and> stop_at E t))"

lemma evolves_advances: "evolves E w w' \<Longrightarrow> advances E w w'"
  by (simp add: evolves_def advances_def)

lemma advances_refl: "advances E w w"
  by (auto simp: advances_def)

lemma advances_trans: "advances E w w1 \<Longrightarrow> advances E w1 w2 \<Longrightarrow> advances E w w2"
  unfolding advances_def
  by (elim conjE, intro conjI) (simp_all, metis le_trans not_le)

lemma advances_counters:
  "advances E w0 w \<Longrightarrow> advances E w0 (w\<lparr>processedCount := n\<rparr>)"
  "advances E w0 w \<Longrightarrow> advances E w0 (w\<lparr>failedCount := n\<rparr>)"
  by (simp_all add: advances_def)

lemma advances_step:
  "advances E w0 w \<Longrightarrow> evolves E w w' \<Longrightarrow> advances E w0 w'"
  by (blast intro: advances_trans evolves_advances)

lemma advances_runQueue_item: "advances E w (runQueue_item E i w)"
proof -
  have step: "advances E w0 (f x)" if "advances E w0 x" "\<And>v. evolves E v (f v)" for w0 x f
    using that by (blast intro: advances_step)
  show ?thesis
    unfolding runQueue_item_def Let_def split_beta
    by (auto split: sum.splits
             intro!: step [where f = "broadcastStatus _ _"] step [where f = "log _ _"]
                     step [where f = "updateStats E _"] advances_counters
                     step [where f = "\<lambda>v. snd (processSingleJob E _ _ _ _ v)"]
                     advances_refl evolves_steps evolves_updateStats
                     evolves_processSingleJob evolves_refl)
qed

lemma runQueue_item_queue: "queue (runQueue_item E i w) = queue w"
  using advances_runQueue_item [of E w i] by (simp add: advances_def)

lemma sleep_queue: "queue (sleep E ms w) = queue w"
  using evolves_sleep [OF evolves_refl, of E w ms] by (simp add: evolves_def)

lemma broadcastStatus_queue: "queue (broadcastStatus m l w) = queue w"
  using evolves_broadcastStatus [OF evolves_refl, of E w m l] by (simp add: evolves_def)

text \<open>
  The loop, from index \<open>i\<close> on: the stop check at the top, the item, the delay before the
  next item. It reads \<^verbatim>\<open>queue.length\<close> in every iteration, as the source does.
\<close>

function runQueue_loop :: "env \<Rightarrow> nat \<Rightarrow> world \<Rightarrow> world" where
  "runQueue_loop E i w =
     (if i < length (queue w) then
        (if stopRequested w then broadcastStatus ''Processing stopped by user.'' StWarn w
         else
           (let w1 = runQueue_item E i w;
                w2 = (if i < length (queue w1) - 1 \<and> \<not> stopRequested w1
                      then sleep E JOB_DELAY_MS
                             (broadcastStatus (''Waiting '' @ dec_str (JOB_DELAY_MS div 1000)
                                               @ ''s before next job...'') StInfo w1)
                      else w1)
            in runQueue_loop E (i + 1) w2))
      else w)"
  by pat_completeness auto
termination
  by (relation "measure (\<lambda>(E, i, w). length (queue w) - i)")
     (auto simp: runQueue_item_queue sleep_queue broadcastStatus_queue)

declare runQueue_loop.simps [simp del]

text \<open>
  Phase 2, \<^verbatim>\<open>runResumeBuilderQueue\<close>, and its loop over the pending records. A
  rejection of the reload or of the wait for it is outside every \<^verbatim>\<open>try\<close> and leaves
  the function.
\<close>

function resume_loop :: "env \<Rightarrow> jobPayload list \<Rightarrow> nat \<Rightarrow> world \<Rightarrow> (string + unit) \<times> world" where
  "resume_loop E pendingJobs i w =
     (if i < length pendingJobs then
        (if stopRequested w then (Inr (), w)
         else
           (let job = pendingJobs ! i;
                jobNum = ''[Resume '' @ dec_str (i + 1) @ ''/'' @ dec_str (length pendingJobs) @ '']'';
                w1 = call E (TabsSendMessage ''BUILD_RESUME'')
                       (broadcastStatus (jobNum @ '' Building resume for: '' @ quoted (title job)) StInfo w);
                w2 = (case build_resume E i of
                        Inl msg \<Rightarrow>
                          broadcastStatus (jobNum @ '' Failed: '' @ quoted (title job) @ '' - '' @ msg) StError
                            (log ERROR (jobNum @ '' Resume build failed'') w1)
                      | Inr built \<Rightarrow>
                          if built then
                            (case sendJobToAPI E (job\<lparr>jdResumeBuilt := True\<rparr>) w1 of
                               (Inl msg, w') \<Rightarrow>
                                 broadcastStatus (jobNum @ '' Failed: '' @ quoted (title job) @ '' - '' @ msg)
                                   StError (log ERROR (jobNum @ '' Resume build failed'') w')
                             | (Inr _, w') \<Rightarrow>
                                 broadcastStatus (jobNum @ '' Resume built for: '' @ quoted (title job))
                                   StSuccess w')
                          else w1)
            in if i < length pendingJobs - 1 \<and> \<not> stopRequested w2 then
                 (let w3 = call E (TabsReload (dashboardTabId w2))
                             (sleep E 5000
                                (broadcastStatus
                                   ''Waiting 5s before next resume and reloading for fresh state...''
                                   StInfo w2))
                  in case reload E i of
                       Some msg \<Rightarrow> (Inl msg, w3)
                     | None \<Rightarrow>
                         (let w4 = call E (WaitForTabComplete (dashboardTabId w3)) w3
                          in case reload_wait E i of
                               Some msg \<Rightarrow> (Inl msg, w4)
                             | None \<Rightarrow> resume_loop E pendingJobs (i + 1) (sleep E 3000 w4)))
               else resume_loop E pendingJobs (i + 1) w2))
      else (Inr (), w))"
  by pat_completeness auto
termination
  by (relation "measure (\<lambda>(E, pendingJobs, i, w). length pendingJobs - i)") auto

declare resume_loop.simps [simp del]

definition runResumeBuilderQueue :: "env \<Rightarrow> world \<Rightarrow> (string + unit) \<times> world" where
  "runResumeBuilderQueue E w =
     (let w1 = call E (Fetch ''GET'' []) (log INFO ''Starting Resume Builder Queue...'' w)
      in case fetch_jobs E of
           Inl msg \<Rightarrow>
             (Inr (), broadcastStatus (''Failed to fetch jobs for Phase 2: '' @ msg) StError w1)
         | Inr (response, jobs) \<Rightarrow>
             if \<not> resp_ok response
             then (Inr (), broadcastStatus (''Failed to fetch jobs for Phase 2: HTTP error! status: ''
                                            @ dec_str (resp_status response)) StError w1)
             else
               (let w2 = suspend E w1;
                    pendingJobs = filter (\<lambda>job. \<not> jdResumeBuilt job) jobs
                in if pendingJobs = []
                   then (Inr (), broadcastStatus ''No pending jobs for Resume Builder. Phase 2 skipped.''
                                   StSuccess w2)
                   else
                     (let w3 = call E (TabsUpdate (dashboardTabId w2)
                                         ''https://landbetterjobs.com/jd-resume-builder'')
                                 (broadcastStatus (''Phase 2: Building resumes for ''
                                                   @ dec_str (length pendingJobs) @ '' job(s)...'')
                                    StInfo w2)
                      in case navigate_update E of
                           Some msg \<Rightarrow>
                             (Inr (), broadcastStatus (''Failed to navigate to Resume Builder: '' @ msg)
                                        StError w3)
                         | None \<Rightarrow>
                             (let w4 = call E (WaitForTabComplete (dashboardTabId w3)) w3
                              in case navigate_wait E of
                                   Some msg \<Rightarrow>
                                     (Inr (), broadcastStatus
                                                (''Failed to navigate to Resume Builder: '' @ msg)
                                                StError w4)
                                 | None \<Rightarrow>
                                     (case resume_loop E pendingJobs 0 (sleep E 2000 w4) of
                                        (Inl msg, w5) \<Rightarrow> (Inl msg, w5)
                                      | (Inr _, w5) \<Rightarrow>
                                          (Inr (), broadcastStatus ''Phase 2 (Resume Builder) complete.''
                                                     StComplete w5))))))"

text \<open>
  \<^verbatim>\<open>finishQueue\<close>, the part of \<^verbatim>\<open>runQueue\<close> after the loop, \<^verbatim>\<open>runQueue\<close> and
  \<^verbatim>\<open>handleStartQueue\<close>. \<open>collect_jobs\<close> answers the \<^verbatim>\<open>COLLECT_JOBS\<close> request;
  \<open>Some jobs\<close> says that the \<^verbatim>\<open>JOBS_COLLECTED\<close> message arrives before the pause of
  800 ms ends.
\<close>

definition finishQueue :: "world \<Rightarrow> world" where
  "finishQueue w =
     (let w1 = (if dashboardTabId w \<noteq> None \<and> dashboardTabId w \<noteq> Some 0
                then emit (TabsUpdate (dashboardTabId w) ''https://landbetterjobs.com/dashboard'')
                       (log INFO ''Redirecting dashboard tab back to dashboard...'' w)
                else w);
          w2 = w1\<lparr>isRunning := False, stopRequested := False, dashboardTabId := None, queue := []\<rparr>;
          w3 = emit (StorageSet QUEUE_ACTIVE) (w2\<lparr>queue_active := Some False\<rparr>)
      in log INFO ''Queue processor shut down'' w3)"

definition runQueue_finish :: "env \<Rightarrow> world \<Rightarrow> (string + unit) \<times> world" where
  "runQueue_finish E w =
     (let w1 = broadcastStatus (''Phase 1 (Scraping) complete. '' @ dec_str (processedCount w)
                                @ '' succeeded, '' @ dec_str (failedCount w) @ '' failed.'') StSuccess w
      in if \<not> stopRequested w1 then
           (case runResumeBuilderQueue E
                   (sleep E 2000 (broadcastStatus ''Starting Phase 2: JD Resume Builder...'' StInfo w1)) of
              (Inl msg, w2) \<Rightarrow> (Inl msg, w2)
            | (Inr _, w2) \<Rightarrow> (Inr (), finishQueue w2))
         else (Inr (), finishQueue w1))"

definition runQueue :: "env \<Rightarrow> world \<Rightarrow> (string + unit) \<times> world" where
  "runQueue E w = runQueue_finish E (runQueue_loop E 0 w)"

record options =
  clearHistory :: bool

definition handleStartQueue :: "env \<Rightarrow> options \<Rightarrow> world \<Rightarrow> (string + unit) \<times> world" where
  "handleStartQueue E opts w =
     (if isRunning w then (Inr (), log WARN ''Queue already running - ignoring start command'' w)
      else
        (let w1 = (log INFO ''Starting RecruitPulse queue'' w)
                    \<lparr>isRunning := True, stopRequested := False, processedCount := 0, failedCount := 0\<rparr>;
             w2 = call E (StorageSet QUEUE_ACTIVE) (w1\<lparr>queue_active := Some True\<rparr>);
             w3 = (if clearHistory opts
                   then log INFO ''Cleared processing history''
                          (call E (StorageRemove (PROCESSED_IDS @ '','' @ STATS))
                             (w2\<lparr>processed_ids := None, stats := None\<rparr>))
                   else w2);
             w4 = call E TabsQuery w3
         in case tabs_query E of
              Inl msg \<Rightarrow> (Inr (), finishQueue (log ERROR ''Failed to find dashboard tab'' w4))
            | Inr [] \<Rightarrow>
                (Inr (), finishQueue
                           (broadcastStatus
                              ''ERROR: No LandBetterJobs dashboard tab found. Please open the dashboard first.''
                              StError w4))
            | Inr (tab # _) \<Rightarrow>
                (let w5 = call E (TabsSendMessage ''COLLECT_JOBS'')
                            (broadcastStatus ''Collecting jobs from dashboard...'' StInfo
                               (log INFO (''Dashboard tab: '' @ dec_str tab)
                                  (w4\<lparr>dashboardTabId := Some tab\<rparr>)))
                 in case collect_jobs E of
                      Inl msg \<Rightarrow>
                        (Inr (), finishQueue (broadcastStatus (''Failed to collect jobs: '' @ msg) StError w5))
                    | Inr delivered \<Rightarrow>
                        (let w6 = sleep E 800
                                    (case delivered of None \<Rightarrow> w5 | Some jobs \<Rightarrow> onJobsCollected jobs w5)
                         in if queue w6 = [] then
                              (case runResumeBuilderQueue E
                                      (sleep E 2000
                                         (broadcastStatus
                                            ''No new jobs found on dashboard. Proceeding to Phase 2...''
                                            StWarn w6)) of
                                 (Inl msg, w7) \<Rightarrow> (Inl msg, w7)
                               | (Inr _, w7) \<Rightarrow> (Inr (), finishQueue w7))
                            else
                              runQueue E
                                (broadcastStatus (''Found '' @ dec_str (length (queue w6))
                                                  @ '' job(s). Starting sequential processing...'')
                                   StInfo w6)))))"

section \<open>Observations on a trace\<close>

text \<open>
  \<open>activity\<close> is the trace without logging and status messages: the calls of the browser,
  the network, the storage and the timer. \<open>statuses\<close> is what went over the status
  channel. \<open>quiet w w'\<close> says that \<open>w'\<close> differs from \<open>w\<close> at most in the trace, the
  stop flag and the two model counters.
\<close>

fun is_note :: "event \<Rightarrow> bool" where
  "is_note (Log level message) = True"
| "is_note (Status message level pc fc ql) = True"
| "is_note ev = False"

definition activity :: "world \<Rightarrow> event list" where
  "activity w = filter (\<lambda>ev. \<not> is_note ev) (trace w)"

fun statuses :: "event list \<Rightarrow> (string \<times> status_level) list" where
  "statuses [] = []"
| "statuses (Status message level pc fc ql # evs) = (message, level) # statuses evs"
| "statuses (ev # evs) = statuses evs"

definition quiet :: "world \<Rightarrow> world \<Rightarrow> bool" where
  "quiet w w' \<longleftrightarrow>
     queue w' = queue w \<and> isRunning w' = isRunning w \<and> dashboardTabId w' = dashboardTabId w
     \<and> processedCount w' = processedCount w \<and> failedCount w' = failedCount w
     \<and> isProcessing w' = isProcessing w \<and> scrapedJobs w' = scrapedJobs w
     \<and> processed_ids w' = processed_ids w \<and> stats w' = stats w
     \<and> queue_active w' = queue_active w \<and> openTabs w' = openTabs w"

lemma quiet_refl: "quiet w w"
  by (simp add: quiet_def)

lemma quiet_emit: "quiet w0 w \<Longrightarrow> quiet w0 (emit ev w)"
  by (simp add: quiet_def emit_def)

lemma quiet_log: "quiet w0 w \<Longrightarrow> quiet w0 (log l m w)"
  by (simp add: log_def quiet_emit)

lemma quiet_broadcastStatus: "quiet w0 w \<Longrightarrow> quiet w0 (broadcastStatus m l w)"
  by (simp add: broadcastStatus_def quiet_emit quiet_log)

lemma quiet_suspend: "quiet w0 w \<Longrightarrow> quiet w0 (suspend E w)"
  by (simp add: quiet_def suspend_def onStopQueue_def log_def emit_def Let_def)

lemma quiet_sleep: "quiet w0 w \<Longrightarrow> quiet w0 (sleep E ms w)"
  by (simp add: sleep_def quiet_emit quiet_suspend)

lemma quiet_call: "quiet w0 w \<Longrightarrow> quiet w0 (call E ev w)"
  by (simp add: call_def quiet_emit quiet_suspend)

lemma quiet_fetches: "quiet w0 w \<Longrightarrow> quiet w0 (w\<lparr>fetches := n\<rparr>)"
  by (simp add: quiet_def)

lemmas quiet_steps =
  quiet_emit quiet_log quiet_broadcastStatus quiet_suspend quiet_sleep quiet_call quiet_fetches

lemma quiet_postJob: "quiet w0 w \<Longrightarrow> quiet w0 (snd (postJob E p w))"
  by (auto simp: postJob_def Let_def split: sum.splits intro!: quiet_steps)

lemma quiet_retry_loop:
  "(\<And>w. quiet w0 w \<Longrightarrow> quiet w0 (snd (fn w))) \<Longrightarrow>
   quiet w0 w \<Longrightarrow> quiet w0 (snd (retry_loop fn E m b a le w))"
  by (rule retry_loop_invariant [where P = "quiet w0"]) (auto intro: quiet_steps)

lemma quiet_sendJobToAPI: "quiet w0 w \<Longrightarrow> quiet w0 (snd (sendJobToAPI E p w))"
  unfolding sendJobToAPI_def retry_def
  by (auto simp: split_beta split: sum.splits thrown.splits
           intro!: quiet_steps quiet_retry_loop quiet_postJob)

lemma quiet_submitToAPI: "quiet w0 w \<Longrightarrow> quiet w0 (submitToAPI E p w)"
  by (auto simp: submitToAPI_def split_beta split: sum.splits
           intro!: quiet_steps quiet_sendJobToAPI)

text \<open>
  The effect of the primitives on each field.
\<close>

lemma prim_frame [simp]:
  "queue (emit ev w) = queue w"
  "isRunning (emit ev w) = isRunning w"
  "stopRequested (emit ev w) = stopRequested w"
  "dashboardTabId (emit ev w) = dashboardTabId w"
  "processedCount (emit ev w) = processedCount w"
  "failedCount (emit ev w) = failedCount w"
  "isProcessing (emit ev w) = isProcessing w"
  "scrapedJobs (emit ev w) = scrapedJobs w"
  "processed_ids (emit ev w) = processed_ids w"
  "stats (emit ev w) = stats w"
  "queue_active (emit ev w) = queue_active w"
  "openTabs (emit ev w) = openTabs w"
  "awaits (emit ev w) = awaits w"
  "fetches (emit ev w) = fetches w"
  "queue (log l m w) = queue w"
  "isRunning (log l m w) = isRunning w"
  "stopRequested (log l m w) = stopRequested w"
  "dashboardTabId (log l m w) = dashboardTabId w"
  "processedCount (log l m w) = processedCount w"
  "failedCount (log l m w) = failedCount w"
  "isProcessing (log l m w) = isProcessing w"
  "scrapedJobs (log l m w) = scrapedJobs w"
  "processed_ids (log l m w) = processed_ids w"
  "stats (log l m w) = stats w"
  "queue_active (log l m w) = queue_active w"
  "openTabs (log l m w) = openTabs w"
  "awaits (log l m w) = awaits w"
  "fetches (log l m w) = fetches w"
  "queue (broadcastStatus m sl w) = queue w"
  "isRunning (broadcastStatus m sl w) = isRunning w"
  "stopRequested (broadcastStatus m sl w) = stopRequested w"
  "dashboardTabId (broadcastStatus m sl w) = dashboardTabId w"
  "processedCount (broadcastStatus m sl w) = processedCount w"
  "failedCount (broadcastStatus m sl w) = failedCount w"
  "isProcessing (broadcastStatus m sl w) = isProcessing w"
  "scrapedJobs (broadcastStatus m sl w) = scrapedJobs w"
  "processed_ids (broadcastStatus m sl w) = processed_ids w"
  "stats (broadcastStatus m sl w) = stats w"
  "queue_active (broadcastStatus m sl w) = queue_active w"
  "openTabs (broadcastStatus m sl w) = openTabs w"
  "awaits (broadcastStatus m sl w) = awaits w"
  "fetches (broadcastStatus m sl w) = fetches w"
  "queue (suspend E w) = queue w"
  "isRunning (suspend E w) = isRunning w"
  "dashboardTabId (suspend E w) = dashboardTabId w"
  "processedCount (suspend E w) = processedCount w"
  "failedCount (suspend E w) = failedCount w"
  "isProcessing (suspend E w) = isProcessing w"
  "scrapedJobs (suspend E w) = scrapedJobs w"
  "processed_ids (suspend E w) = processed_ids w"
  "stats (suspend E w) = stats w"
  "queue_active (suspend E w) = queue_active w"
  "openTabs (suspend E w) = openTabs w"
  "fetches (suspend E w) = fetches w"
  "queue (sleep E ms w) = queue w"
  "isRunning (sleep E ms w) = isRunning w"
  "dashboardTabId (sleep E ms w) = dashboardTabId w"
  "processedCount (sleep E ms w) = processedCount w"
  "failedCount (sleep E ms w) = failedCount w"
  "isProcessing (sleep E ms w) = isProcessing w"
  "scrapedJobs (sleep E ms w) = scrapedJobs w"
  "processed_ids (sleep E ms w) = processed_ids w"
  "stats (sleep E ms w) = stats w"
  "queue_active (sleep E ms w) = queue_active w"
  "openTabs (sleep E ms w) = openTabs w"
  "fetches (sleep E ms w) = fetches w"
  "queue (call E ev w) = queue w"
  "isRunning (call E ev w) = isRunning w"
  "dashboardTabId (call E ev w) = dashboardTabId w"
  "processedCount (call E ev w) = processedCount w"
  "failedCount (call E ev w) = failedCount w"
  "isProcessing (call E ev w) = isProcessing w"
  "scrapedJobs (call E ev w) = scrapedJobs w"
  "processed_ids (call E ev w) = processed_ids w"
  "stats (call E ev w) = stats w"
  "queue_active (call E ev w) = queue_active w"
  "openTabs (call E ev w) = openTabs w"
  "fetches (call E ev w) = fetches w"
  by (simp_all add: emit_def log_def broadcastStatus_def suspend_def onStopQueue_def sleep_def
                    call_def Let_def)

lemma prim_observed [simp]:
  "observed (emit ev w) = observed w"
  "observed (log l m w) = observed w"
  "observed (broadcastStatus m sl w) = observed w"
  "observed (suspend E w)
   = observed w @ [\<lparr>seen_isRunning = isRunning w, seen_isProcessing = isProcessing w\<rparr>]"
  "observed (sleep E ms w)
   = observed w @ [\<lparr>seen_isRunning = isRunning w, seen_isProcessing = isProcessing w\<rparr>]"
  "observed (call E ev w)
   = observed w @ [\<lparr>seen_isRunning = isRunning w, seen_isProcessing = isProcessing w\<rparr>]"
  by (simp_all add: emit_def log_def broadcastStatus_def suspend_def onStopQueue_def sleep_def
                    call_def Let_def)

definition stop_note :: "env \<Rightarrow> world \<Rightarrow> event list" where
  "stop_note E w = (if stop_at E (awaits w) then [Log INFO ''Stop requested by user''] else [])"

lemma prim_effect [simp]:
  "trace (emit ev w) = trace w @ [ev]"
  "trace (log l m w) = trace w @ [Log l m]"
  "trace (broadcastStatus m sl w)
   = trace w @ [Log INFO m, Status m sl (processedCount w) (failedCount w) (length (queue w))]"
  "trace (suspend E w) = trace w @ stop_note E w"
  "trace (sleep E ms w) = trace w @ Sleep ms # stop_note E w"
  "trace (call E ev w) = trace w @ ev # stop_note E w"
  "awaits (suspend E w) = awaits w + 1"
  "awaits (sleep E ms w) = awaits w + 1"
  "awaits (call E ev w) = awaits w + 1"
  "stopRequested (suspend E w) = (stopRequested w \<or> stop_at E (awaits w))"
  "stopRequested (sleep E ms w) = (stopRequested w \<or> stop_at E (awaits w))"
  "stopRequested (call E ev w) = (stopRequested w \<or> stop_at E (awaits w))"
  by (simp_all add: emit_def log_def broadcastStatus_def suspend_def onStopQueue_def sleep_def
                    call_def Let_def stop_note_def CURRENT_LEVEL_def)

lemma activity_simps [simp]:
  "activity (emit ev w) = (if is_note ev then activity w else activity w @ [ev])"
  "activity (log l m w) = activity w"
  "activity (broadcastStatus m sl w) = activity w"
  "activity (suspend E w) = activity w"
  "activity (sleep E ms w) = activity w @ [Sleep ms]"
  "activity (call E ev w) = (if is_note ev then activity w else activity w @ [ev])"
  by (simp_all add: activity_def stop_note_def)

lemma activity_update [simp]:
  "activity (w\<lparr>fetches := n\<rparr>) = activity w"
  "activity (w\<lparr>openTabs := ts\<rparr>) = activity w"
  "activity (w\<lparr>scrapedJobs := js\<rparr>) = activity w"
  "activity (w\<lparr>processed_ids := ids\<rparr>) = activity w"
  "activity (w\<lparr>stats := st\<rparr>) = activity w"
  "activity (w\<lparr>isProcessing := b\<rparr>) = activity w"
  "activity (w\<lparr>processedCount := k\<rparr>) = activity w"
  "activity (w\<lparr>failedCount := k\<rparr>) = activity w"
  by (simp_all add: activity_def)

section \<open>Paths through the processing of one item\<close>

definition post_outcome :: "env \<Rightarrow> nat \<Rightarrow> thrown + string" where
  "post_outcome E n =
     (case fetch_post E n of
        Inl msg \<Rightarrow> Inl (Error msg)
      | Inr response \<Rightarrow>
          if \<not> resp_ok response
          then Inl (Error (''API error '' @ dec_str (resp_status response) @ '': '' @ resp_text response))
          else Inr (resp_json response))"

lemma postJob_fst: "fst (postJob E p w) = post_outcome E (fetches w)"
  by (simp add: postJob_def post_outcome_def Let_def split: sum.splits)

lemma postJob_fetches: "fetches (snd (postJob E p w)) = fetches w + 1"
  by (simp add: postJob_def Let_def split: sum.splits)

lemma postJob_activity:
  "activity (snd (postJob E p w))
   = activity w @ [StorageGet ''telegram_config'', Fetch ''POST'' (jobId p)]"
  by (simp add: postJob_def Let_def split: sum.splits)

lemma postJob_eq: "postJob E p w = (post_outcome E (fetches w), snd (postJob E p w))"
  by (metis postJob_fst prod.collapse)

definition attempt_events :: "jobPayload \<Rightarrow> event list" where
  "attempt_events p = [StorageGet ''telegram_config'', Fetch ''POST'' (jobId p)]"

definition attempt1 :: "env \<Rightarrow> jobPayload \<Rightarrow> world \<Rightarrow> world" where
  "attempt1 E p w = snd (postJob E p w)"

definition attempt2 :: "env \<Rightarrow> jobPayload \<Rightarrow> world \<Rightarrow> world" where
  "attempt2 E p w = snd (postJob E p (sleep E 1000 (log WARN (retry_warn 1 3 1000) (attempt1 E p w))))"

definition attempt3 :: "env \<Rightarrow> jobPayload \<Rightarrow> world \<Rightarrow> world" where
  "attempt3 E p w = snd (postJob E p (sleep E 2000 (log WARN (retry_warn 2 3 2000) (attempt2 E p w))))"

definition exhausted :: "env \<Rightarrow> jobPayload \<Rightarrow> world \<Rightarrow> world" where
  "exhausted E p w = log WARN (retry_warn 3 3 4000) (attempt3 E p w)"

lemma retry_postJob:
  "retry (postJob E p) E MAX_RETRIES RETRY_BASE_DELAY_MS w
   = (case post_outcome E (fetches w) of
        Inr v \<Rightarrow> (Inr v, attempt1 E p w)
      | Inl e1 \<Rightarrow>
          (case post_outcome E (fetches w + 1) of
             Inr v \<Rightarrow> (Inr v, attempt2 E p w)
           | Inl e2 \<Rightarrow>
               (case post_outcome E (fetches w + 2) of
                  Inr v \<Rightarrow> (Inr v, attempt3 E p w)
                | Inl e3 \<Rightarrow> (Inl e3, exhausted E p w))))"
proof -
  let ?fn = "postJob E p"
  let ?w1 = "snd (?fn w)"
  let ?s1 = "sleep E 1000 (log WARN (retry_warn 1 3 1000) ?w1)"
  let ?w2 = "snd (?fn ?s1)"
  let ?s2 = "sleep E 2000 (log WARN (retry_warn 2 3 2000) ?w2)"
  let ?w3 = "snd (?fn ?s2)"
  let ?s3 = "log WARN (retry_warn 3 3 4000) ?w3"
  let ?o1 = "post_outcome E (fetches w)"
  let ?o2 = "post_outcome E (fetches w + 1)"
  let ?o3 = "post_outcome E (fetches w + 2)"
  have f1: "?fn w = (?o1, ?w1)" by (rule postJob_eq)
  have f2: "?fn ?s1 = (?o2, ?w2)"
    using postJob_eq [of E p ?s1] by (simp add: postJob_fetches)
  have f3: "?fn ?s2 = (?o3, ?w3)"
    using postJob_eq [of E p ?s2] by (simp add: postJob_fetches)
  have r: "retry ?fn E MAX_RETRIES RETRY_BASE_DELAY_MS w
           = (case ?o1 of Inr v \<Rightarrow> (Inr v, ?w1)
              | Inl e1 \<Rightarrow> (case ?o2 of Inr v \<Rightarrow> (Inr v, ?w2)
                 | Inl e2 \<Rightarrow> (case ?o3 of Inr v \<Rightarrow> (Inr v, ?w3) | Inl e3 \<Rightarrow> (Inl e3, ?s3))))"
  proof (cases ?o1)
    case (Inr v)
    then show ?thesis
      using f1 by (simp add: retry_def MAX_RETRIES_def retry_loop_success)
  next
    case e1: (Inl e1)
    have a1: "retry ?fn E MAX_RETRIES RETRY_BASE_DELAY_MS w = retry_loop ?fn E 3 1000 2 e1 ?s1"
      using f1 e1 retry_loop_failure [of 1 3 ?fn w e1 ?w1 E 1000 Undefined]
      by (simp add: retry_def MAX_RETRIES_def RETRY_BASE_DELAY_MS_def numeral_2_eq_2)
    show ?thesis
    proof (cases ?o2)
      case (Inr v)
      then show ?thesis
        using a1 e1 f2 by (simp add: retry_loop_success)
    next
      case e2: (Inl e2)
      have a2: "retry_loop ?fn E 3 1000 2 e1 ?s1 = retry_loop ?fn E 3 1000 3 e2 ?s2"
        using f2 e2 retry_loop_failure [of 2 3 ?fn ?s1 e2 ?w2 E 1000 e1] by simp
      show ?thesis
      proof (cases ?o3)
        case (Inr v)
        then show ?thesis
          using a1 a2 e1 e2 f3 by (simp add: retry_loop_success)
      next
        case e3: (Inl e3)
        have a3: "retry_loop ?fn E 3 1000 3 e2 ?s2 = retry_loop ?fn E 3 1000 4 e3 ?s3"
          using f3 e3 retry_loop_failure [of 3 3 ?fn ?s2 e3 ?w3 E 1000 e2] by simp
        show ?thesis
          using a1 a2 a3 e1 e2 e3 by (simp add: retry_loop_exit)
      qed
    qed
  qed
  show ?thesis
    unfolding r attempt1_def attempt2_def attempt3_def exhausted_def ..
qed

lemma attempt_fetches [simp]:
  "fetches (attempt1 E p w) = fetches w + 1"
  "fetches (attempt2 E p w) = fetches w + 2"
  "fetches (attempt3 E p w) = fetches w + 3"
  "fetches (exhausted E p w) = fetches w + 3"
  by (simp_all add: attempt1_def attempt2_def attempt3_def exhausted_def postJob_fetches)

lemma attempt_activity [simp]:
  "activity (attempt1 E p w) = activity w @ attempt_events p"
  "activity (attempt2 E p w) = activity w @ attempt_events p @ [Sleep 1000] @ attempt_events p"
  "activity (attempt3 E p w)
   = activity w @ attempt_events p @ [Sleep 1000] @ attempt_events p @ [Sleep 2000] @ attempt_events p"
  "activity (exhausted E p w)
   = activity w @ attempt_events p @ [Sleep 1000] @ attempt_events p @ [Sleep 2000] @ attempt_events p"
  by (simp_all add: attempt1_def attempt2_def attempt3_def exhausted_def postJob_activity
                    attempt_events_def)

definition no_url_error :: string where
  "no_url_error = ''No '' @ quoted ''View Full Post'' @ '' URL found in popup''"

definition popup_done :: "env \<Rightarrow> string \<Rightarrow> world \<Rightarrow> world" where
  "popup_done E jobNum w =
     log INFO (jobNum @ '' Popup data extracted'')
       (call E (TabsSendMessage ''CLICK_JOB_ACTION'')
          (call E (ExecuteScript ''simulateClickInMainWorld'')
             (broadcastStatus (jobNum @ '' Simulating interaction...'') StInfo w)))"

lemma processJobFlow_no_url:
  assumes "click E i = None" "popup E i = Inr pd" "pd_viewFullPostUrl pd = []"
  shows "processJobFlow E rawJob jid i jobNum w = (Inl no_url_error, popup_done E jobNum w)"
  using assms
  by (simp add: processJobFlow_def simulateClick_def getPopupData_def no_url_error_def popup_done_def)

definition tab_created :: "env \<Rightarrow> string \<Rightarrow> string \<Rightarrow> string \<Rightarrow> nat \<Rightarrow> world \<Rightarrow> world" where
  "tab_created E jobNum src url tab w =
     (let w1 = call E (TabsCreate url)
                 (broadcastStatus (jobNum @ '' Opening '' @ src @ '' page...'') StInfo
                    (popup_done E jobNum w))
      in w1\<lparr>openTabs := openTabs w1 @ [tab]\<rparr>)"

lemma processJobFlow_load_timeout:
  assumes "click E i = None" "popup E i = Inr pd" "pd_viewFullPostUrl pd \<noteq> []"
    and "getDomainGroup (hostname_of E) (pd_viewFullPostUrl pd) = Inr src"
    and "tab_create E i = Inr tab" "tab_load E i = Some msg"
  shows "processJobFlow E rawJob jid i jobNum w
         = (Inl (''Failed to open/load external tab: '' @ msg),
            call E (WaitForTabComplete (Some tab))
              (tab_created E jobNum src (pd_viewFullPostUrl pd) tab w))"
  using assms
  by (simp add: processJobFlow_def simulateClick_def getPopupData_def openExternalTab_def
                tabs_create_call_def waitForTabComplete_def tab_created_def popup_done_def Let_def)

lemma processJobFlow_tab_opened:
  assumes "click E i = None" "popup E i = Inr pd" "pd_viewFullPostUrl pd \<noteq> []"
    and "getDomainGroup (hostname_of E) (pd_viewFullPostUrl pd) = Inr src"
    and "tab_create E i = Inr tab" "tab_load E i = None"
  shows "processJobFlow E rawJob jid i jobNum w
         = (Inr (), mergeAndSend E rawJob jid i jobNum pd (pd_viewFullPostUrl pd) src tab
                      (call E (WaitForTabComplete (Some tab))
                         (tab_created E jobNum src (pd_viewFullPostUrl pd) tab w)))"
  using assms
  by (simp add: processJobFlow_def simulateClick_def getPopupData_def openExternalTab_def
                tabs_create_call_def waitForTabComplete_def tab_created_def popup_done_def Let_def)

lemma getDomainGroup_Inr: "\<exists>g. getDomainGroup h url = Inr g"
  by (simp add: getDomainGroup_def split: sum.split)

lemma statuses_append: "statuses (xs @ ys) = statuses xs @ statuses ys"
  by (induction xs rule: statuses.induct) auto

definition status_log :: "world \<Rightarrow> (string \<times> status_level) list" where
  "status_log w = statuses (trace w)"

lemma status_log_simps [simp]:
  "status_log (log l m w) = status_log w"
  "status_log (broadcastStatus m sl w) = status_log w @ [(m, sl)]"
  "status_log (suspend E w) = status_log w"
  "status_log (sleep E ms w) = status_log w"
  "status_log (w\<lparr>fetches := n\<rparr>) = status_log w"
  "status_log (w\<lparr>openTabs := ts\<rparr>) = status_log w"
  "status_log (w\<lparr>scrapedJobs := js\<rparr>) = status_log w"
  "status_log (w\<lparr>processed_ids := ids\<rparr>) = status_log w"
  "status_log (w\<lparr>stats := st\<rparr>) = status_log w"
  "status_log (w\<lparr>isProcessing := b'\<rparr>) = status_log w"
  "status_log (w\<lparr>processedCount := k\<rparr>) = status_log w"
  "status_log (w\<lparr>failedCount := k\<rparr>) = status_log w"
  by (simp_all add: status_log_def statuses_append stop_note_def)

lemma status_log_event [simp]:
  "status_log (emit ev w) = status_log w @ statuses [ev]"
  "status_log (call E ev w) = status_log w @ statuses [ev]"
  by (cases ev; simp add: status_log_def statuses_append stop_note_def)+

lemma status_log_postJob: "status_log (snd (postJob E p w)) = status_log w"
  by (simp add: postJob_def Let_def split: sum.splits)

lemma status_log_retry_loop:
  "status_log (snd (retry_loop (postJob E p) E m b a le w)) = status_log w"
  by (rule retry_loop_invariant [where P = "\<lambda>v. status_log v = status_log w"])
     (simp_all add: status_log_postJob)

lemma status_log_sendJobToAPI: "status_log (snd (sendJobToAPI E p w)) = status_log w"
  unfolding sendJobToAPI_def retry_def
  by (simp add: split_beta status_log_retry_loop split: sum.splits thrown.splits)

lemma status_log_submitToAPI: "status_log (submitToAPI E p w) = status_log w"
  by (simp add: submitToAPI_def split_beta status_log_sendJobToAPI split: sum.splits)

lemma quiet_fields:
  assumes "quiet w w'"
  shows "queue w' = queue w" "isRunning w' = isRunning w" "dashboardTabId w' = dashboardTabId w"
    "processedCount w' = processedCount w" "failedCount w' = failedCount w"
    "isProcessing w' = isProcessing w" "scrapedJobs w' = scrapedJobs w"
    "processed_ids w' = processed_ids w" "stats w' = stats w"
    "queue_active w' = queue_active w" "openTabs w' = openTabs w"
  using assms by (simp_all add: quiet_def)

lemmas submitToAPI_frame [simp] = quiet_fields [OF quiet_submitToAPI [OF quiet_refl]]

lemmas sendJobToAPI_frame [simp] = quiet_fields [OF quiet_sendJobToAPI [OF quiet_refl]]

definition no_external :: externalData where
  "no_external = \<lparr>ed_fullDescription = [], ed_applyEmail = [], ed_location = [], ed_experience = []\<rparr>"

definition scraped_data :: "env \<Rightarrow> nat \<Rightarrow> externalData" where
  "scraped_data E i = (case scrape E i of Inr (Some d) \<Rightarrow> d | _ \<Rightarrow> no_external)"

definition email_data :: "env \<Rightarrow> nat \<Rightarrow> emailData" where
  "email_data E i =
     (case email E i of Inr d \<Rightarrow> d | Inl msg \<Rightarrow> \<lparr>em_emailSubject = [], em_emailBody = []\<rparr>)"

definition stored_jobs :: "world \<Rightarrow> jobPayload list" where
  "stored_jobs w = (case scrapedJobs w of None \<Rightarrow> [] | Some js \<Rightarrow> js)"

definition storage_ok :: "env \<Rightarrow> nat \<Rightarrow> bool" where
  "storage_ok E i \<longleftrightarrow> storage_get_fail E i = None \<and> storage_set_fail E i = None"

lemma closeTab_sel [simp]:
  "activity (closeTab E i jobNum tab w) = activity w @ [TabsRemove tab]"
  "openTabs (closeTab E i jobNum tab w)
   = (if tab_remove E i = None then removeAll tab (openTabs w) else openTabs w)"
  "scrapedJobs (closeTab E i jobNum tab w) = scrapedJobs w"
  "fetches (closeTab E i jobNum tab w) = fetches w"
  "status_log (closeTab E i jobNum tab w) = status_log w"
  by (simp_all add: closeTab_def tabs_remove_call_def Let_def split: option.splits)

lemma extractExternal_sel [simp]:
  "fst (extractExternal E i jobNum tab w) = scraped_data E i"
  "activity (snd (extractExternal E i jobNum tab w))
   = activity w @ [Sleep 1000, ExecuteScript ''scrapeExternalJobPage'', TabsRemove tab]"
  "openTabs (snd (extractExternal E i jobNum tab w))
   = (if tab_remove E i = None then removeAll tab (openTabs w) else openTabs w)"
  "scrapedJobs (snd (extractExternal E i jobNum tab w)) = scrapedJobs w"
  "fetches (snd (extractExternal E i jobNum tab w)) = fetches w"
  "status_log (snd (extractExternal E i jobNum tab w)) = status_log w"
  by (simp_all add: extractExternal_def scrapeExternalJobPage_def scraped_data_def no_external_def
                    Let_def split: sum.splits option.splits)

lemma extractEmail_sel [simp]:
  "fst (extractEmail E i jobNum w) = email_data E i"
  "activity (snd (extractEmail E i jobNum w)) = activity w @ [TabsSendMessage ''EXTRACT_EMAIL_DATA'']"
  "openTabs (snd (extractEmail E i jobNum w)) = openTabs w"
  "scrapedJobs (snd (extractEmail E i jobNum w)) = scrapedJobs w"
  "fetches (snd (extractEmail E i jobNum w)) = fetches w"
  "status_log (snd (extractEmail E i jobNum w))
   = status_log w @ [(jobNum @ '' Extracting email template...'', StInfo)]"
  by (simp_all add: extractEmail_def getEmailData_def email_data_def split: sum.splits)

lemma saveToLocalStorage_sel [simp]:
  "scrapedJobs (saveToLocalStorage E i jobNum jid p w)
   = (if storage_ok E i then Some (filter (\<lambda>j. jobId j \<noteq> jid) (stored_jobs w) @ [p])
      else scrapedJobs w)"
  "activity (saveToLocalStorage E i jobNum jid p w)
   = activity w @ StorageGet ''scrapedJobs''
       # (if storage_get_fail E i = None then [StorageSet ''scrapedJobs''] else [])"
  "openTabs (saveToLocalStorage E i jobNum jid p w) = openTabs w"
  "fetches (saveToLocalStorage E i jobNum jid p w) = fetches w"
  "status_log (saveToLocalStorage E i jobNum jid p w) = status_log w"
  by (simp_all add: saveToLocalStorage_def storage_ok_def stored_jobs_def Let_def
               split: option.splits)

lemma post_outcome_Error: "post_outcome E n = Inl e \<Longrightarrow> \<exists>m. e = Error m"
  by (auto simp: post_outcome_def split: sum.splits if_splits)

lemma sendJobToAPI_returns: "\<exists>res. fst (sendJobToAPI E p w) = Inr res"
  by (auto simp: sendJobToAPI_def retry_postJob split: sum.splits thrown.splits
           dest: post_outcome_Error)

lemma sendJobToAPI_exhausted:
  assumes "post_outcome E (fetches w) = Inl e1" "post_outcome E (fetches w + 1) = Inl e2"
    and "post_outcome E (fetches w + 2) = Inl (Error m3)"
  shows "sendJobToAPI E p w
         = (Inr \<lparr>api_success = False, api_response = [], api_error = m3\<rparr>,
            log ERROR ''Failed to send job to API after retries''
              (exhausted E p (log INFO ''Sending job to API'' w)))"
  using assms by (simp add: sendJobToAPI_def retry_postJob)

lemma submitToAPI_exhausted:
  assumes "post_outcome E (fetches w) = Inl e1" "post_outcome E (fetches w + 1) = Inl e2"
    and "post_outcome E (fetches w + 2) = Inl (Error m3)"
  shows "submitToAPI E p w
         = log WARN (''API submission failed but continuing: '' @ m3)
             (log ERROR ''Failed to send job to API after retries''
                (exhausted E p (log INFO ''Sending job to API'' w)))"
  using assms by (simp add: submitToAPI_def sendJobToAPI_exhausted)


lemma mergeAndSend_sel:
  "scrapedJobs (mergeAndSend E rawJob jid i jobNum pd url src tab w)
   = (if storage_ok E i
      then Some (filter (\<lambda>j. jobId j \<noteq> jid) (stored_jobs w)
                 @ [buildPayload rawJob jid pd url (scraped_data E i) (email_data E i) src])
      else scrapedJobs w)"
  "openTabs (mergeAndSend E rawJob jid i jobNum pd url src tab w)
   = (if tab_remove E i = None then removeAll tab (openTabs w) else openTabs w)"
  "status_log (mergeAndSend E rawJob jid i jobNum pd url src tab w)
   = status_log w @ [(jobNum @ '' Extracting email template...'', StInfo)]"
  by (simp_all add: mergeAndSend_def split_beta Let_def stored_jobs_def status_log_submitToAPI)


lemma evolves_fields_eq:
  assumes "evolves E w w'"
  shows "queue w' = queue w" "isRunning w' = isRunning w" "dashboardTabId w' = dashboardTabId w"
    "processedCount w' = processedCount w" "failedCount w' = failedCount w"
  using assms by (simp_all add: evolves_def)

lemmas mergeAndSend_frame [simp] = evolves_fields_eq [OF evolves_mergeAndSend [OF evolves_refl]]

lemma markAsProcessed_sel [simp]:
  "processedCount (markAsProcessed E jid w) = processedCount w"
  "failedCount (markAsProcessed E jid w) = failedCount w"
  "scrapedJobs (markAsProcessed E jid w) = scrapedJobs w"
  "openTabs (markAsProcessed E jid w) = openTabs w"
  "queue (markAsProcessed E jid w) = queue w"
  "isProcessing (markAsProcessed E jid w) = isProcessing w"
  "fetches (markAsProcessed E jid w) = fetches w"
  "status_log (markAsProcessed E jid w) = status_log w"
  "activity (markAsProcessed E jid w) = activity w @ [StorageGet PROCESSED_IDS, StorageSet PROCESSED_IDS]"
  by (simp_all add: markAsProcessed_def Let_def)

lemma updateStats_sel [simp]:
  "processedCount (updateStats E type w) = processedCount w"
  "failedCount (updateStats E type w) = failedCount w"
  "scrapedJobs (updateStats E type w) = scrapedJobs w"
  "openTabs (updateStats E type w) = openTabs w"
  "queue (updateStats E type w) = queue w"
  "isProcessing (updateStats E type w) = isProcessing w"
  "fetches (updateStats E type w) = fetches w"
  "awaits (updateStats E type w) = awaits w + 1"
  "status_log (updateStats E type w) = status_log w"
  "activity (updateStats E type w) = activity w @ [StorageGet STATS, StorageSet STATS]"
  by (simp_all add: updateStats_def Let_def)

lemma popup_done_sel [simp]:
  "processedCount (popup_done E jobNum w) = processedCount w"
  "failedCount (popup_done E jobNum w) = failedCount w"
  "scrapedJobs (popup_done E jobNum w) = scrapedJobs w"
  "openTabs (popup_done E jobNum w) = openTabs w"
  "queue (popup_done E jobNum w) = queue w"
  "fetches (popup_done E jobNum w) = fetches w"
  "awaits (popup_done E jobNum w) = awaits w + 2"
  "status_log (popup_done E jobNum w) = status_log w @ [(jobNum @ '' Simulating interaction...'', StInfo)]"
  "activity (popup_done E jobNum w)
   = activity w @ [ExecuteScript ''simulateClickInMainWorld'', TabsSendMessage ''CLICK_JOB_ACTION'']"
  by (simp_all add: popup_done_def)

lemma tab_created_sel [simp]:
  "processedCount (tab_created E jobNum src url tab w) = processedCount w"
  "failedCount (tab_created E jobNum src url tab w) = failedCount w"
  "scrapedJobs (tab_created E jobNum src url tab w) = scrapedJobs w"
  "openTabs (tab_created E jobNum src url tab w) = openTabs w @ [tab]"
  "queue (tab_created E jobNum src url tab w) = queue w"
  "fetches (tab_created E jobNum src url tab w) = fetches w"
  "status_log (tab_created E jobNum src url tab w)
   = status_log w @ [(jobNum @ '' Simulating interaction...'', StInfo),
                     (jobNum @ '' Opening '' @ src @ '' page...'', StInfo)]"
  "activity (tab_created E jobNum src url tab w)
   = activity w @ [ExecuteScript ''simulateClickInMainWorld'', TabsSendMessage ''CLICK_JOB_ACTION'',
                   TabsCreate url]"
  by (simp_all add: tab_created_def Let_def)

definition reaches_extraction :: "env \<Rightarrow> nat \<Rightarrow> popupData \<Rightarrow> nat \<Rightarrow> bool" where
  "reaches_extraction E i pd tab \<longleftrightarrow>
     click E i = None \<and> popup E i = Inr pd \<and> pd_viewFullPostUrl pd \<noteq> []
     \<and> tab_create E i = Inr tab \<and> tab_load E i = None"

definition source_of :: "env \<Rightarrow> popupData \<Rightarrow> string" where
  "source_of E pd = projr (getDomainGroup (hostname_of E) (pd_viewFullPostUrl pd))"

lemma source_of_eq: "getDomainGroup (hostname_of E) (pd_viewFullPostUrl pd) = Inr (source_of E pd)"
  using getDomainGroup_Inr [of "hostname_of E" "pd_viewFullPostUrl pd"]
  by (auto simp: source_of_def)

definition tab_opened :: "env \<Rightarrow> string \<Rightarrow> popupData \<Rightarrow> nat \<Rightarrow> world \<Rightarrow> world" where
  "tab_opened E jobNum pd tab w =
     call E (WaitForTabComplete (Some tab))
       (tab_created E jobNum (source_of E pd) (pd_viewFullPostUrl pd) tab w)"

lemma processJobFlow_extracts:
  assumes "reaches_extraction E i pd tab"
  shows "processJobFlow E rawJob jid i jobNum w
         = (Inr (), mergeAndSend E rawJob jid i jobNum pd (pd_viewFullPostUrl pd) (source_of E pd) tab
                      (tab_opened E jobNum pd tab w))"
  using assms processJobFlow_tab_opened [OF _ _ _ source_of_eq, of E i pd tab rawJob jid jobNum w]
  by (simp add: reaches_extraction_def tab_opened_def)

lemma tab_opened_sel [simp]:
  "processedCount (tab_opened E jobNum pd tab w) = processedCount w"
  "failedCount (tab_opened E jobNum pd tab w) = failedCount w"
  "scrapedJobs (tab_opened E jobNum pd tab w) = scrapedJobs w"
  "openTabs (tab_opened E jobNum pd tab w) = openTabs w @ [tab]"
  "queue (tab_opened E jobNum pd tab w) = queue w"
  "fetches (tab_opened E jobNum pd tab w) = fetches w"
  "status_log (tab_opened E jobNum pd tab w)
   = status_log w @ [(jobNum @ '' Simulating interaction...'', StInfo),
                     (jobNum @ '' Opening '' @ source_of E pd @ '' page...'', StInfo)]"
  "activity (tab_opened E jobNum pd tab w)
   = activity w @ [ExecuteScript ''simulateClickInMainWorld'', TabsSendMessage ''CLICK_JOB_ACTION'',
                   TabsCreate (pd_viewFullPostUrl pd), WaitForTabComplete (Some tab)]"
  by (simp_all add: tab_opened_def)

definition item_jobId :: "nat \<Rightarrow> rawJob \<Rightarrow> string" where
  "item_jobId i rawJob =
     generateJobId (or_else (raw_title rawJob) (''job_'' @ dec_str i))
       (or_else (raw_company rawJob) ''unknown'')"

definition item_payload :: "env \<Rightarrow> nat \<Rightarrow> rawJob \<Rightarrow> popupData \<Rightarrow> jobPayload" where
  "item_payload E i rawJob pd =
     buildPayload rawJob (item_jobId i rawJob) pd (pd_viewFullPostUrl pd) (scraped_data E i)
       (email_data E i) (source_of E pd)"

lemma runQueue_item_success:
  assumes "reaches_extraction E i pd tab" "\<not> isProcessing w"
  shows "processedCount (runQueue_item E i w) = processedCount w + 1"
    and "failedCount (runQueue_item E i w) = failedCount w"
    and "\<not> isProcessing (runQueue_item E i w)"
    and "scrapedJobs (runQueue_item E i w)
         = (if storage_ok E i
            then Some (filter (\<lambda>j. jobId j \<noteq> item_jobId i (queue w ! i)) (stored_jobs w)
                       @ [item_payload E i (queue w ! i) pd])
            else scrapedJobs w)"
    and "openTabs (runQueue_item E i w)
         = (if tab_remove E i = None then removeAll tab (openTabs w @ [tab]) else openTabs w @ [tab])"
    and "map snd (status_log (runQueue_item E i w))
         = map snd (status_log w) @ [StInfo, StInfo, StInfo, StInfo, StSuccess]"
  using assms
  by (simp_all add: runQueue_item_def processSingleJob_def processJobFlow_extracts Let_def
                    mergeAndSend_sel item_payload_def item_jobId_def stored_jobs_def)

lemma runQueue_item_no_url:
  assumes "click E i = None" "popup E i = Inr pd" "pd_viewFullPostUrl pd = []" "\<not> isProcessing w"
  shows "processedCount (runQueue_item E i w) = processedCount w"
    and "failedCount (runQueue_item E i w) = failedCount w + 1"
    and "\<not> isProcessing (runQueue_item E i w)"
    and "scrapedJobs (runQueue_item E i w) = scrapedJobs w"
    and "openTabs (runQueue_item E i w) = openTabs w"
    and "map snd (status_log (runQueue_item E i w)) = map snd (status_log w) @ [StInfo, StInfo, StError]"
    and "activity (runQueue_item E i w)
         = activity w @ [ExecuteScript ''simulateClickInMainWorld'', TabsSendMessage ''CLICK_JOB_ACTION'',
                         StorageGet STATS, StorageSet STATS]"
    and "awaits (runQueue_item E i w) = awaits w + 3"
  using assms
  by (simp_all add: runQueue_item_def processSingleJob_def processJobFlow_no_url Let_def)

lemma runQueue_item_load_timeout:
  assumes "click E i = None" "popup E i = Inr pd" "pd_viewFullPostUrl pd \<noteq> []"
    and "tab_create E i = Inr tab" "tab_load E i = Some msg" "\<not> isProcessing w"
  shows "openTabs (runQueue_item E i w) = openTabs w @ [tab]"
    and "failedCount (runQueue_item E i w) = failedCount w + 1"
    and "activity (runQueue_item E i w)
         = activity w @ [ExecuteScript ''simulateClickInMainWorld'', TabsSendMessage ''CLICK_JOB_ACTION'',
                         TabsCreate (pd_viewFullPostUrl pd), WaitForTabComplete (Some tab),
                         StorageGet STATS, StorageSet STATS]"
  using assms processJobFlow_load_timeout [OF _ _ _ source_of_eq, of E i pd tab msg]
  by (simp_all add: runQueue_item_def processSingleJob_def Let_def)

definition inter_item_delay :: "env \<Rightarrow> nat \<Rightarrow> world \<Rightarrow> world" where
  "inter_item_delay E i w =
     (if i < length (queue w) - 1 \<and> \<not> stopRequested w
      then sleep E JOB_DELAY_MS
             (broadcastStatus (''Waiting '' @ dec_str (JOB_DELAY_MS div 1000) @ ''s before next job...'')
                StInfo w)
      else w)"

lemma runQueue_loop_done: "\<not> i < length (queue w) \<Longrightarrow> runQueue_loop E i w = w"
  by (simp add: runQueue_loop.simps)

lemma runQueue_loop_stop:
  "i < length (queue w) \<Longrightarrow> stopRequested w \<Longrightarrow>
   runQueue_loop E i w = broadcastStatus ''Processing stopped by user.'' StWarn w"
  by (simp add: runQueue_loop.simps)

lemma runQueue_loop_step:
  "i < length (queue w) \<Longrightarrow> \<not> stopRequested w \<Longrightarrow>
   runQueue_loop E i w = runQueue_loop E (i + 1) (inter_item_delay E i (runQueue_item E i w))"
  by (subst runQueue_loop.simps) (simp add: inter_item_delay_def Let_def)

lemmas processSingleJob_frame [simp] =
  evolves_fields_eq [OF evolves_processSingleJob [OF evolves_refl]]

lemma runQueue_item_counts:
  "processedCount (runQueue_item E i w) + failedCount (runQueue_item E i w)
   = processedCount w + failedCount w + 1"
  by (simp add: runQueue_item_def Let_def split_beta split: sum.splits)

definition phase1_message :: "world \<Rightarrow> string" where
  "phase1_message w =
     ''Phase 1 (Scraping) complete. '' @ dec_str (processedCount w) @ '' succeeded, ''
     @ dec_str (failedCount w) @ '' failed.''"

lemma runQueue_finish_stopped:
  "stopRequested w \<Longrightarrow>
   runQueue_finish E w = (Inr (), finishQueue (broadcastStatus (phase1_message w) StSuccess w))"
  by (simp add: runQueue_finish_def phase1_message_def Let_def)

definition finish_activity :: "world \<Rightarrow> event list" where
  "finish_activity w =
     (if dashboardTabId w \<noteq> None \<and> dashboardTabId w \<noteq> Some 0
      then [TabsUpdate (dashboardTabId w) ''https://landbetterjobs.com/dashboard'']
      else [])
     @ [StorageSet QUEUE_ACTIVE]"

lemma finishQueue_sel [simp]:
  "queue (finishQueue w) = []"
  "isRunning (finishQueue w) = False"
  "stopRequested (finishQueue w) = False"
  "dashboardTabId (finishQueue w) = None"
  "queue_active (finishQueue w) = Some False"
  "processedCount (finishQueue w) = processedCount w"
  "failedCount (finishQueue w) = failedCount w"
  "scrapedJobs (finishQueue w) = scrapedJobs w"
  "openTabs (finishQueue w) = openTabs w"
  "isProcessing (finishQueue w) = isProcessing w"
  "activity (finishQueue w) = activity w @ finish_activity w"
  by (simp_all add: finishQueue_def finish_activity_def Let_def activity_def)

lemma advances_fields:
  assumes "advances E w w'"
  shows "queue w' = queue w" "isRunning w' = isRunning w" "dashboardTabId w' = dashboardTabId w"
    and "stopRequested w' \<longleftrightarrow> stopRequested w \<or> (\<exists>t. awaits w \<le> t \<and> t < awaits w' \<and> stop_at E t)"
  using assms by (simp_all add: advances_def)

lemmas runQueue_item_frame [simp] = advances_fields(1-3) [OF advances_runQueue_item]

lemma resume_loop_invariant:
  assumes bs: "\<And>w m l. P w \<Longrightarrow> P (broadcastStatus m l w)"
    and cl: "\<And>w ev. P w \<Longrightarrow> P (call E ev w)"
    and lg: "\<And>w l m. P w \<Longrightarrow> P (log l m w)"
    and sl: "\<And>w ms. P w \<Longrightarrow> P (sleep E ms w)"
    and sj: "\<And>w p. P w \<Longrightarrow> P (snd (sendJobToAPI E p w))"
  shows "P w \<Longrightarrow> P (snd (resume_loop E pendingJobs i w))"
proof (induction "length pendingJobs - i" arbitrary: i w)
  case 0
  then show ?case by (simp add: resume_loop.simps)
next
  case (Suc n)
  have n: "n = length pendingJobs - Suc i" using Suc.hyps(2) by simp
  note IH = Suc.hyps(1) [OF n]
  show ?case
    using Suc.prems
    by (subst resume_loop.simps)
       (auto simp: Let_def split_beta split: sum.splits option.splits
             intro!: IH bs cl lg sl sj)
qed

lemma quiet_resume_loop: "quiet w0 w \<Longrightarrow> quiet w0 (snd (resume_loop E pendingJobs i w))"
  by (rule resume_loop_invariant [where P = "quiet w0"])
     (auto intro: quiet_steps quiet_sendJobToAPI)

lemma quiet_runResumeBuilderQueue: "quiet w0 w \<Longrightarrow> quiet w0 (snd (runResumeBuilderQueue E w))"
  by (auto simp: runResumeBuilderQueue_def Let_def split_beta split: sum.splits option.splits
           intro!: quiet_steps quiet_resume_loop)

lemmas runResumeBuilderQueue_frame [simp] =
  quiet_fields [OF quiet_runResumeBuilderQueue [OF quiet_refl]]

definition never_stopped :: "env \<Rightarrow> bool" where
  "never_stopped E \<longleftrightarrow> (\<forall>t. \<not> stop_at E t)"

lemma never_stopped_advances:
  "never_stopped E \<Longrightarrow> advances E w w' \<Longrightarrow> stopRequested w' = stopRequested w"
  by (auto simp: never_stopped_def advances_def)

lemma never_stopped_prims [simp]:
  "never_stopped E \<Longrightarrow> stopRequested (suspend E w) = stopRequested w"
  "never_stopped E \<Longrightarrow> stopRequested (sleep E ms w) = stopRequested w"
  "never_stopped E \<Longrightarrow> stopRequested (call E ev w) = stopRequested w"
  by (simp_all add: never_stopped_def)

lemma runQueue_item_never_stopped [simp]:
  "never_stopped E \<Longrightarrow> stopRequested (runQueue_item E i w) = stopRequested w"
  by (rule never_stopped_advances [OF _ advances_runQueue_item])

lemma inter_item_delay_sel [simp]:
  "queue (inter_item_delay E i w) = queue w"
  "processedCount (inter_item_delay E i w) = processedCount w"
  "failedCount (inter_item_delay E i w) = failedCount w"
  "scrapedJobs (inter_item_delay E i w) = scrapedJobs w"
  "isProcessing (inter_item_delay E i w) = isProcessing w"
  "openTabs (inter_item_delay E i w) = openTabs w"
  "never_stopped E \<Longrightarrow> stopRequested (inter_item_delay E i w) = stopRequested w"
  by (simp_all add: inter_item_delay_def never_stopped_def)

lemma two_items_phase1:
  assumes q: "length (queue w) = 2" and idle: "\<not> isProcessing w" "\<not> stopRequested w"
    and ns: "never_stopped E"
    and ok0: "reaches_extraction E 0 pd0 tab" "storage_ok E 0"
    and bad1: "click E 1 = None" "popup E 1 = Inr pd1" "pd_viewFullPostUrl pd1 = []"
  shows "processedCount (runQueue_loop E 0 w) = processedCount w + 1"
    and "failedCount (runQueue_loop E 0 w) = failedCount w + 1"
    and "scrapedJobs (runQueue_loop E 0 w)
         = Some (filter (\<lambda>j. jobId j \<noteq> item_jobId 0 (queue w ! 0)) (stored_jobs w)
                 @ [item_payload E 0 (queue w ! 0) pd0])"
    and "\<not> stopRequested (runQueue_loop E 0 w)"
    and "queue (runQueue_loop E 0 w) = queue w"
proof -
  let ?a = "runQueue_item E 0 w"
  let ?d = "inter_item_delay E 0 ?a"
  let ?b = "runQueue_item E 1 ?d"
  have a: "\<not> isProcessing ?a" "\<not> stopRequested ?a"
    using runQueue_item_success(3) [OF ok0(1) idle(1)] idle(2) ns by simp_all
  have d: "\<not> isProcessing ?d" "\<not> stopRequested ?d"
    using a ns by simp_all
  have b: "\<not> stopRequested ?b"
    using d ns by simp
  have loop: "runQueue_loop E 0 w = ?b"
  proof -
    have "runQueue_loop E 0 w = runQueue_loop E 1 ?d"
      using runQueue_loop_step [of 0 w E] q idle(2) by simp
    also have "\<dots> = runQueue_loop E 2 (inter_item_delay E 1 ?b)"
      using runQueue_loop_step [of 1 ?d E] q d(2) by (simp add: numeral_2_eq_2)
    also have "\<dots> = inter_item_delay E 1 ?b"
      using q by (simp add: runQueue_loop_done)
    also have "\<dots> = ?b"
      using q by (simp add: inter_item_delay_def)
    finally show ?thesis .
  qed
  show "processedCount (runQueue_loop E 0 w) = processedCount w + 1"
    unfolding loop
    using runQueue_item_no_url(1) [OF bad1 d(1)] runQueue_item_success(1) [OF ok0(1) idle(1)]
    by simp
  show "failedCount (runQueue_loop E 0 w) = failedCount w + 1"
    unfolding loop
    using runQueue_item_no_url(2) [OF bad1 d(1)] runQueue_item_success(2) [OF ok0(1) idle(1)]
    by simp
  show "scrapedJobs (runQueue_loop E 0 w)
         = Some (filter (\<lambda>j. jobId j \<noteq> item_jobId 0 (queue w ! 0)) (stored_jobs w)
                 @ [item_payload E 0 (queue w ! 0) pd0])"
    unfolding loop
    using runQueue_item_no_url(4) [OF bad1 d(1)] runQueue_item_success(4) [OF ok0(1) idle(1)] ok0(2)
    by simp
  show "\<not> stopRequested (runQueue_loop E 0 w)"
    unfolding loop by (rule b)
  show "queue (runQueue_loop E 0 w) = queue w"
    unfolding loop by simp
qed

lemma runQueue_finish_sel:
  "processedCount (snd (runQueue_finish E w)) = processedCount w"
  "failedCount (snd (runQueue_finish E w)) = failedCount w"
  "scrapedJobs (snd (runQueue_finish E w)) = scrapedJobs w"
  "fst (runQueue_finish E w) = Inr () \<Longrightarrow> queue (snd (runQueue_finish E w)) = []"
  "fst (runQueue_finish E w) = Inr () \<Longrightarrow> \<not> isRunning (snd (runQueue_finish E w))"
  by (simp_all add: runQueue_finish_def Let_def split_beta split: sum.splits if_splits)

lemma onJobsCollected_sel [simp]:
  "queue (onJobsCollected jobs w) = jobs"
  "processedCount (onJobsCollected jobs w) = processedCount w"
  "failedCount (onJobsCollected jobs w) = failedCount w"
  "scrapedJobs (onJobsCollected jobs w) = scrapedJobs w"
  "isProcessing (onJobsCollected jobs w) = isProcessing w"
  "stopRequested (onJobsCollected jobs w) = stopRequested w"
  "dashboardTabId (onJobsCollected jobs w) = dashboardTabId w"
  "isRunning (onJobsCollected jobs w) = isRunning w"
  by (simp_all add: onJobsCollected_def)

definition queue_started :: "env \<Rightarrow> options \<Rightarrow> nat \<Rightarrow> rawJob list \<Rightarrow> world \<Rightarrow> world" where
  "queue_started E opts tab jobs w =
     (let w1 = (log INFO ''Starting RecruitPulse queue'' w)
                 \<lparr>isRunning := True, stopRequested := False, processedCount := 0, failedCount := 0\<rparr>;
          w2 = call E (StorageSet QUEUE_ACTIVE) (w1\<lparr>queue_active := Some True\<rparr>);
          w3 = (if clearHistory opts
                then log INFO ''Cleared processing history''
                       (call E (StorageRemove (PROCESSED_IDS @ '','' @ STATS))
                          (w2\<lparr>processed_ids := None, stats := None\<rparr>))
                else w2);
          w4 = call E TabsQuery w3;
          w5 = call E (TabsSendMessage ''COLLECT_JOBS'')
                 (broadcastStatus ''Collecting jobs from dashboard...'' StInfo
                    (log INFO (''Dashboard tab: '' @ dec_str tab) (w4\<lparr>dashboardTabId := Some tab\<rparr>)));
          w6 = sleep E 800 (onJobsCollected jobs w5)
      in broadcastStatus (''Found '' @ dec_str (length (queue w6))
                          @ '' job(s). Starting sequential processing...'') StInfo w6)"

lemma handleStartQueue_runs:
  assumes "\<not> isRunning w" "tabs_query E = Inr (tab # tabs)" "collect_jobs E = Inr (Some jobs)"
    and "jobs \<noteq> []"
  shows "handleStartQueue E opts w = runQueue E (queue_started E opts tab jobs w)"
  using assms by (simp add: handleStartQueue_def queue_started_def Let_def)

lemma queue_started_sel:
  "queue (queue_started E opts tab jobs w) = jobs"
  "processedCount (queue_started E opts tab jobs w) = 0"
  "failedCount (queue_started E opts tab jobs w) = 0"
  "scrapedJobs (queue_started E opts tab jobs w) = scrapedJobs w"
  "isProcessing (queue_started E opts tab jobs w) = isProcessing w"
  "never_stopped E \<Longrightarrow> \<not> stopRequested (queue_started E opts tab jobs w)"
  by (simp_all add: queue_started_def Let_def never_stopped_def)

lemma two_items_end_to_end:
  assumes start: "\<not> isRunning w" "\<not> isProcessing w"
    and tabs: "tabs_query E = Inr (tab # tabs)"
    and jobs: "collect_jobs E = Inr (Some [job0, job1])"
    and ns: "never_stopped E"
    and ok0: "reaches_extraction E 0 pd0 tab0" "storage_ok E 0"
    and bad1: "click E 1 = None" "popup E 1 = Inr pd1" "pd_viewFullPostUrl pd1 = []"
  shows "processedCount (snd (handleStartQueue E opts w)) = 1"
    and "failedCount (snd (handleStartQueue E opts w)) = 1"
    and "scrapedJobs (snd (handleStartQueue E opts w))
         = Some (filter (\<lambda>j. jobId j \<noteq> item_jobId 0 job0) (stored_jobs w) @ [item_payload E 0 job0 pd0])"
    and "fst (handleStartQueue E opts w) = Inr () \<Longrightarrow> queue (snd (handleStartQueue E opts w)) = []"
    and "fst (handleStartQueue E opts w) = Inr () \<Longrightarrow> \<not> isRunning (snd (handleStartQueue E opts w))"
proof -
  define wq where "wq = queue_started E opts tab [job0, job1] w"
  have wq: "handleStartQueue E opts w = runQueue E wq"
    "queue wq = [job0, job1]" "processedCount wq = 0" "failedCount wq = 0"
    "scrapedJobs wq = scrapedJobs w" "isProcessing wq = isProcessing w" "\<not> stopRequested wq"
    using handleStartQueue_runs [OF start(1) tabs jobs, of opts] queue_started_sel(6) [OF ns]
    by (simp_all add: wq_def queue_started_sel)
  have q: "length (queue wq) = 2" by (simp add: wq(2))
  have idle: "\<not> isProcessing wq" using start(2) wq(6) by simp
  note p1 = two_items_phase1 [OF q idle wq(7) ns ok0 bad1]
  have sj: "stored_jobs wq = stored_jobs w" by (simp add: stored_jobs_def wq(5))
  have run: "handleStartQueue E opts w = runQueue_finish E (runQueue_loop E 0 wq)"
    by (simp add: wq(1) runQueue_def)
  show "processedCount (snd (handleStartQueue E opts w)) = 1"
    by (simp add: run runQueue_finish_sel p1(1) wq(3))
  show "failedCount (snd (handleStartQueue E opts w)) = 1"
    by (simp add: run runQueue_finish_sel p1(2) wq(4))
  show "scrapedJobs (snd (handleStartQueue E opts w))
         = Some (filter (\<lambda>j. jobId j \<noteq> item_jobId 0 job0) (stored_jobs w) @ [item_payload E 0 job0 pd0])"
    using p1(3) by (simp add: run runQueue_finish_sel wq(2) sj)
  show "queue (snd (handleStartQueue E opts w)) = []" if "fst (handleStartQueue E opts w) = Inr ()"
    using that by (simp add: run runQueue_finish_sel)
  show "\<not> isRunning (snd (handleStartQueue E opts w))" if "fst (handleStartQueue E opts w) = Inr ()"
    using that by (simp add: run runQueue_finish_sel)
qed

lemma mergeAndSend_saves_first:
  "\<exists>ws. mergeAndSend E rawJob jid i jobNum pd url src tab w
          = submitToAPI E (buildPayload rawJob jid pd url (scraped_data E i) (email_data E i) src) ws
        \<and> (storage_ok E i \<longrightarrow>
             scrapedJobs ws
             = Some (filter (\<lambda>j. jobId j \<noteq> jid) (stored_jobs w)
                     @ [buildPayload rawJob jid pd url (scraped_data E i) (email_data E i) src]))"
  by (rule exI [where x = "saveToLocalStorage E i jobNum jid
                             (buildPayload rawJob jid pd url (scraped_data E i) (email_data E i) src)
                             (snd (extractEmail E i jobNum (snd (extractExternal E i jobNum tab w))))"])
     (simp add: mergeAndSend_def split_beta Let_def stored_jobs_def)

section \<open>The guard flags while an item or a run is in progress\<close>

text \<open>
  The processing of one item, from the entry of \<^verbatim>\<open>processJobFlow\<close> to the end of
  \<^verbatim>\<open>updateStats\<close>, is a sequence of steps of three kinds: an event, a suspension, a
  write to one of the data fields. \<open>steps E w0 w\<close> says that such a sequence leads from
  \<open>w0\<close> to \<open>w\<close>. No step writes to \<^verbatim>\<open>isRunning\<close> or \<^verbatim>\<open>isProcessing\<close>.
\<close>

inductive steps :: "env \<Rightarrow> world \<Rightarrow> world \<Rightarrow> bool" for E w0 where
  steps_refl: "steps E w0 w0"
| steps_emit: "steps E w0 w \<Longrightarrow> steps E w0 (emit ev w)"
| steps_suspend: "steps E w0 w \<Longrightarrow> steps E w0 (suspend E w)"
| steps_fetches: "steps E w0 w \<Longrightarrow> steps E w0 (w\<lparr>fetches := n\<rparr>)"
| steps_openTabs: "steps E w0 w \<Longrightarrow> steps E w0 (w\<lparr>openTabs := ts\<rparr>)"
| steps_scrapedJobs: "steps E w0 w \<Longrightarrow> steps E w0 (w\<lparr>scrapedJobs := js\<rparr>)"
| steps_processed_ids: "steps E w0 w \<Longrightarrow> steps E w0 (w\<lparr>processed_ids := ids\<rparr>)"
| steps_stats: "steps E w0 w \<Longrightarrow> steps E w0 (w\<lparr>stats := st\<rparr>)"

lemma steps_log: "steps E w0 w \<Longrightarrow> steps E w0 (log l m w)"
  by (simp add: log_def steps_emit)

lemma steps_broadcastStatus: "steps E w0 w \<Longrightarrow> steps E w0 (broadcastStatus m l w)"
  by (simp add: broadcastStatus_def steps_emit steps_log)

lemma steps_sleep: "steps E w0 w \<Longrightarrow> steps E w0 (sleep E ms w)"
  by (simp add: sleep_def steps_emit steps_suspend)

lemma steps_call: "steps E w0 w \<Longrightarrow> steps E w0 (call E ev w)"
  by (simp add: call_def steps_emit steps_suspend)

lemmas steps_prims =
  steps_emit steps_log steps_broadcastStatus steps_suspend steps_sleep steps_call
  steps_fetches steps_openTabs steps_scrapedJobs steps_processed_ids steps_stats

lemma steps_postJob:
  "steps E w0 w \<Longrightarrow> steps E w0 (snd (postJob E p w))"
  by (auto simp: postJob_def Let_def split: sum.splits intro!: steps_prims)

lemma steps_retry_loop:
  "(\<And>w. steps E w0 w \<Longrightarrow> steps E w0 (snd (fn w))) \<Longrightarrow>
   steps E w0 w \<Longrightarrow> steps E w0 (snd (retry_loop fn E m b a le w))"
  by (rule retry_loop_invariant [where P = "steps E w0"]) (auto intro: steps_prims)

lemma steps_sendJobToAPI:
  "steps E w0 w \<Longrightarrow> steps E w0 (snd (sendJobToAPI E p w))"
  unfolding sendJobToAPI_def retry_def
  by (auto simp: split_beta split: sum.splits thrown.splits
           intro!: steps_prims steps_retry_loop steps_postJob)

lemma steps_submitToAPI: "steps E w0 w \<Longrightarrow> steps E w0 (submitToAPI E p w)"
  by (auto simp: submitToAPI_def split_beta split: sum.splits
           intro!: steps_prims steps_sendJobToAPI)

lemma steps_markAsProcessed: "steps E w0 w \<Longrightarrow> steps E w0 (markAsProcessed E jid w)"
  by (auto simp: markAsProcessed_def Let_def intro!: steps_prims)

lemma steps_updateStats: "steps E w0 w \<Longrightarrow> steps E w0 (updateStats E type w)"
  by (auto simp: updateStats_def Let_def intro!: steps_prims)

lemma steps_calls:
  "steps E w0 w \<Longrightarrow> steps E w0 (snd (simulateClick E i w))"
  "steps E w0 w \<Longrightarrow> steps E w0 (snd (getPopupData E i w))"
  "steps E w0 w \<Longrightarrow> steps E w0 (snd (tabs_create_call E i url w))"
  "steps E w0 w \<Longrightarrow> steps E w0 (snd (waitForTabComplete E i tab w))"
  "steps E w0 w \<Longrightarrow> steps E w0 (snd (scrapeExternalJobPage E i w))"
  "steps E w0 w \<Longrightarrow> steps E w0 (snd (tabs_remove_call E i tab w))"
  "steps E w0 w \<Longrightarrow> steps E w0 (snd (getEmailData E i w))"
  by (auto simp: simulateClick_def getPopupData_def tabs_create_call_def waitForTabComplete_def
                 scrapeExternalJobPage_def tabs_remove_call_def getEmailData_def Let_def
           split: sum.splits option.splits intro!: steps_prims)

lemma steps_openExternalTab:
  "steps E w0 w \<Longrightarrow> steps E w0 (snd (openExternalTab E i url w))"
  by (auto simp: openExternalTab_def split_beta split: sum.splits intro!: steps_calls)

lemma steps_closeTab: "steps E w0 w \<Longrightarrow> steps E w0 (closeTab E i jobNum tab w)"
  by (auto simp: closeTab_def split_beta split: sum.splits intro!: steps_prims steps_calls)

lemma steps_extractExternal:
  "steps E w0 w \<Longrightarrow> steps E w0 (snd (extractExternal E i jobNum tab w))"
  by (auto simp: extractExternal_def Let_def split_beta split: sum.splits option.splits
           intro!: steps_closeTab steps_prims steps_calls)

lemma steps_extractEmail:
  "steps E w0 w \<Longrightarrow> steps E w0 (snd (extractEmail E i jobNum w))"
  by (auto simp: extractEmail_def split_beta split: sum.splits
           intro!: steps_prims steps_calls)

lemma steps_saveToLocalStorage:
  "steps E w0 w \<Longrightarrow> steps E w0 (saveToLocalStorage E i jobNum jid p w)"
  by (auto simp: saveToLocalStorage_def Let_def split: option.splits intro!: steps_prims)

lemma steps_mergeAndSend:
  "steps E w0 w \<Longrightarrow> steps E w0 (mergeAndSend E rawJob jid i jobNum pd url src tab w)"
  by (auto simp: mergeAndSend_def Let_def split_beta
           intro!: steps_submitToAPI steps_saveToLocalStorage
                   steps_extractEmail steps_extractExternal)

lemma steps_processJobFlow:
  "steps E w0 w \<Longrightarrow> steps E w0 (snd (processJobFlow E rawJob jid i jobNum w))"
  by (auto simp: processJobFlow_def Let_def split_beta split: sum.splits
           intro!: steps_mergeAndSend steps_prims steps_openExternalTab steps_calls)

text \<open>
  \<open>holds_lock w w'\<close>: the lock is held in \<open>w'\<close> and was held at every suspension passed
  since \<open>w\<close>. \<open>keeps_running w w'\<close> is the same for the run flag. Both are kept by
  every step.
\<close>

definition holds_lock :: "world \<Rightarrow> world \<Rightarrow> bool" where
  "holds_lock w w' \<longleftrightarrow>
     isProcessing w'
     \<and> (\<exists>gs. observed w' = observed w @ gs \<and> list_all seen_isProcessing gs)"

definition keeps_running :: "world \<Rightarrow> world \<Rightarrow> bool" where
  "keeps_running w w' \<longleftrightarrow>
     isRunning w'
     \<and> (\<exists>gs. observed w' = observed w @ gs \<and> list_all seen_isRunning gs)"

lemma steps_holds_lock: "steps E w v \<Longrightarrow> holds_lock w0 w \<Longrightarrow> holds_lock w0 v"
  by (induction rule: steps.induct)
     (auto simp: holds_lock_def emit_def suspend_def onStopQueue_def log_def Let_def)

lemma steps_keeps_running: "steps E w v \<Longrightarrow> keeps_running w0 w \<Longrightarrow> keeps_running w0 v"
  by (induction rule: steps.induct)
     (auto simp: keeps_running_def emit_def suspend_def onStopQueue_def log_def Let_def)

lemma steps_observed: "steps E w v \<Longrightarrow> \<exists>gs. observed v = observed w @ gs"
  by (induction rule: steps.induct)
     (auto simp: emit_def suspend_def onStopQueue_def log_def Let_def)

lemma processJobFlow_begins:
  assumes "snd (simulateClick E i (broadcastStatus (jobNum @ '' Simulating interaction...'') StInfo w)) = b"
  shows "steps E b (snd (processJobFlow E rawJob jid i jobNum w))"
  using assms
  by (auto simp: processJobFlow_def Let_def split_beta split: sum.splits
           intro!: steps_mergeAndSend steps_prims steps_openExternalTab steps_calls(2-) steps_refl)

lemma processJobFlow_suspends:
  "\<exists>gs. observed (snd (processJobFlow E rawJob jid i jobNum w))
          = observed w @ \<lparr>seen_isRunning = isRunning w, seen_isProcessing = isProcessing w\<rparr> # gs"
proof -
  let ?b = "snd (simulateClick E i (broadcastStatus (jobNum @ '' Simulating interaction...'') StInfo w))"
  have "observed ?b = observed w @ [\<lparr>seen_isRunning = isRunning w, seen_isProcessing = isProcessing w\<rparr>]"
    by (simp add: simulateClick_def)
  then show ?thesis
    using steps_observed [OF processJobFlow_begins [OF refl, of E i jobNum w rawJob jid]] by auto
qed

lemma holds_lock_processJobFlow:
  "holds_lock w0 w \<Longrightarrow> holds_lock w0 (snd (processJobFlow E rawJob jid i jobNum w))"
  by (rule steps_holds_lock [OF steps_processJobFlow [OF steps_refl]])

lemma processSingleJob_holds_lock:
  assumes "\<not> isProcessing w"
  shows "\<exists>gs. observed (snd (processSingleJob E rawJob jid i jobNum w)) = observed w @ gs
              \<and> gs \<noteq> [] \<and> list_all seen_isProcessing gs"
proof -
  let ?v = "w\<lparr>isProcessing := True\<rparr>"
  let ?w1 = "snd (processJobFlow E rawJob jid i jobNum ?v)"
  let ?w2 = "updateStats E ''success'' (markAsProcessed E jid ?w1)"
  have l0: "holds_lock w ?v"
    by (simp add: holds_lock_def)
  have l1: "holds_lock w ?w1"
    by (rule holds_lock_processJobFlow [OF l0])
  have l2: "holds_lock w ?w2"
    by (rule steps_holds_lock [OF steps_updateStats [OF steps_markAsProcessed [OF steps_refl]] l1])
  obtain gs where g1: "observed ?w1 = observed w @ \<lparr>seen_isRunning = isRunning w, seen_isProcessing = True\<rparr> # gs"
    using processJobFlow_suspends [of E rawJob jid i jobNum ?v] by auto
  obtain gs' where g2: "observed ?w2 = observed ?w1 @ gs'"
    using steps_observed [OF steps_updateStats [OF steps_markAsProcessed [OF steps_refl]], of E "''success''" jid ?w1]
    by auto
  have "observed (snd (processSingleJob E rawJob jid i jobNum w))
        = (case fst (processJobFlow E rawJob jid i jobNum ?v) of Inl msg \<Rightarrow> observed ?w1 | Inr u \<Rightarrow> observed ?w2)"
    using assms by (simp add: processSingleJob_def split_beta split: sum.splits)
  then show ?thesis
    using l1 l2 g1 g2 by (auto simp: holds_lock_def split: sum.splits)
qed

text \<open>
  The run flag through the loop, phase 2 and \<^verbatim>\<open>finishQueue\<close>, which clears it and
  suspends no more. \<open>accepted\<close> is the state in which \<^verbatim>\<open>handleStartQueue\<close> has taken
  the start command, before its first \<^verbatim>\<open>await\<close>.
\<close>

lemma keeps_running_updates:
  "keeps_running w0 w \<Longrightarrow> keeps_running w0 (w\<lparr>isProcessing := b\<rparr>)"
  "keeps_running w0 w \<Longrightarrow> keeps_running w0 (w\<lparr>processedCount := n\<rparr>)"
  "keeps_running w0 w \<Longrightarrow> keeps_running w0 (w\<lparr>failedCount := n\<rparr>)"
  by (simp_all add: keeps_running_def)

lemma keeps_running_prims:
  "keeps_running w0 w \<Longrightarrow> keeps_running w0 (emit ev w)"
  "keeps_running w0 w \<Longrightarrow> keeps_running w0 (log l m w)"
  "keeps_running w0 w \<Longrightarrow> keeps_running w0 (broadcastStatus m sl w)"
  "keeps_running w0 w \<Longrightarrow> keeps_running w0 (suspend E w)"
  "keeps_running w0 w \<Longrightarrow> keeps_running w0 (sleep E ms w)"
  "keeps_running w0 w \<Longrightarrow> keeps_running w0 (call E ev w)"
  by (auto simp: keeps_running_def)

lemma keeps_running_processSingleJob:
  "keeps_running w0 w \<Longrightarrow> keeps_running w0 (snd (processSingleJob E rawJob jid i jobNum w))"
  by (auto simp: processSingleJob_def split_beta split: sum.splits
           intro!: keeps_running_updates
                   steps_keeps_running [OF steps_updateStats [OF steps_markAsProcessed
                                            [OF steps_processJobFlow [OF steps_refl]]]]
                   steps_keeps_running [OF steps_processJobFlow [OF steps_refl]])

lemma keeps_running_runQueue_item:
  "keeps_running w0 w \<Longrightarrow> keeps_running w0 (runQueue_item E i w)"
  unfolding runQueue_item_def Let_def split_beta
  by (auto split: sum.splits
           intro!: keeps_running_prims keeps_running_updates keeps_running_processSingleJob
                   steps_keeps_running [OF steps_updateStats [OF steps_refl]])

lemma keeps_running_inter_item_delay:
  "keeps_running w0 w \<Longrightarrow> keeps_running w0 (inter_item_delay E i w)"
  by (auto simp: inter_item_delay_def intro!: keeps_running_prims)

lemma keeps_running_runQueue_loop:
  "keeps_running w0 w \<Longrightarrow> keeps_running w0 (runQueue_loop E i w)"
proof (induction "length (queue w) - i" arbitrary: i w)
  case 0
  then show ?case by (simp add: runQueue_loop_done)
next
  case (Suc n)
  then have lt: "i < length (queue w)" by simp
  show ?case
  proof (cases "stopRequested w")
    case True
    then show ?thesis
      using lt Suc.prems by (simp add: runQueue_loop_stop keeps_running_prims)
  next
    case False
    let ?v = "inter_item_delay E i (runQueue_item E i w)"
    have n: "n = length (queue ?v) - (i + 1)"
      using Suc.hyps(2) by simp
    have "keeps_running w0 ?v"
      by (intro keeps_running_inter_item_delay keeps_running_runQueue_item Suc.prems)
    then show ?thesis
      using lt False Suc.hyps(1) [OF n] by (simp add: runQueue_loop_step)
  qed
qed

lemma keeps_running_resume_loop:
  "keeps_running w0 w \<Longrightarrow> keeps_running w0 (snd (resume_loop E pendingJobs i w))"
  by (rule resume_loop_invariant [where P = "keeps_running w0"])
     (auto intro: keeps_running_prims steps_keeps_running [OF steps_sendJobToAPI [OF steps_refl]])

lemma keeps_running_runResumeBuilderQueue:
  "keeps_running w0 w \<Longrightarrow> keeps_running w0 (snd (runResumeBuilderQueue E w))"
  by (auto simp: runResumeBuilderQueue_def Let_def split_beta split: sum.splits option.splits
           intro!: keeps_running_prims keeps_running_resume_loop)

definition ran :: "world \<Rightarrow> world \<Rightarrow> bool" where
  "ran w w' \<longleftrightarrow> (\<exists>gs. observed w' = observed w @ gs \<and> list_all seen_isRunning gs)"

lemma ran_finishQueue: "keeps_running w0 w \<Longrightarrow> ran w0 (finishQueue w)"
  by (auto simp: keeps_running_def ran_def finishQueue_def Let_def emit_def log_def)

lemma ran_keeps_running: "keeps_running w0 w \<Longrightarrow> ran w0 w"
  by (auto simp: keeps_running_def ran_def)

lemma ran_runQueue_finish:
  "keeps_running w0 w \<Longrightarrow> ran w0 (snd (runQueue_finish E w))"
  by (simp add: runQueue_finish_def Let_def split_beta ran_finishQueue ran_keeps_running
                keeps_running_runResumeBuilderQueue keeps_running_prims
           split: sum.splits)

lemma ran_runQueue: "keeps_running w0 w \<Longrightarrow> ran w0 (snd (runQueue E w))"
  by (simp add: runQueue_def ran_runQueue_finish keeps_running_runQueue_loop)

definition accepted :: "world \<Rightarrow> world" where
  "accepted w =
     (log INFO ''Starting RecruitPulse queue'' w)
       \<lparr>isRunning := True, stopRequested := False, processedCount := 0, failedCount := 0\<rparr>"

lemma handleStartQueue_ran:
  assumes "\<not> isRunning w"
  shows "ran (call E (StorageSet QUEUE_ACTIVE) ((accepted w)\<lparr>queue_active := Some True\<rparr>))
             (snd (handleStartQueue E opts w))"
proof -
  let ?w2 = "call E (StorageSet QUEUE_ACTIVE) ((accepted w)\<lparr>queue_active := Some True\<rparr>)"
  have k2: "keeps_running ?w2 ?w2"
    by (simp add: keeps_running_def accepted_def)
  have upd: "keeps_running w0 (v\<lparr>processed_ids := None, stats := None\<rparr>)"
    "keeps_running w0 (v\<lparr>dashboardTabId := Some tab\<rparr>)"
    "keeps_running w0 (onJobsCollected jobs v)"
    if "keeps_running w0 v" for w0 v tab jobs
    using that by (simp_all add: keeps_running_def onJobsCollected_def log_def emit_def)
  show ?thesis
    using assms k2
    unfolding handleStartQueue_def accepted_def [symmetric] Let_def
    by (simp add: split_beta ran_finishQueue ran_runQueue ran_keeps_running keeps_running_prims
                  upd keeps_running_runResumeBuilderQueue
             split: sum.splits list.splits option.splits)
qed

lemma handleStartQueue_keeps_running:
  assumes "\<not> isRunning w"
  shows "\<exists>gs. observed (snd (handleStartQueue E opts w)) = observed w @ gs
              \<and> gs \<noteq> [] \<and> list_all seen_isRunning gs"
  using handleStartQueue_ran [OF assms, of E opts]
  by (auto simp: ran_def accepted_def)

section \<open>The processing of an item does not read the stop flag\<close>

text \<open>
  \<open>same_but_stop w w'\<close>: the two states agree on every field but the stop flag and the
  trace, and on what the trace shows of the activity and of the status channel; they may
  differ in the stop flag and in the log. Run from two such states, under two environments
  that differ only in the stop messages they dispatch, every function of the per-item flow
  returns the same result and leads to two such states again.
\<close>

definition same_but_stop :: "world \<Rightarrow> world \<Rightarrow> bool" where
  "same_but_stop w w' \<longleftrightarrow>
     queue w' = queue w \<and> isRunning w' = isRunning w \<and> dashboardTabId w' = dashboardTabId w
     \<and> processedCount w' = processedCount w \<and> failedCount w' = failedCount w
     \<and> isProcessing w' = isProcessing w \<and> scrapedJobs w' = scrapedJobs w
     \<and> processed_ids w' = processed_ids w \<and> stats w' = stats w
     \<and> queue_active w' = queue_active w \<and> openTabs w' = openTabs w
     \<and> awaits w' = awaits w \<and> fetches w' = fetches w \<and> observed w' = observed w
     \<and> activity w' = activity w \<and> status_log w' = status_log w"

lemma same_but_stop_refl: "same_but_stop w w"
  by (simp add: same_but_stop_def)

lemma sim_prims:
  "same_but_stop w w' \<Longrightarrow> same_but_stop (emit ev w) (emit ev w')"
  "same_but_stop w w' \<Longrightarrow> same_but_stop (log l m w) (log l m w')"
  "same_but_stop w w' \<Longrightarrow> same_but_stop (broadcastStatus m sl w) (broadcastStatus m sl w')"
  "same_but_stop w w' \<Longrightarrow> same_but_stop (suspend E w) (suspend (E\<lparr>stop_at := s\<rparr>) w')"
  "same_but_stop w w' \<Longrightarrow> same_but_stop (sleep E ms w) (sleep (E\<lparr>stop_at := s\<rparr>) ms w')"
  "same_but_stop w w' \<Longrightarrow> same_but_stop (call E ev w) (call (E\<lparr>stop_at := s\<rparr>) ev w')"
  by (simp_all add: same_but_stop_def)

lemma sim_updates:
  "same_but_stop w w' \<Longrightarrow> same_but_stop (w\<lparr>fetches := n\<rparr>) (w'\<lparr>fetches := n\<rparr>)"
  "same_but_stop w w' \<Longrightarrow> same_but_stop (w\<lparr>openTabs := ts\<rparr>) (w'\<lparr>openTabs := ts\<rparr>)"
  "same_but_stop w w' \<Longrightarrow> same_but_stop (w\<lparr>scrapedJobs := js\<rparr>) (w'\<lparr>scrapedJobs := js\<rparr>)"
  "same_but_stop w w' \<Longrightarrow> same_but_stop (w\<lparr>processed_ids := ids\<rparr>) (w'\<lparr>processed_ids := ids\<rparr>)"
  "same_but_stop w w' \<Longrightarrow> same_but_stop (w\<lparr>stats := st\<rparr>) (w'\<lparr>stats := st\<rparr>)"
  "same_but_stop w w' \<Longrightarrow> same_but_stop (w\<lparr>isProcessing := b\<rparr>) (w'\<lparr>isProcessing := b\<rparr>)"
  "same_but_stop w w' \<Longrightarrow> same_but_stop (w\<lparr>processedCount := k\<rparr>) (w'\<lparr>processedCount := k\<rparr>)"
  "same_but_stop w w' \<Longrightarrow> same_but_stop (w\<lparr>failedCount := k\<rparr>) (w'\<lparr>failedCount := k\<rparr>)"
  by (simp_all add: same_but_stop_def)

lemma sim_fields:
  assumes "same_but_stop w w'"
  shows "queue w' = queue w" "isProcessing w' = isProcessing w" "scrapedJobs w' = scrapedJobs w"
    "processed_ids w' = processed_ids w" "stats w' = stats w" "fetches w' = fetches w"
    "openTabs w' = openTabs w" "processedCount w' = processedCount w"
    "failedCount w' = failedCount w"
  using assms by (simp_all add: same_but_stop_def)

lemma sim_postJob:
  assumes "same_but_stop w w'"
  shows "fst (postJob (E\<lparr>stop_at := s\<rparr>) p w') = fst (postJob E p w)"
    and "same_but_stop (snd (postJob E p w)) (snd (postJob (E\<lparr>stop_at := s\<rparr>) p w'))"
  using assms
  by (simp_all add: postJob_def Let_def sim_fields sim_prims sim_updates split: sum.splits)


lemma sim_retry_loop:
  assumes fn: "\<And>w w'. same_but_stop w w' \<Longrightarrow>
                 fst (fn' w') = fst (fn w) \<and> same_but_stop (snd (fn w)) (snd (fn' w'))"
  shows "same_but_stop w w' \<Longrightarrow>
         fst (retry_loop fn' (E\<lparr>stop_at := s\<rparr>) m b a le w') = fst (retry_loop fn E m b a le w)
         \<and> same_but_stop (snd (retry_loop fn E m b a le w))
                         (snd (retry_loop fn' (E\<lparr>stop_at := s\<rparr>) m b a le w'))"
proof (induction "m + 1 - a" arbitrary: a le w w')
  case 0
  then have "\<not> a \<le> m" by simp
  then show ?case using "0.prems" by (simp add: retry_loop_exit)
next
  case (Suc n)
  then have le: "a \<le> m" by simp
  obtain r1 w1 where f: "fn w = (r1, w1)" by (cases "fn w")
  obtain r1' w1' where f': "fn' w' = (r1', w1')" by (cases "fn' w'")
  have r: "r1' = r1" and s1: "same_but_stop w1 w1'"
    using fn [OF Suc.prems] f f' by simp_all
  show ?case
  proof (cases r1)
    case (Inr v)
    then show ?thesis
      using le f f' r s1 by (simp add: retry_loop_success)
  next
    case (Inl err)
    have n: "n = m + 1 - (a + 1)" using Suc.hyps(2) by simp
    let ?msg = "retry_warn a m (b * 2 ^ (a - 1))"
    let ?v = "if a < m then sleep E (b * 2 ^ (a - 1)) (log WARN ?msg w1) else log WARN ?msg w1"
    let ?v' = "if a < m then sleep (E\<lparr>stop_at := s\<rparr>) (b * 2 ^ (a - 1)) (log WARN ?msg w1')
               else log WARN ?msg w1'"
    have sv: "same_but_stop ?v ?v'"
      using s1 by (simp add: sim_prims)
    have e1: "retry_loop fn E m b a le w = retry_loop fn E m b (a + 1) err ?v"
      using retry_loop_failure [OF le, of fn w err w1 E b le] f Inl by simp
    have e2: "retry_loop fn' (E\<lparr>stop_at := s\<rparr>) m b a le w'
              = retry_loop fn' (E\<lparr>stop_at := s\<rparr>) m b (a + 1) err ?v'"
      using retry_loop_failure [OF le, of fn' w' err w1' "E\<lparr>stop_at := s\<rparr>" b le] f' r Inl by simp
    show ?thesis
      unfolding e1 e2 by (rule Suc.hyps(1) [OF n sv])
  qed
qed

lemma sim_sendJobToAPI:
  assumes "same_but_stop w w'"
  shows "fst (sendJobToAPI (E\<lparr>stop_at := s\<rparr>) p w') = fst (sendJobToAPI E p w)"
    and "same_but_stop (snd (sendJobToAPI E p w)) (snd (sendJobToAPI (E\<lparr>stop_at := s\<rparr>) p w'))"
proof -
  have w0: "same_but_stop (log INFO ''Sending job to API'' w) (log INFO ''Sending job to API'' w')"
    using assms by (simp add: sim_prims)
  note r = sim_retry_loop [where fn = "postJob E p" and fn' = "postJob (E\<lparr>stop_at := s\<rparr>) p"
                               and E = E and s = s and m = MAX_RETRIES and b = RETRY_BASE_DELAY_MS
                               and a = 1 and le = Undefined, OF _ w0]
  have r': "fst (retry (postJob (E\<lparr>stop_at := s\<rparr>) p) (E\<lparr>stop_at := s\<rparr>) MAX_RETRIES
                  RETRY_BASE_DELAY_MS (log INFO ''Sending job to API'' w'))
            = fst (retry (postJob E p) E MAX_RETRIES RETRY_BASE_DELAY_MS (log INFO ''Sending job to API'' w))"
    "same_but_stop
       (snd (retry (postJob E p) E MAX_RETRIES RETRY_BASE_DELAY_MS (log INFO ''Sending job to API'' w)))
       (snd (retry (postJob (E\<lparr>stop_at := s\<rparr>) p) (E\<lparr>stop_at := s\<rparr>) MAX_RETRIES
               RETRY_BASE_DELAY_MS (log INFO ''Sending job to API'' w')))"
    using r by (simp_all add: retry_def sim_postJob)
  show "fst (sendJobToAPI (E\<lparr>stop_at := s\<rparr>) p w') = fst (sendJobToAPI E p w)"
    by (simp add: sendJobToAPI_def split_beta r' split: sum.splits thrown.splits)
  show "same_but_stop (snd (sendJobToAPI E p w)) (snd (sendJobToAPI (E\<lparr>stop_at := s\<rparr>) p w'))"
    by (simp add: sendJobToAPI_def split_beta r' sim_prims split: sum.splits thrown.splits)
qed

lemma sim_submitToAPI:
  assumes "same_but_stop w w'"
  shows "same_but_stop (submitToAPI E p w) (submitToAPI (E\<lparr>stop_at := s\<rparr>) p w')"
  using sim_sendJobToAPI [OF assms, where E = E and s = s and p = p]
  by (simp add: submitToAPI_def split_beta sim_prims split: sum.splits)

lemma sim_markAsProcessed:
  assumes "same_but_stop w w'"
  shows "same_but_stop (markAsProcessed E jid w) (markAsProcessed (E\<lparr>stop_at := s\<rparr>) jid w')"
  unfolding markAsProcessed_def Let_def
  by (simp only: prim_frame sim_fields [OF assms]) (intro sim_prims sim_updates assms)

lemma sim_updateStats:
  assumes "same_but_stop w w'"
  shows "same_but_stop (updateStats E type w) (updateStats (E\<lparr>stop_at := s\<rparr>) type w')"
  unfolding updateStats_def Let_def
  by (simp only: prim_frame sim_fields [OF assms]) (intro sim_prims sim_updates assms)

lemma sim_calls:
  assumes "same_but_stop w w'"
  shows "fst (simulateClick (E\<lparr>stop_at := s\<rparr>) i w') = fst (simulateClick E i w)"
    "same_but_stop (snd (simulateClick E i w)) (snd (simulateClick (E\<lparr>stop_at := s\<rparr>) i w'))"
    "fst (getPopupData (E\<lparr>stop_at := s\<rparr>) i w') = fst (getPopupData E i w)"
    "same_but_stop (snd (getPopupData E i w)) (snd (getPopupData (E\<lparr>stop_at := s\<rparr>) i w'))"
    "fst (tabs_create_call (E\<lparr>stop_at := s\<rparr>) i url w') = fst (tabs_create_call E i url w)"
    "same_but_stop (snd (tabs_create_call E i url w))
                   (snd (tabs_create_call (E\<lparr>stop_at := s\<rparr>) i url w'))"
    "fst (waitForTabComplete (E\<lparr>stop_at := s\<rparr>) i tab w') = fst (waitForTabComplete E i tab w)"
    "same_but_stop (snd (waitForTabComplete E i tab w))
                   (snd (waitForTabComplete (E\<lparr>stop_at := s\<rparr>) i tab w'))"
    "fst (scrapeExternalJobPage (E\<lparr>stop_at := s\<rparr>) i w') = fst (scrapeExternalJobPage E i w)"
    "same_but_stop (snd (scrapeExternalJobPage E i w))
                   (snd (scrapeExternalJobPage (E\<lparr>stop_at := s\<rparr>) i w'))"
    "fst (tabs_remove_call (E\<lparr>stop_at := s\<rparr>) i tab w') = fst (tabs_remove_call E i tab w)"
    "same_but_stop (snd (tabs_remove_call E i tab w))
                   (snd (tabs_remove_call (E\<lparr>stop_at := s\<rparr>) i tab w'))"
    "fst (getEmailData (E\<lparr>stop_at := s\<rparr>) i w') = fst (getEmailData E i w)"
    "same_but_stop (snd (getEmailData E i w)) (snd (getEmailData (E\<lparr>stop_at := s\<rparr>) i w'))"
  using assms
  by (simp_all add: simulateClick_def getPopupData_def tabs_create_call_def waitForTabComplete_def
                    scrapeExternalJobPage_def tabs_remove_call_def getEmailData_def Let_def
                    sim_prims sim_updates sim_fields [OF assms]
               split: sum.splits option.splits)

lemma sim_openExternalTab:
  assumes "same_but_stop w w'"
  shows "fst (openExternalTab (E\<lparr>stop_at := s\<rparr>) i url w') = fst (openExternalTab E i url w)"
    and "same_but_stop (snd (openExternalTab E i url w))
                       (snd (openExternalTab (E\<lparr>stop_at := s\<rparr>) i url w'))"
proof -
  note c = sim_calls(5,6) [OF assms, where E = E and s = s and i = i and url = url]
  note l = sim_calls(7,8) [OF c(2), where E = E and s = s and i = i]
  show "fst (openExternalTab (E\<lparr>stop_at := s\<rparr>) i url w') = fst (openExternalTab E i url w)"
    by (simp add: openExternalTab_def split_beta c l split: sum.splits)
  show "same_but_stop (snd (openExternalTab E i url w))
                      (snd (openExternalTab (E\<lparr>stop_at := s\<rparr>) i url w'))"
    by (simp add: openExternalTab_def split_beta c l split: sum.splits)
qed

lemma sim_closeTab:
  assumes "same_but_stop w w'"
  shows "same_but_stop (closeTab E i jobNum tab w) (closeTab (E\<lparr>stop_at := s\<rparr>) i jobNum tab w')"
  using sim_calls(11,12) [OF assms, where E = E and s = s and i = i and tab = tab]
  by (simp add: closeTab_def split_beta sim_prims split: sum.splits)

lemma sim_extractExternal:
  assumes "same_but_stop w w'"
  shows "fst (extractExternal (E\<lparr>stop_at := s\<rparr>) i jobNum tab w') = fst (extractExternal E i jobNum tab w)"
    and "same_but_stop (snd (extractExternal E i jobNum tab w))
                       (snd (extractExternal (E\<lparr>stop_at := s\<rparr>) i jobNum tab w'))"
proof -
  have sl: "same_but_stop (sleep E 1000 w) (sleep (E\<lparr>stop_at := s\<rparr>) 1000 w')"
    using assms by (simp add: sim_prims)
  note c = sim_calls(9,10) [OF sl, where E = E and s = s and i = i]
  show "fst (extractExternal (E\<lparr>stop_at := s\<rparr>) i jobNum tab w') = fst (extractExternal E i jobNum tab w)"
    by (simp add: extractExternal_def Let_def split_beta c split: sum.splits option.splits)
  show "same_but_stop (snd (extractExternal E i jobNum tab w))
                      (snd (extractExternal (E\<lparr>stop_at := s\<rparr>) i jobNum tab w'))"
    by (simp add: extractExternal_def Let_def split_beta c sim_closeTab sim_prims
             split: sum.splits option.splits)
qed

lemma sim_extractEmail:
  assumes "same_but_stop w w'"
  shows "fst (extractEmail (E\<lparr>stop_at := s\<rparr>) i jobNum w') = fst (extractEmail E i jobNum w)"
    and "same_but_stop (snd (extractEmail E i jobNum w))
                       (snd (extractEmail (E\<lparr>stop_at := s\<rparr>) i jobNum w'))"
proof -
  let ?m = "jobNum @ '' Extracting email template...''"
  have b: "same_but_stop (broadcastStatus ?m StInfo w) (broadcastStatus ?m StInfo w')"
    using assms by (simp add: sim_prims)
  note c = sim_calls(13,14) [OF b, where E = E and s = s and i = i]
  show "fst (extractEmail (E\<lparr>stop_at := s\<rparr>) i jobNum w') = fst (extractEmail E i jobNum w)"
    by (simp add: extractEmail_def split_beta c split: sum.splits)
  show "same_but_stop (snd (extractEmail E i jobNum w))
                      (snd (extractEmail (E\<lparr>stop_at := s\<rparr>) i jobNum w'))"
    by (simp add: extractEmail_def split_beta c sim_prims split: sum.splits)
qed

lemma sim_saveToLocalStorage:
  assumes "same_but_stop w w'"
  shows "same_but_stop (saveToLocalStorage E i jobNum jid p w)
                       (saveToLocalStorage (E\<lparr>stop_at := s\<rparr>) i jobNum jid p w')"
  using assms
  by (simp add: saveToLocalStorage_def Let_def sim_fields [OF assms] sim_prims sim_updates
           split: option.splits)

lemma sim_mergeAndSend:
  assumes "same_but_stop w w'"
  shows "same_but_stop (mergeAndSend E rawJob jid i jobNum pd url src tab w)
                       (mergeAndSend (E\<lparr>stop_at := s\<rparr>) rawJob jid i jobNum pd url src tab w')"
proof -
  note x = sim_extractExternal [OF assms, where E = E and s = s and i = i and jobNum = jobNum and tab = tab]
  note m = sim_extractEmail [OF x(2), where E = E and s = s and i = i and jobNum = jobNum]
  show ?thesis
    by (simp add: mergeAndSend_def Let_def split_beta x m sim_submitToAPI sim_saveToLocalStorage
                  scraped_data_def email_data_def)
qed

lemma sim_processJobFlow:
  assumes "same_but_stop w w'"
  shows "fst (processJobFlow (E\<lparr>stop_at := s\<rparr>) rawJob jid i jobNum w')
         = fst (processJobFlow E rawJob jid i jobNum w)"
    and "same_but_stop (snd (processJobFlow E rawJob jid i jobNum w))
                       (snd (processJobFlow (E\<lparr>stop_at := s\<rparr>) rawJob jid i jobNum w'))"
proof -
  let ?m = "jobNum @ '' Simulating interaction...''"
  have b: "same_but_stop (broadcastStatus ?m StInfo w) (broadcastStatus ?m StInfo w')"
    using assms by (simp add: sim_prims)
  note c = sim_calls(1,2) [OF b, where E = E and s = s and i = i]
  note g = sim_calls(3,4) [OF c(2), where E = E and s = s and i = i]
  have l: "same_but_stop (log INFO m (snd (getPopupData E i (snd (simulateClick E i (broadcastStatus ?m StInfo w))))))
             (log INFO m (snd (getPopupData (E\<lparr>stop_at := s\<rparr>) i
                                 (snd (simulateClick (E\<lparr>stop_at := s\<rparr>) i (broadcastStatus ?m StInfo w'))))))"
    for m
    using g(2) by (simp add: sim_prims)
  have o: "same_but_stop (broadcastStatus m2 StInfo (log INFO m (snd (getPopupData E i (snd (simulateClick E i (broadcastStatus ?m StInfo w)))))))
             (broadcastStatus m2 StInfo (log INFO m (snd (getPopupData (E\<lparr>stop_at := s\<rparr>) i
                                 (snd (simulateClick (E\<lparr>stop_at := s\<rparr>) i (broadcastStatus ?m StInfo w')))))))"
    for m m2
    using l by (simp add: sim_prims)
  note t = sim_openExternalTab [OF o, where E = E and s = s and i = i]
  show "fst (processJobFlow (E\<lparr>stop_at := s\<rparr>) rawJob jid i jobNum w')
        = fst (processJobFlow E rawJob jid i jobNum w)"
    by (simp add: processJobFlow_def Let_def split_beta c g t split: sum.splits)
  show "same_but_stop (snd (processJobFlow E rawJob jid i jobNum w))
                      (snd (processJobFlow (E\<lparr>stop_at := s\<rparr>) rawJob jid i jobNum w'))"
    by (simp add: processJobFlow_def Let_def split_beta c g l t sim_mergeAndSend split: sum.splits)
qed

lemma sim_processSingleJob:
  assumes "same_but_stop w w'"
  shows "fst (processSingleJob (E\<lparr>stop_at := s\<rparr>) rawJob jid i jobNum w')
         = fst (processSingleJob E rawJob jid i jobNum w)"
    and "same_but_stop (snd (processSingleJob E rawJob jid i jobNum w))
                       (snd (processSingleJob (E\<lparr>stop_at := s\<rparr>) rawJob jid i jobNum w'))"
proof -
  have b: "same_but_stop (w\<lparr>isProcessing := True\<rparr>) (w'\<lparr>isProcessing := True\<rparr>)"
    using assms by (simp add: sim_updates)
  note f = sim_processJobFlow [OF b, where E = E and s = s and rawJob = rawJob and jid = jid
                                     and i = i and jobNum = jobNum]
  show "fst (processSingleJob (E\<lparr>stop_at := s\<rparr>) rawJob jid i jobNum w')
        = fst (processSingleJob E rawJob jid i jobNum w)"
    by (simp add: processSingleJob_def split_beta f sim_fields [OF assms] split: sum.splits)
  show "same_but_stop (snd (processSingleJob E rawJob jid i jobNum w))
                      (snd (processSingleJob (E\<lparr>stop_at := s\<rparr>) rawJob jid i jobNum w'))"
    using assms
    by (simp add: processSingleJob_def split_beta f sim_fields [OF assms] sim_updates
                  sim_updateStats sim_markAsProcessed
             split: sum.splits)
qed

lemma sim_runQueue_item:
  assumes "same_but_stop w w'"
  shows "same_but_stop (runQueue_item E i w) (runQueue_item (E\<lparr>stop_at := s\<rparr>) i w')"
proof -
  have b: "same_but_stop (broadcastStatus m StInfo w) (broadcastStatus m StInfo w')" for m
    using assms by (simp add: sim_prims)
  note p = sim_processSingleJob [OF b, where E = E and s = s]
  note pf = sim_fields(8,9) [OF p(2)]
  show ?thesis
    unfolding runQueue_item_def Let_def split_beta
    by (simp add: sim_fields [OF assms] p pf sim_prims sim_updates sim_updateStats
             split: sum.splits)
qed

text \<open>
  \<open>unstopped E\<close> is the environment \<open>E\<close> in which no stop message is ever dispatched.
\<close>

definition unstopped :: "env \<Rightarrow> env" where
  "unstopped E = E\<lparr>stop_at := (\<lambda>t. False)\<rparr>"

lemma runQueue_item_unstopped:
  "same_but_stop (runQueue_item (unstopped E) k w) (runQueue_item E k w)"
  using sim_runQueue_item [OF same_but_stop_refl, of "unstopped E" k w "stop_at E"]
  by (simp add: unstopped_def)

lemma runQueue_item_success_awaits:
  assumes "reaches_extraction E i pd tab" "\<not> isProcessing w"
  shows "awaits w + 4 \<le> awaits (runQueue_item E i w)"
proof -
  have m: "awaits v \<le> awaits (mergeAndSend E rawJob jid i jobNum pd url src tab v)"
    for v rawJob jid jobNum url src
    using evolves_mergeAndSend [OF evolves_refl, of E v rawJob jid i jobNum pd url src tab]
    by (simp add: evolves_def)
  have t: "awaits (tab_opened E jobNum pd tab v) = awaits v + 4" for jobNum v
    by (simp add: tab_opened_def tab_created_def popup_done_def Let_def)
  have k: "awaits (markAsProcessed E jid v) = awaits v + 1" for jid v
    by (simp add: markAsProcessed_def Let_def)
  show ?thesis
    using assms(2)
    apply (simp add: runQueue_item_def processSingleJob_def processJobFlow_extracts [OF assms(1)]
                     Let_def k)
    apply (rule order_trans [OF _ m])
    apply (simp add: t)
    done
qed

section \<open>A reload that rejects in phase 2\<close>

text \<open>
  In the loop of \<^verbatim>\<open>runResumeBuilderQueue\<close> the reload of the dashboard tab and the
  wait for it are awaited outside every \<^verbatim>\<open>try\<close>. With two pending records or more,
  a reload that rejects after the first record makes \<^verbatim>\<open>runResumeBuilderQueue\<close>, and
  with it \<^verbatim>\<open>runQueue\<close> and \<^verbatim>\<open>handleStartQueue\<close>, reject: \<^verbatim>\<open>finishQueue\<close> is
  not reached.
\<close>

lemma sendJobToAPI_never_stopped [simp]:
  "never_stopped E \<Longrightarrow> stopRequested (snd (sendJobToAPI E p w)) = stopRequested w"
  using evolves_sendJobToAPI [OF evolves_refl, of E w p]
  by (auto simp: evolves_def never_stopped_def)

lemma resume_loop_reload_rejected:
  assumes "1 < length pendingJobs" "never_stopped E" "\<not> stopRequested w" "reload E 0 = Some msg"
  shows "fst (resume_loop E pendingJobs 0 w) = Inl msg"
proof -
  have ns: "\<not> stop_at E t" for t
    using assms(2) by (simp add: never_stopped_def)
  have ne: "pendingJobs \<noteq> []" "0 < length pendingJobs"
    using assms(1) by auto
  show ?thesis
    using assms ne
    by (subst resume_loop.simps)
       (simp add: Let_def split_beta ns split: sum.splits)
qed

lemma runResumeBuilderQueue_reload_rejected:
  assumes "fetch_jobs E = Inr (response, jobs)" "resp_ok response"
    and "1 < length (filter (\<lambda>job. \<not> jdResumeBuilt job) jobs)"
    and "navigate_update E = None" "navigate_wait E = None"
    and "never_stopped E" "\<not> stopRequested w" "reload E 0 = Some msg"
  shows "fst (runResumeBuilderQueue E w) = Inl msg"
proof -
  let ?p = "filter (\<lambda>job. \<not> jdResumeBuilt job) jobs"
  have ne: "?p \<noteq> []" using assms(3) by auto
  have r: "fst (resume_loop E ?p 0 v) = Inl msg" if "stopRequested v = stopRequested w" for v
    using that assms(7) by (simp add: resume_loop_reload_rejected [OF assms(3,6) _ assms(8)])
  let ?w1 = "suspend E (call E (Fetch ''GET'' []) (log INFO ''Starting Resume Builder Queue...'' w))"
  let ?w3 = "call E (TabsUpdate (dashboardTabId ?w1) ''https://landbetterjobs.com/jd-resume-builder'')
               (broadcastStatus (''Phase 2: Building resumes for '' @ dec_str (length ?p) @ '' job(s)...'')
                  StInfo ?w1)"
  let ?v = "sleep E 2000 (call E (WaitForTabComplete (dashboardTabId ?w3)) ?w3)"
  have v: "stopRequested ?v = stopRequested w"
    using assms(6) by (simp add: never_stopped_def)
  have "runResumeBuilderQueue E w
        = (case resume_loop E ?p 0 ?v of
             (Inl msg, w5) \<Rightarrow> (Inl msg, w5)
           | (Inr _, w5) \<Rightarrow>
               (Inr (), broadcastStatus ''Phase 2 (Resume Builder) complete.'' StComplete w5))"
    using assms(1,2,4,5) ne by (simp add: runResumeBuilderQueue_def Let_def)
  then show ?thesis
    using r [OF v] by (simp add: split_beta)
qed

lemma runQueue_finish_rejected:
  assumes "\<not> stopRequested w" "never_stopped E"
    and "\<And>v. \<not> stopRequested v \<Longrightarrow> fst (runResumeBuilderQueue E v) = Inl msg"
  shows "fst (runQueue_finish E w) = Inl msg"
    and "queue (snd (runQueue_finish E w)) = queue w"
    and "isRunning (snd (runQueue_finish E w)) = isRunning w"
proof -
  have s: "\<not> stopRequested (sleep E 2000 (broadcastStatus m1 StInfo (broadcastStatus m2 StSuccess w)))"
    for m1 m2
    using assms(1,2) by (simp add: never_stopped_def)
  note r = assms(3) [OF s]
  show "fst (runQueue_finish E w) = Inl msg"
    using assms(1) by (simp add: runQueue_finish_def Let_def split_beta r)
  show "queue (snd (runQueue_finish E w)) = queue w"
    using assms(1) by (simp add: runQueue_finish_def Let_def split_beta r)
  show "isRunning (snd (runQueue_finish E w)) = isRunning w"
    using assms(1) by (simp add: runQueue_finish_def Let_def split_beta r)
qed

lemma two_items_reload_rejected:
  assumes start: "\<not> isRunning w" "\<not> isProcessing w"
    and tabs: "tabs_query E = Inr (tab # tabs)"
    and jobs: "collect_jobs E = Inr (Some [job0, job1])"
    and ns: "never_stopped E"
    and ok0: "reaches_extraction E 0 pd0 tab0" "storage_ok E 0"
    and bad1: "click E 1 = None" "popup E 1 = Inr pd1" "pd_viewFullPostUrl pd1 = []"
    and phase2: "fetch_jobs E = Inr (response, pending)" "resp_ok response"
      "1 < length (filter (\<lambda>job. \<not> jdResumeBuilt job) pending)"
      "navigate_update E = None" "navigate_wait E = None" "reload E 0 = Some msg"
  shows "fst (handleStartQueue E opts w) = Inl msg"
    and "queue (snd (handleStartQueue E opts w)) = [job0, job1]"
    and "isRunning (snd (handleStartQueue E opts w))"
proof -
  define wq where "wq = queue_started E opts tab [job0, job1] w"
  have wq: "handleStartQueue E opts w = runQueue E wq"
    "queue wq = [job0, job1]" "isProcessing wq = isProcessing w" "\<not> stopRequested wq"
    "isRunning wq"
    using handleStartQueue_runs [OF start(1) tabs jobs, of opts] queue_started_sel(6) [OF ns]
    by (simp_all add: wq_def queue_started_sel) (simp add: queue_started_def Let_def)
  have q: "length (queue wq) = 2" by (simp add: wq(2))
  have idle: "\<not> isProcessing wq" using start(2) wq(3) by simp
  note p1 = two_items_phase1 [OF q idle wq(4) ns ok0 bad1]
  have run: "handleStartQueue E opts w = runQueue_finish E (runQueue_loop E 0 wq)"
    by (simp add: wq(1) runQueue_def)
  have adv: "isRunning (runQueue_loop E 0 wq)"
    using keeps_running_runQueue_loop [of wq wq E 0] wq(5) by (simp add: keeps_running_def)
  note fin = runQueue_finish_rejected [OF p1(4) ns
               runResumeBuilderQueue_reload_rejected [OF phase2(1-5) ns _ phase2(6)]]
  show "fst (handleStartQueue E opts w) = Inl msg"
    by (simp add: run fin(1))
  show "queue (snd (handleStartQueue E opts w)) = [job0, job1]"
    by (simp add: run fin(2) p1(5) wq(2))
  show "isRunning (snd (handleStartQueue E opts w))"
    by (simp add: run fin(3) adv)
qed

section \<open>Concrete environments and states\<close>

text \<open>
  A dashboard with two rows. In \<open>env_ok\<close> every collaborator answers; the detail panel of
  row 1 has no target URL. The other environments change one answer each; in
  \<open>env_reload_rejected\<close> the backend lists two pending records for phase 2 and the reload
  of the dashboard tab rejects.
\<close>

definition job_backend :: rawJob where
  "job_backend = \<lparr>raw_title = ''Backend Engineer'', raw_company = ''Acme Inc''\<rparr>"

definition job_analyst :: rawJob where
  "job_analyst = \<lparr>raw_title = ''Data Analyst'', raw_company = ''Globex''\<rparr>"

definition popup_backend :: popupData where
  "popup_backend =
     \<lparr>pd_title = ''Backend Engineer'', pd_company = ''Acme Inc'', pd_hiringManager = ''Ann Lee'',
      pd_shortDescription = ''Build services'',
      pd_viewFullPostUrl = ''https://www.linkedin.com/jobs/view/1''\<rparr>"

definition popup_no_url :: popupData where
  "popup_no_url =
     \<lparr>pd_title = ''Data Analyst'', pd_company = ''Globex'', pd_hiringManager = [],
      pd_shortDescription = ''Reports'', pd_viewFullPostUrl = []\<rparr>"

definition env_ok :: env where
  "env_ok =
     \<lparr>stop_at = (\<lambda>t. False),
      hostname_of = (\<lambda>u. if u = [] then None else Some ''www.linkedin.com''),
      tabs_query = Inr [7],
      collect_jobs = Inr (Some [job_backend, job_analyst]),
      click = (\<lambda>i. None),
      popup = (\<lambda>i. if i = 0 then Inr popup_backend else Inr popup_no_url),
      tab_create = (\<lambda>i. Inr (100 + i)),
      tab_load = (\<lambda>i. None),
      scrape = (\<lambda>i. Inr (Some \<lparr>ed_fullDescription = ''We build services.'',
                                ed_applyEmail = ''jobs@acme.example'', ed_location = ''Berlin'',
                                ed_experience = ''3 years''\<rparr>)),
      tab_remove = (\<lambda>i. None),
      email = (\<lambda>i. Inr \<lparr>em_emailSubject = ''Application'', em_emailBody = ''Hello''\<rparr>),
      storage_get_fail = (\<lambda>i. None),
      storage_set_fail = (\<lambda>i. None),
      fetch_post = (\<lambda>n. Inr \<lparr>resp_ok = True, resp_status = 200, resp_text = [], resp_json = ''{}''\<rparr>),
      fetch_jobs = Inl ''Failed to fetch'',
      navigate_update = None,
      navigate_wait = None,
      build_resume = (\<lambda>i. Inr True),
      reload = (\<lambda>i. None),
      reload_wait = (\<lambda>i. None)\<rparr>"

definition env_stop :: env where
  "env_stop = env_ok\<lparr>stop_at := (\<lambda>t. t = 1)\<rparr>"

definition env_api_down :: env where
  "env_api_down =
     env_ok\<lparr>fetch_post := (\<lambda>n. Inr \<lparr>resp_ok = False, resp_status = 500, resp_text = ''down'',
                                     resp_json = []\<rparr>)\<rparr>"

definition env_scrape_fail :: env where
  "env_scrape_fail = env_ok\<lparr>scrape := (\<lambda>i. Inl ''Cannot access contents of the page'')\<rparr>"

definition env_load_timeout :: env where
  "env_load_timeout =
     env_ok\<lparr>tab_load := (\<lambda>i. if i = 0 then Some ''Timeout waiting for tab 100 to complete'' else None)\<rparr>"

definition pending_jobs :: "jobPayload list" where
  "pending_jobs =
     [item_payload env_ok 0 job_backend popup_backend,
      (item_payload env_ok 0 job_backend popup_backend)\<lparr>jobId := ''job_77'', title := ''Data Engineer''\<rparr>]"

definition env_reload_rejected :: env where
  "env_reload_rejected =
     env_ok\<lparr>fetch_jobs := Inr (\<lparr>resp_ok = True, resp_status = 200, resp_text = [], resp_json = []\<rparr>,
                              pending_jobs),
            reload := (\<lambda>i. Some ''No tab with id: 7'')\<rparr>"

definition w_idle :: world where
  "w_idle =
     \<lparr>queue = [], isRunning = False, stopRequested = False, dashboardTabId = None,
      processedCount = 0, failedCount = 0, isProcessing = False,
      scrapedJobs = None, processed_ids = None, stats = None, queue_active = None,
      openTabs = [], trace = [], awaits = 0, fetches = 0, observed = []\<rparr>"

definition w_two :: world where
  "w_two = w_idle\<lparr>queue := [job_backend, job_analyst], isRunning := True, dashboardTabId := Some 7\<rparr>"

definition w_busy :: world where
  "w_busy = w_two\<lparr>isProcessing := True\<rparr>"

lemmas scenario_defs =
  job_backend_def job_analyst_def popup_backend_def popup_no_url_def env_ok_def env_stop_def
  env_api_down_def env_scrape_fail_def env_load_timeout_def w_idle_def w_two_def w_busy_def

definition payload_backend :: jobPayload where
  "payload_backend = item_payload env_api_down 0 job_backend popup_backend"

lemma api_down_outcome: "post_outcome env_api_down n = Inl (Error ''API error 500: down'')"
  by (simp add: post_outcome_def env_api_down_def env_ok_def dec_str.simps)

section \<open>Properties of the fingerprint\<close>

lemma isWhiteSpace_toLowerChar: "isWhiteSpace (toLowerChar c) = isWhiteSpace c"
  by (auto simp: isWhiteSpace_def toLowerChar_def Let_def)

lemma toLowerChar_idem: "toLowerChar (toLowerChar c) = toLowerChar c"
  by (auto simp: toLowerChar_def Let_def)

lemma toLowerCase_idem: "toLowerCase (toLowerCase s) = toLowerCase s"
  by (simp add: toLowerCase_def toLowerChar_idem)

lemma dropWhile_ws_toLowerCase:
  "dropWhile isWhiteSpace (toLowerCase s) = toLowerCase (dropWhile isWhiteSpace s)"
  by (induction s) (simp_all add: toLowerCase_def isWhiteSpace_toLowerChar)

lemma trim_toLowerCase: "trim (toLowerCase s) = toLowerCase (trim s)"
proof -
  have "rev (toLowerCase s) = toLowerCase (rev s)" for s
    by (simp add: toLowerCase_def rev_map)
  then show ?thesis
    by (simp add: trim_def dropWhile_ws_toLowerCase)
qed

lemma dropWhile_rev_trimmed:
  "dropWhile P (rev (dropWhile P (rev (dropWhile P s)))) = rev (dropWhile P (rev (dropWhile P s)))"
proof (cases "dropWhile P s")
  case Nil
  show ?thesis by (simp only: Nil rev.simps dropWhile.simps)
next
  case (Cons x u)
  then have nx: "\<not> P x"
    by (metis hd_dropWhile list.sel(1) list.distinct(1))
  have "dropWhile P (rev u @ [x]) = dropWhile P (rev u) @ [x]"
    using nx by (simp add: dropWhile_append3)
  then show ?thesis
    using Cons nx by simp
qed

lemma trim_idem: "trim (trim s) = trim s"
  by (simp add: trim_def dropWhile_rev_trimmed)

lemma normalize_trim: "toLowerCase (trim (trim s)) = toLowerCase (trim s)"
  by (simp add: trim_idem)

lemma normalize_toLowerCase: "toLowerCase (trim (toLowerCase s)) = toLowerCase (trim s)"
  by (simp add: trim_toLowerCase toLowerCase_idem)

lemmas js_string_eval =
  trim_def toLowerCase_def toLowerChar_def isWhiteSpace_def char_of_def bit_iff_odd dec_str.simps

text \<open>
  Claim C1. The fingerprint depends on its inputs only through their trimmed, lower-cased
  form: trimming or lower-casing the title or the company leaves the id as it is, and
  the ids of ("Backend Engineer", "Acme Inc") and (" backend engineer ", "ACME INC")
  are the same string.
\<close>

theorem generateJobId_normalized:
  "generateJobId (trim t) c = generateJobId t c
   \<and> generateJobId (toLowerCase t) c = generateJobId t c
   \<and> generateJobId t (trim c) = generateJobId t c
   \<and> generateJobId t (toLowerCase c) = generateJobId t c
   \<and> generateJobId ''Backend Engineer'' ''Acme Inc''
       = generateJobId '' backend engineer '' ''ACME INC''"
proof -
  have ex: "generateJobId ''Backend Engineer'' ''Acme Inc''
            = generateJobId '' backend engineer '' ''ACME INC''"
    by (simp add: generateJobId_def js_string_eval)
  show ?thesis
    using ex by (simp add: generateJobId_def normalize_trim normalize_toLowerCase)
qed

text \<open>
  Claim C9, as the specification states it, fails: the id hashes the title, then
  \<^verbatim>\<open>::\<close>, then the company, and ("a", "b") and ("b", "a") get different ids.
\<close>

theorem generateJobId_order_counterexample:
  "generateJobId ''a'' ''b'' \<noteq> generateJobId ''b'' ''a''"
  by (simp add: generateJobId_def js_string_eval)

text \<open>
  Claim C9, amended. Swapping the two arguments keeps the id when the title and the
  company have the same normalized (trimmed, lower-cased) form; in general the id
  depends on which string is the title and which the company.
\<close>

theorem generateJobId_swap_same_normal_form:
  "toLowerCase (trim t) = toLowerCase (trim c) \<Longrightarrow>
   generateJobId t c = generateJobId c t"
  by (simp add: generateJobId_def)

theorem generateJobId_swap_same_normal_form_witness:
  "toLowerCase (trim '' Acme'') = toLowerCase (trim ''ACME '')
   \<and> generateJobId '' Acme'' ''ACME '' = generateJobId ''ACME '' '' Acme''"
proof -
  have h: "toLowerCase (trim '' Acme'') = toLowerCase (trim ''ACME '')"
    by (simp add: js_string_eval)
  show ?thesis
    using h generateJobId_swap_same_normal_form [OF h] by simp
qed

text \<open>
  Claim C10. Whatever the URL parser does on an input, \<^verbatim>\<open>getDomainGroup\<close> returns a
  value (it never throws), the value is one of \<^verbatim>\<open>'linkedin'\<close>, \<^verbatim>\<open>'indeed'\<close> and
  \<^verbatim>\<open>'generic'\<close>, and it is \<^verbatim>\<open>'generic'\<close> whenever the parser rejects the input.
\<close>

theorem getDomainGroup_total:
  "(\<exists>g. getDomainGroup parse url = Inr g \<and> (g = ''linkedin'' \<or> g = ''indeed'' \<or> g = ''generic''))
   \<and> (parse url = None \<longrightarrow> getDomainGroup parse url = Inr ''generic'')"
  by (simp add: getDomainGroup_def getDomainGroup_try_def Let_def split: option.split)

theorem getDomainGroup_total_witness:
  "(\<lambda>u. if u = [] then None else Some u) [] = None
   \<and> getDomainGroup (\<lambda>u. if u = [] then None else Some u) [] = Inr ''generic''
   \<and> getDomainGroup (\<lambda>u. if u = [] then None else Some u) ''WWW.LinkedIn.com'' = Inr ''linkedin''"
proof -
  have a: "getDomainGroup (\<lambda>u. if u = [] then None else Some u) [] = Inr ''generic''"
    using getDomainGroup_total [of "\<lambda>u. if u = [] then None else Some u" "[]"] by simp
  have b: "getDomainGroup (\<lambda>u. if u = [] then None else Some u) ''WWW.LinkedIn.com'' = Inr ''linkedin''"
    by (simp add: getDomainGroup_def getDomainGroup_try_def js_string_eval)
  show ?thesis using a b by simp
qed

section \<open>Properties of the orchestrator\<close>

text \<open>
  Claim C2. Single flight. Entering \<^verbatim>\<open>processSingleJob\<close> while the lock
  \<^verbatim>\<open>isProcessing\<close> is held returns at once and leaves the state, trace included, as it
  is. Entered with the lock free, \<^verbatim>\<open>processSingleJob\<close> suspends at least once, the lock
  is held at every one of its suspensions (so a second entry at any of them is such a
  no-op), and it is released on return, whatever the outcome. A start command that finds
  \<^verbatim>\<open>isRunning\<close> set is ignored: it only logs a warning. A start command that finds it
  clear suspends at least once, and \<^verbatim>\<open>isRunning\<close> is set at every suspension from
  there to the end of the run (so a second start command at any of them is ignored).
\<close>

theorem single_flight_discipline:
  "(isProcessing w \<longrightarrow> processSingleJob E rawJob jid rowIndex jobNum w = (Inr (), w))
   \<and> (\<not> isProcessing w \<longrightarrow>
        (\<exists>gs. observed (snd (processSingleJob E rawJob jid rowIndex jobNum w)) = observed w @ gs
              \<and> gs \<noteq> [] \<and> list_all seen_isProcessing gs)
        \<and> \<not> isProcessing (snd (processSingleJob E rawJob jid rowIndex jobNum w)))
   \<and> (isRunning w \<longrightarrow>
        handleStartQueue E opts w
        = (Inr (), log WARN ''Queue already running - ignoring start command'' w))
   \<and> (\<not> isRunning w \<longrightarrow>
        (\<exists>gs. observed (snd (handleStartQueue E opts w)) = observed w @ gs
              \<and> gs \<noteq> [] \<and> list_all seen_isRunning gs))"
proof -
  have guard1: "processSingleJob E rawJob jid rowIndex jobNum w = (Inr (), w)" if "isProcessing w"
    using that by (simp add: processSingleJob_def)
  have release: "\<not> isProcessing (snd (processSingleJob E rawJob jid rowIndex jobNum w))"
    if "\<not> isProcessing w"
    using that by (simp add: processSingleJob_def split_beta split: sum.splits)
  have guard2: "handleStartQueue E opts w
                = (Inr (), log WARN ''Queue already running - ignoring start command'' w)"
    if "isRunning w"
    using that by (simp add: handleStartQueue_def)
  show ?thesis
    using guard1 release guard2 processSingleJob_holds_lock [of w E rawJob jid rowIndex jobNum]
      handleStartQueue_keeps_running [of w E opts]
    by blast
qed

theorem single_flight_discipline_witness:
  "isProcessing w_busy \<and> isRunning w_busy
   \<and> processSingleJob env_ok job_backend ''job_1'' 0 ''[1/2]'' w_busy = (Inr (), w_busy)
   \<and> handleStartQueue env_ok \<lparr>clearHistory = False\<rparr> w_busy
       = (Inr (), log WARN ''Queue already running - ignoring start command'' w_busy)
   \<and> \<not> isProcessing w_two \<and> observed w_two = []
   \<and> observed (snd (processSingleJob env_ok job_analyst ''job_2'' 1 ''[2/2]'' w_two))
       = [\<lparr>seen_isRunning = True, seen_isProcessing = True\<rparr>,
          \<lparr>seen_isRunning = True, seen_isProcessing = True\<rparr>]
   \<and> \<not> isProcessing (snd (processSingleJob env_ok job_analyst ''job_2'' 1 ''[2/2]'' w_two))
   \<and> \<not> isRunning w_idle \<and> observed w_idle = []
   \<and> observed (snd (handleStartQueue env_ok \<lparr>clearHistory = False\<rparr> w_idle)) \<noteq> []
   \<and> list_all seen_isRunning (observed (snd (handleStartQueue env_ok \<lparr>clearHistory = False\<rparr> w_idle)))"
proof -
  have busy: "isProcessing w_busy" "isRunning w_busy"
    by (simp_all add: scenario_defs)
  have free: "\<not> isProcessing w_two" "observed w_two = []" "isRunning w_two"
    "\<not> isRunning w_idle" "observed w_idle = []"
    by (simp_all add: scenario_defs)
  have item: "click env_ok 1 = None" "popup env_ok 1 = Inr popup_no_url"
    "pd_viewFullPostUrl popup_no_url = []"
    by (simp_all add: scenario_defs)
  have obs: "observed (snd (processSingleJob env_ok job_analyst ''job_2'' 1 ''[2/2]'' w_two))
             = [\<lparr>seen_isRunning = True, seen_isProcessing = True\<rparr>,
                \<lparr>seen_isRunning = True, seen_isProcessing = True\<rparr>]"
    using free processJobFlow_no_url [OF item, of job_analyst "''job_2''" "''[2/2]''"
                                          "w_two\<lparr>isProcessing := True\<rparr>"]
    by (simp add: processSingleJob_def popup_done_def)
  show ?thesis
    using busy free obs
      single_flight_discipline [of w_busy env_ok job_backend "''job_1''" 0 "''[1/2]''"
                                   "\<lparr>clearHistory = False\<rparr>"]
      single_flight_discipline [of w_two env_ok job_analyst "''job_2''" 1 "''[2/2]''"
                                   "\<lparr>clearHistory = False\<rparr>"]
      single_flight_discipline [of w_idle env_ok job_analyst "''job_2''" 1 "''[2/2]''"
                                   "\<lparr>clearHistory = False\<rparr>"]
    by (elim conjE) auto
qed

text \<open>
  Claim C3. Cooperative cancellation. If item \<open>k\<close> is started and a stop message is
  dispatched at a suspension point while it is in flight, then item \<open>k\<close> is processed as
  it is when no stop message arrives: same counters, same storage, same open tabs, same
  activity, same status messages; only the stop flag and the log differ. It is counted as
  a success or a failure; the loop ends there (with the stop notice when items remain);
  the part after the loop goes straight to \<^verbatim>\<open>finishQueue\<close>; and after item \<open>k\<close> the
  only activity is that of \<^verbatim>\<open>finishQueue\<close>: no further item, no delay, no phase 2.
\<close>

theorem stop_honored_at_item_boundary:
  assumes "k < length (queue w)" and "\<not> stopRequested w"
    and "awaits w \<le> t" and "t < awaits (runQueue_item E k w)" and "stop_at E t"
  shows "same_but_stop (runQueue_item (unstopped E) k w) (runQueue_item E k w)
         \<and> processedCount (runQueue_item E k w) + failedCount (runQueue_item E k w)
           = processedCount w + failedCount w + 1
         \<and> runQueue_loop E k w
           = (if k + 1 < length (queue w)
              then broadcastStatus ''Processing stopped by user.'' StWarn (runQueue_item E k w)
              else runQueue_item E k w)
         \<and> runQueue_finish E (runQueue_loop E k w)
           = (Inr (), finishQueue (broadcastStatus (phase1_message (runQueue_loop E k w)) StSuccess
                                     (runQueue_loop E k w)))
         \<and> activity (snd (runQueue_finish E (runQueue_loop E k w)))
           = activity (runQueue_item E k w) @ finish_activity w"
proof -
  let ?w1 = "runQueue_item E k w"
  have adv: "advances E w ?w1"
    by (rule advances_runQueue_item)
  have stop1: "stopRequested ?w1"
    using advances_fields(4) [OF adv] assms(3-5) by blast
  have delay: "inter_item_delay E k ?w1 = ?w1"
    using stop1 by (simp add: inter_item_delay_def)
  have loop: "runQueue_loop E k w
              = (if k + 1 < length (queue w)
                 then broadcastStatus ''Processing stopped by user.'' StWarn ?w1 else ?w1)"
    using assms(1,2) stop1
    by (simp add: runQueue_loop_step delay runQueue_loop_stop runQueue_loop_done)
  have stop2: "stopRequested (runQueue_loop E k w)"
    using stop1 by (simp add: loop)
  have fin: "runQueue_finish E (runQueue_loop E k w)
             = (Inr (), finishQueue (broadcastStatus (phase1_message (runQueue_loop E k w)) StSuccess
                                       (runQueue_loop E k w)))"
    by (rule runQueue_finish_stopped [OF stop2])
  have act: "activity (snd (runQueue_finish E (runQueue_loop E k w)))
             = activity ?w1 @ finish_activity w"
    unfolding fin by (simp add: loop finish_activity_def)
  show ?thesis
    using runQueue_item_unstopped runQueue_item_counts loop fin act by simp
qed

theorem stop_honored_at_item_boundary_witness:
  "0 < length (queue w_two) \<and> \<not> stopRequested w_two \<and> awaits w_two \<le> 1
   \<and> 1 < awaits (runQueue_item env_stop 0 w_two) \<and> stop_at env_stop 1
   \<and> processedCount (runQueue_item env_stop 0 w_two) = 1
   \<and> failedCount (runQueue_item env_stop 0 w_two) = 0
   \<and> scrapedJobs (runQueue_item env_stop 0 w_two)
       = Some [item_payload env_stop 0 job_backend popup_backend]
   \<and> same_but_stop (runQueue_item (unstopped env_stop) 0 w_two) (runQueue_item env_stop 0 w_two)
   \<and> runQueue_loop env_stop 0 w_two
       = broadcastStatus ''Processing stopped by user.'' StWarn (runQueue_item env_stop 0 w_two)
   \<and> activity (snd (runQueue_finish env_stop (runQueue_loop env_stop 0 w_two)))
       = activity (runQueue_item env_stop 0 w_two)
         @ [TabsUpdate (Some 7) ''https://landbetterjobs.com/dashboard'', StorageSet QUEUE_ACTIVE]"
proof -
  have r: "reaches_extraction env_stop 0 popup_backend 100" "\<not> isProcessing w_two"
    "storage_ok env_stop 0"
    by (simp_all add: reaches_extraction_def storage_ok_def scenario_defs)
  note ok = runQueue_item_success [OF r(1,2)]
  have h: "0 < length (queue w_two)" "\<not> stopRequested w_two" "awaits w_two \<le> 1"
    "1 < awaits (runQueue_item env_stop 0 w_two)" "stop_at env_stop 1"
    using runQueue_item_success_awaits [OF r(1,2)] by (simp_all add: scenario_defs)
  have w: "dashboardTabId w_two = Some 7" "length (queue w_two) = 2"
    "processedCount w_two = 0" "failedCount w_two = 0" "stored_jobs w_two = []"
    "queue w_two ! 0 = job_backend"
    by (simp_all add: scenario_defs stored_jobs_def)
  have "same_but_stop (runQueue_item (unstopped env_stop) 0 w_two) (runQueue_item env_stop 0 w_two)
        \<and> runQueue_loop env_stop 0 w_two
          = broadcastStatus ''Processing stopped by user.'' StWarn (runQueue_item env_stop 0 w_two)
        \<and> activity (snd (runQueue_finish env_stop (runQueue_loop env_stop 0 w_two)))
          = activity (runQueue_item env_stop 0 w_two) @ finish_activity w_two"
    using stop_honored_at_item_boundary [OF h] w(2) by (elim conjE) simp
  then show ?thesis
    using h ok(1,2,4) r(3) w by (elim conjE) (simp add: finish_activity_def)
qed

text \<open>
  Claim C4. Retry policy of the submission, with 3 attempts and a base delay of 1000 ms.
  The submission function is invoked at most 3 times. It is invoked again after a failure
  only: after 1000 ms following the first failure, after 2000 ms following the second. After
  the third failure the last error is thrown, with no fourth invocation and no further
  sleep.
\<close>

theorem retry_policy:
  "fetches (snd (retry (postJob E p) E MAX_RETRIES RETRY_BASE_DELAY_MS w)) \<le> fetches w + 3
   \<and> (post_outcome E (fetches w) = Inr v \<longrightarrow>
        fst (retry (postJob E p) E MAX_RETRIES RETRY_BASE_DELAY_MS w) = Inr v
        \<and> activity (snd (retry (postJob E p) E MAX_RETRIES RETRY_BASE_DELAY_MS w))
            = activity w @ attempt_events p)
   \<and> (post_outcome E (fetches w) = Inl e1 \<and> post_outcome E (fetches w + 1) = Inr v \<longrightarrow>
        fst (retry (postJob E p) E MAX_RETRIES RETRY_BASE_DELAY_MS w) = Inr v
        \<and> activity (snd (retry (postJob E p) E MAX_RETRIES RETRY_BASE_DELAY_MS w))
            = activity w @ attempt_events p @ [Sleep 1000] @ attempt_events p)
   \<and> (post_outcome E (fetches w) = Inl e1 \<and> post_outcome E (fetches w + 1) = Inl e2
        \<and> post_outcome E (fetches w + 2) = Inr v \<longrightarrow>
        fst (retry (postJob E p) E MAX_RETRIES RETRY_BASE_DELAY_MS w) = Inr v
        \<and> activity (snd (retry (postJob E p) E MAX_RETRIES RETRY_BASE_DELAY_MS w))
            = activity w @ attempt_events p @ [Sleep 1000] @ attempt_events p
              @ [Sleep 2000] @ attempt_events p)
   \<and> (post_outcome E (fetches w) = Inl e1 \<and> post_outcome E (fetches w + 1) = Inl e2
        \<and> post_outcome E (fetches w + 2) = Inl e3 \<longrightarrow>
        fst (retry (postJob E p) E MAX_RETRIES RETRY_BASE_DELAY_MS w) = Inl e3
        \<and> fetches (snd (retry (postJob E p) E MAX_RETRIES RETRY_BASE_DELAY_MS w)) = fetches w + 3
        \<and> activity (snd (retry (postJob E p) E MAX_RETRIES RETRY_BASE_DELAY_MS w))
            = activity w @ attempt_events p @ [Sleep 1000] @ attempt_events p
              @ [Sleep 2000] @ attempt_events p)"
  by (auto simp: retry_postJob split: sum.splits)

theorem retry_policy_witness:
  "post_outcome env_api_down (fetches w_idle) = Inl (Error ''API error 500: down'')
   \<and> post_outcome env_api_down (fetches w_idle + 1) = Inl (Error ''API error 500: down'')
   \<and> post_outcome env_api_down (fetches w_idle + 2) = Inl (Error ''API error 500: down'')
   \<and> fst (retry (postJob env_api_down payload_backend) env_api_down MAX_RETRIES RETRY_BASE_DELAY_MS
              w_idle)
       = Inl (Error ''API error 500: down'')
   \<and> fetches (snd (retry (postJob env_api_down payload_backend) env_api_down MAX_RETRIES
                       RETRY_BASE_DELAY_MS w_idle)) = 3
   \<and> activity (snd (retry (postJob env_api_down payload_backend) env_api_down MAX_RETRIES
                        RETRY_BASE_DELAY_MS w_idle))
       = [StorageGet ''telegram_config'', Fetch ''POST'' (jobId payload_backend), Sleep 1000,
          StorageGet ''telegram_config'', Fetch ''POST'' (jobId payload_backend), Sleep 2000,
          StorageGet ''telegram_config'', Fetch ''POST'' (jobId payload_backend)]"
proof -
  have w: "fetches w_idle = 0" "activity w_idle = []"
    by (simp_all add: w_idle_def activity_def)
  show ?thesis
    using retry_policy [of env_api_down payload_backend w_idle _ "Error ''API error 500: down''"
                           "Error ''API error 500: down''" "Error ''API error 500: down''"]
    by (simp add: api_down_outcome w attempt_events_def)
qed

text \<open>
  Claim C5, as the specification states it, fails: with the backend down for all three
  attempts of an item, the status channel of that item carries four info messages and the
  success message; no error goes over it, and the item counts as processed.
\<close>

theorem submission_error_status_counterexample:
  "post_outcome env_api_down 0 = Inl (Error ''API error 500: down'')
   \<and> post_outcome env_api_down 1 = Inl (Error ''API error 500: down'')
   \<and> post_outcome env_api_down 2 = Inl (Error ''API error 500: down'')
   \<and> map snd (status_log (runQueue_item env_api_down 0 w_two))
       = [StInfo, StInfo, StInfo, StInfo, StSuccess]
   \<and> fetches (runQueue_item env_api_down 0 w_two) = 3
   \<and> processedCount (runQueue_item env_api_down 0 w_two) = 1
   \<and> failedCount (runQueue_item env_api_down 0 w_two) = 0"
proof -
  have r: "reaches_extraction env_api_down 0 popup_backend 100" "\<not> isProcessing w_two"
    by (simp_all add: reaches_extraction_def scenario_defs)
  have w: "status_log w_two = []" "processedCount w_two = 0" "failedCount w_two = 0"
    "fetches w_two = 0"
    by (simp_all add: scenario_defs status_log_def)
  have f: "fetches (runQueue_item env_api_down 0 w_two) = 3"
    using r
    by (simp add: runQueue_item_def processSingleJob_def processJobFlow_extracts Let_def
                  mergeAndSend_def split_beta w
                  submitToAPI_exhausted [OF api_down_outcome api_down_outcome api_down_outcome])
  show ?thesis
    using runQueue_item_success(1,2,6) [OF r] f by (simp add: api_down_outcome w)
qed

text \<open>
  Claim C5, amended. \<^verbatim>\<open>sendJobToAPI\<close> always returns a result and never throws; when
  the three attempts fail, the result is a failure carrying the last error. The merged
  record is written to local storage before the submission starts, and the submission
  leaves local storage and the status channel as they are: the error is logged (at ERROR
  level by \<^verbatim>\<open>sendJobToAPI\<close>, at WARN level by \<^verbatim>\<open>processJobFlow\<close>), not broadcast.
  An item that gets as far as the extraction is counted as a success, with the status
  messages of a success, whatever the submission did, and the run goes on.
\<close>

theorem submission_failure_is_logged_and_isolated:
  "(\<exists>res. fst (sendJobToAPI E p w) = Inr res)
   \<and> scrapedJobs (submitToAPI E p w) = scrapedJobs w
   \<and> status_log (submitToAPI E p w) = status_log w
   \<and> (post_outcome E (fetches w) = Inl e1 \<and> post_outcome E (fetches w + 1) = Inl e2
        \<and> post_outcome E (fetches w + 2) = Inl (Error m3) \<longrightarrow>
        fst (sendJobToAPI E p w) = Inr \<lparr>api_success = False, api_response = [], api_error = m3\<rparr>
        \<and> trace (submitToAPI E p w)
            = trace (exhausted E p (log INFO ''Sending job to API'' w))
              @ [Log ERROR ''Failed to send job to API after retries'',
                 Log WARN (''API submission failed but continuing: '' @ m3)])
   \<and> (\<exists>ws. mergeAndSend E rawJob jid i jobNum pd url src tab v
              = submitToAPI E (buildPayload rawJob jid pd url (scraped_data E i) (email_data E i) src) ws
            \<and> (storage_ok E i \<longrightarrow>
                 scrapedJobs ws
                 = Some (filter (\<lambda>j. jobId j \<noteq> jid) (stored_jobs v)
                         @ [buildPayload rawJob jid pd url (scraped_data E i) (email_data E i) src])))
   \<and> (reaches_extraction E i pd tab \<and> \<not> isProcessing v \<longrightarrow>
        processedCount (runQueue_item E i v) = processedCount v + 1
        \<and> failedCount (runQueue_item E i v) = failedCount v
        \<and> map snd (status_log (runQueue_item E i v))
            = map snd (status_log v) @ [StInfo, StInfo, StInfo, StInfo, StSuccess]
        \<and> (storage_ok E i \<longrightarrow>
             scrapedJobs (runQueue_item E i v)
             = Some (filter (\<lambda>j. jobId j \<noteq> item_jobId i (queue v ! i)) (stored_jobs v)
                     @ [item_payload E i (queue v ! i) pd])))"
proof -
  have a: "\<exists>res. fst (sendJobToAPI E p w) = Inr res"
    by (rule sendJobToAPI_returns)
  have b: "scrapedJobs (submitToAPI E p w) = scrapedJobs w"
    "status_log (submitToAPI E p w) = status_log w"
    by (simp_all add: status_log_submitToAPI)
  have c: "fst (sendJobToAPI E p w) = Inr \<lparr>api_success = False, api_response = [], api_error = m3\<rparr>
           \<and> trace (submitToAPI E p w)
               = trace (exhausted E p (log INFO ''Sending job to API'' w))
                 @ [Log ERROR ''Failed to send job to API after retries'',
                    Log WARN (''API submission failed but continuing: '' @ m3)]"
    if "post_outcome E (fetches w) = Inl e1" "post_outcome E (fetches w + 1) = Inl e2"
      "post_outcome E (fetches w + 2) = Inl (Error m3)"
    using sendJobToAPI_exhausted [OF that, of p] submitToAPI_exhausted [OF that, of p] by simp
  have d: "processedCount (runQueue_item E i v) = processedCount v + 1
           \<and> failedCount (runQueue_item E i v) = failedCount v
           \<and> map snd (status_log (runQueue_item E i v))
               = map snd (status_log v) @ [StInfo, StInfo, StInfo, StInfo, StSuccess]
           \<and> (storage_ok E i \<longrightarrow>
                scrapedJobs (runQueue_item E i v)
                = Some (filter (\<lambda>j. jobId j \<noteq> item_jobId i (queue v ! i)) (stored_jobs v)
                        @ [item_payload E i (queue v ! i) pd]))"
    if "reaches_extraction E i pd tab" "\<not> isProcessing v"
    using runQueue_item_success(1,2,4,6) [OF that] by simp
  show ?thesis
    using a b c d mergeAndSend_saves_first [of E rawJob jid i jobNum pd url src tab v] by blast
qed

theorem submission_failure_is_logged_and_isolated_witness:
  "post_outcome env_api_down (fetches w_two) = Inl (Error ''API error 500: down'')
   \<and> post_outcome env_api_down (fetches w_two + 1) = Inl (Error ''API error 500: down'')
   \<and> post_outcome env_api_down (fetches w_two + 2) = Inl (Error ''API error 500: down'')
   \<and> reaches_extraction env_api_down 0 popup_backend 100 \<and> \<not> isProcessing w_two
   \<and> storage_ok env_api_down 0
   \<and> fst (sendJobToAPI env_api_down payload_backend w_two)
       = Inr \<lparr>api_success = False, api_response = [], api_error = ''API error 500: down''\<rparr>
   \<and> processedCount (runQueue_item env_api_down 0 w_two) = 1
   \<and> failedCount (runQueue_item env_api_down 0 w_two) = 0
   \<and> scrapedJobs (runQueue_item env_api_down 0 w_two) = Some [payload_backend]"
proof -
  have r: "reaches_extraction env_api_down 0 popup_backend 100" "\<not> isProcessing w_two"
    "storage_ok env_api_down 0"
    by (simp_all add: reaches_extraction_def storage_ok_def scenario_defs)
  have w: "processedCount w_two = 0" "failedCount w_two = 0" "stored_jobs w_two = []"
    "queue w_two ! 0 = job_backend"
    by (simp_all add: scenario_defs stored_jobs_def)
  show ?thesis
    using r submission_failure_is_logged_and_isolated
            [of env_api_down payload_backend w_two "Error ''API error 500: down''"
                "Error ''API error 500: down''" "''API error 500: down''"
                job_backend "item_jobId 0 job_backend" 0 "''[1/2]''" popup_backend
                "pd_viewFullPostUrl popup_backend" "source_of env_api_down popup_backend" 100 w_two]
    by (simp add: api_down_outcome w payload_backend_def)
qed

lemma missing_url_fails_the_item:
  assumes "click E i = None" "popup E i = Inr pd" "pd_viewFullPostUrl pd = []" "\<not> isProcessing w"
  shows "fst (processSingleJob E rawJob jid i jobNum w) = Inl no_url_error"
    and "failedCount (runQueue_item E i w) = failedCount w + 1"
    and "processedCount (runQueue_item E i w) = processedCount w"
    and "scrapedJobs (runQueue_item E i w) = scrapedJobs w"
    and "i < length (queue w) \<Longrightarrow> \<not> stopRequested w \<Longrightarrow>
         runQueue_loop E i w = runQueue_loop E (i + 1) (inter_item_delay E i (runQueue_item E i w))"
  using runQueue_item_no_url(1,2,4) [OF assms] assms
  by (simp_all add: processSingleJob_def processJobFlow_no_url runQueue_loop_step)

text \<open>
  Claim C6. The code breaks the claim at the end of the two-item scenario. Item 0 gets
  through, its record is stored and posted; item 1 has no target URL and fails; the
  counters are 1 and 1. Phase 2 then finds two pending records, and the reload of the
  dashboard tab after the first one rejects: \<^verbatim>\<open>handleStartQueue\<close> rejects with that error,
  \<^verbatim>\<open>finishQueue\<close> is not reached, the queue still holds both items and
  \<^verbatim>\<open>isRunning\<close> stays set. (The part of the claim on the single item holds, lemma
  \<open>missing_url_fails_the_item\<close>; when phase 2 returns, the queue is drained, lemma
  \<open>two_items_end_to_end\<close>.)
\<close>

theorem queue_not_drained_after_reload_rejection:
  "reaches_extraction env_reload_rejected 0 popup_backend 100
   \<and> post_outcome env_reload_rejected 0 = Inr ''{}''
   \<and> popup env_reload_rejected 1 = Inr popup_no_url \<and> pd_viewFullPostUrl popup_no_url = []
   \<and> fst (handleStartQueue env_reload_rejected \<lparr>clearHistory = False\<rparr> w_idle)
       = Inl ''No tab with id: 7''
   \<and> processedCount (snd (handleStartQueue env_reload_rejected \<lparr>clearHistory = False\<rparr> w_idle)) = 1
   \<and> failedCount (snd (handleStartQueue env_reload_rejected \<lparr>clearHistory = False\<rparr> w_idle)) = 1
   \<and> map jobId (stored_jobs (snd (handleStartQueue env_reload_rejected \<lparr>clearHistory = False\<rparr> w_idle)))
       = [generateJobId ''Backend Engineer'' ''Acme Inc'']
   \<and> queue (snd (handleStartQueue env_reload_rejected \<lparr>clearHistory = False\<rparr> w_idle))
       = [job_backend, job_analyst]
   \<and> isRunning (snd (handleStartQueue env_reload_rejected \<lparr>clearHistory = False\<rparr> w_idle))"
proof -
  have h: "\<not> isRunning w_idle" "\<not> isProcessing w_idle" "tabs_query env_reload_rejected = Inr [7]"
    "collect_jobs env_reload_rejected = Inr (Some [job_backend, job_analyst])"
    "never_stopped env_reload_rejected"
    "reaches_extraction env_reload_rejected 0 popup_backend 100" "storage_ok env_reload_rejected 0"
    "click env_reload_rejected 1 = None" "popup env_reload_rejected 1 = Inr popup_no_url"
    "pd_viewFullPostUrl popup_no_url = []"
    by (simp_all add: reaches_extraction_def storage_ok_def never_stopped_def env_reload_rejected_def
                      scenario_defs)
  have p: "fetch_jobs env_reload_rejected
           = Inr (\<lparr>resp_ok = True, resp_status = 200, resp_text = [], resp_json = []\<rparr>, pending_jobs)"
    "resp_ok \<lparr>resp_ok = True, resp_status = 200, resp_text = [], resp_json = []\<rparr>"
    "1 < length (filter (\<lambda>job. \<not> jdResumeBuilt job) pending_jobs)"
    "navigate_update env_reload_rejected = None" "navigate_wait env_reload_rejected = None"
    "reload env_reload_rejected 0 = Some ''No tab with id: 7''"
    by (simp_all add: env_reload_rejected_def env_ok_def pending_jobs_def item_payload_def
                      buildPayload_def)
  have po: "post_outcome env_reload_rejected 0 = Inr ''{}''"
    by (simp add: post_outcome_def env_reload_rejected_def env_ok_def)
  have w: "scrapedJobs w_idle = None"
    by (simp add: scenario_defs)
  have jid: "jobId (item_payload env_reload_rejected 0 job_backend popup_backend)
             = generateJobId ''Backend Engineer'' ''Acme Inc''"
    by (simp add: item_payload_def buildPayload_def item_jobId_def job_backend_def or_else_def)
  note counts = two_items_end_to_end(1-3) [OF h, of "\<lparr>clearHistory = False\<rparr>"]
  note stuck = two_items_reload_rejected [OF h p, of "\<lparr>clearHistory = False\<rparr>"]
  show ?thesis
    using h(6,9,10) po counts stuck jid by (simp add: w stored_jobs_def)
qed




text \<open>
  Claim C8. The code breaks the claim where the tab is created and its load times out:
  \<^verbatim>\<open>processJobFlow\<close> throws from the \<^verbatim>\<open>try\<close> block that opened the tab, before the
  \<^verbatim>\<open>finally\<close> block that closes it. No removal of tab 100 is attempted, and the tab is
  open when the loop goes on to the next item.
\<close>

theorem tab_left_open_after_load_timeout:
  "tab_create env_load_timeout 0 = Inr 100
   \<and> tab_load env_load_timeout 0 = Some ''Timeout waiting for tab 100 to complete''
   \<and> openTabs w_two = []
   \<and> activity (runQueue_item env_load_timeout 0 w_two)
       = [ExecuteScript ''simulateClickInMainWorld'', TabsSendMessage ''CLICK_JOB_ACTION'',
          TabsCreate ''https://www.linkedin.com/jobs/view/1'', WaitForTabComplete (Some 100),
          StorageGet STATS, StorageSet STATS]
   \<and> openTabs (runQueue_item env_load_timeout 0 w_two) = [100]
   \<and> runQueue_loop env_load_timeout 0 w_two
       = runQueue_loop env_load_timeout 1
           (inter_item_delay env_load_timeout 0 (runQueue_item env_load_timeout 0 w_two))
   \<and> openTabs (inter_item_delay env_load_timeout 0 (runQueue_item env_load_timeout 0 w_two)) = [100]"
proof -
  have h: "click env_load_timeout 0 = None" "popup env_load_timeout 0 = Inr popup_backend"
    "pd_viewFullPostUrl popup_backend \<noteq> []" "tab_create env_load_timeout 0 = Inr 100"
    "tab_load env_load_timeout 0 = Some ''Timeout waiting for tab 100 to complete''"
    "\<not> isProcessing w_two"
    by (simp_all add: scenario_defs)
  have w: "openTabs w_two = []" "activity w_two = []" "0 < length (queue w_two)"
    "\<not> stopRequested w_two"
    by (simp_all add: scenario_defs activity_def)
  show ?thesis
    using h(4,5) w(1) runQueue_item_load_timeout(1,3) [OF h] runQueue_loop_step [OF w(3,4)]
    by (simp add: w popup_backend_def)
qed

end
